theory Spec2Isabelle
  imports Main "HOL-Library.Sublist" "HOL-Library.AList"
begin

section \<open>Values of the host language\<close>

text \<open>
  Strings are lists of code units; a \<^typ>\<open>char\<close> stands for a code unit below 256, which
  covers every character the program itself tests for. Argument mappings and remote
  responses are JSON trees; numbers are restricted to integers (nothing below depends on
  the value of a number). An object is the list of its own properties in the order in
  which the engine enumerates them (the keys that are array indices first, in ascending
  order, then the other keys in the order of their creation), each key once; its
  prototype is \<open>Object.prototype\<close>. An assignment to \<open>__proto__\<close> can replace the prototype
  of an object the program builds: \<open>JProto p kvs\<close> is the object with the own properties
  \<open>kvs\<close> and the prototype \<open>p\<close>, which is \<open>null\<close>, an array or an object. A parsed JSON
  text holds no such object.
\<close>

datatype json =
    JNull
  | JBool bool
  | JNum int
  | JStr string
  | JArr "json list"
  | JObj "(string \<times> json) list"
  | JProto json "(string \<times> json) list"

text \<open>A thrown value: an error object with its \<open>name\<close> and its \<open>message\<close>.\<close>

datatype jsexn = JsError (exn_name: string) (exn_message: string)

definition Error :: "string \<Rightarrow> jsexn" where
  "Error m = JsError ''Error'' m"

definition TypeError :: "string \<Rightarrow> jsexn" where
  "TypeError m = JsError ''TypeError'' m"

text \<open>What the engine throws when a call finds no room on the call stack.\<close>

definition stack_overflow :: jsexn where
  "stack_overflow = JsError ''RangeError'' ''Maximum call stack size exceeded''"

text \<open>\<open>`${e}`\<close> for an error object (\<open>Error.prototype.toString\<close>).\<close>

definition exn_to_String :: "jsexn \<Rightarrow> string" where
  "exn_to_String e =
     (if exn_name e = [] then exn_message e
      else if exn_message e = [] then exn_name e
      else exn_name e @ '': '' @ exn_message e)"

subsection \<open>String operations\<close>

definition startsWith :: "string \<Rightarrow> string \<Rightarrow> bool" where
  "startsWith s p = prefix p s"

fun includes_str :: "string \<Rightarrow> string \<Rightarrow> bool" where
  "includes_str [] sub = (sub = [])"
| "includes_str (c # cs) sub = (prefix sub (c # cs) \<or> includes_str cs sub)"

fun join :: "string \<Rightarrow> string list \<Rightarrow> string" where
  "join sep [] = []"
| "join sep [x] = x"
| "join sep (x # y # ys) = x @ sep @ join sep (y # ys)"

text \<open>\<open>s.split(c)\<close> for a one-character separator: always at least one part.\<close>

fun split_on :: "char \<Rightarrow> string \<Rightarrow> string list" where
  "split_on sep [] = [[]]"
| "split_on sep (c # cs) =
     (if c = sep then [] # split_on sep cs
      else (case split_on sep cs of
              [] \<Rightarrow> [[c]]
            | p # ps \<Rightarrow> (c # p) # ps))"

text \<open>White space and line terminators removed by \<open>trim()\<close>, among the code units below 256.\<close>

definition is_js_space :: "char \<Rightarrow> bool" where
  "is_js_space c = (c \<in> set [CHR 0x09, CHR 0x0A, CHR 0x0B, CHR 0x0C, CHR 0x0D, CHR 0x20, CHR 0xA0])"

definition trim :: "string \<Rightarrow> string" where
  "trim s = rev (dropWhile is_js_space (rev (dropWhile is_js_space s)))"

text \<open>The class \<open>\w\<close> of a regular expression without the unicode flag.\<close>

definition is_word_char :: "char \<Rightarrow> bool" where
  "is_word_char c =
     (let n = of_char c :: nat in
        (48 \<le> n \<and> n \<le> 57) \<or> (65 \<le> n \<and> n \<le> 90) \<or> (97 \<le> n \<and> n \<le> 122) \<or> n = 95)"

text \<open>Decimal rendering of an integer, as \<open>String(n)\<close> gives it.\<close>

fun show_nat :: "nat \<Rightarrow> string" where
  "show_nat n =
     (if n < 10 then [char_of (48 + n)]
      else show_nat (n div 10) @ [char_of (48 + n mod 10)])"

definition show_int :: "int \<Rightarrow> string" where
  "show_int i = (if i < 0 then CHR ''-'' # show_nat (nat (- i)) else show_nat (nat i))"

text \<open>Truthiness of a value in a condition.\<close>

fun truthy :: "json \<Rightarrow> bool" where
  "truthy JNull = False"
| "truthy (JBool b) = b"
| "truthy (JNum n) = (n \<noteq> 0)"
| "truthy (JStr s) = (s \<noteq> [])"
| "truthy (JArr xs) = True"
| "truthy (JObj kvs) = True"
| "truthy (JProto p kvs) = True"

text \<open>
  Property read \<open>v.k\<close> on a value that is not \<open>null\<close>: an own property of an object, or
  else the property of that name of the nearest object on its prototype chain;
  \<open>undefined\<close> (here \<open>None\<close>) otherwise. Only used with keys that neither
  \<open>Object.prototype\<close> nor an array, a string or a number carries.
\<close>

fun js_get :: "json \<Rightarrow> string \<Rightarrow> json option" where
  "js_get (JObj kvs) k = map_of kvs k"
| "js_get (JProto p kvs) k = (case map_of kvs k of Some v \<Rightarrow> Some v | None \<Rightarrow> js_get p k)"
| "js_get v k = None"

text \<open>\<open>typeof v === "object"\<close> for a value that is neither \<open>null\<close> nor an array.\<close>

fun is_record :: "json \<Rightarrow> bool" where
  "is_record (JObj kvs) = True"
| "is_record (JProto p kvs) = True"
| "is_record v = False"

text \<open>
  The own enumerable properties of a value, in the order of \<open>Object.entries\<close> and of a
  spread: those of an object whatever its prototype, the elements of an array and the
  code units of a string under their indices, none for the other values.
\<close>

fun own_properties :: "json \<Rightarrow> (string \<times> json) list" where
  "own_properties (JObj kvs) = kvs"
| "own_properties (JProto p kvs) = kvs"
| "own_properties (JArr xs) = zip (map show_nat [0..<length xs]) xs"
| "own_properties (JStr s) = zip (map show_nat [0..<length s]) (map (\<lambda>c. JStr [c]) s)"
| "own_properties v = []"

text \<open>Object spread \<open>{...a, ...b}\<close>: the properties of \<open>a\<close>, overridden and extended by those of \<open>b\<close>.\<close>

definition spread :: "(string \<times> json) list \<Rightarrow> (string \<times> json) list \<Rightarrow> (string \<times> json) list" where
  "spread a b = foldl (\<lambda>acc kv. AList.update (fst kv) (snd kv) acc) a b"

text \<open>
  What the program uses of its runtime without defining it: the regular-expression
  engine (\<open>new RegExp(p).test(v)\<close>, which throws on a pattern that does not compile);
  \<open>JSON.stringify\<close>, which throws when the value is nested more deeply than the engine
  can follow; the conversion of an array or an object to a string, which calls the
  methods \<open>toString\<close> and \<open>valueOf\<close> found on the prototype chain and throws when they
  give no primitive value; base64 encoding; the members every plain object inherits,
  each with the string \<open>String\<close> gives for it; and the number of nested calls of a
  function of the program that the call stack has room for where the registry
  preprocesses arguments.
\<close>

record js_runtime =
  regexp_test :: "string \<Rightarrow> string \<Rightarrow> jsexn + bool"
  json_stringify :: "json \<Rightarrow> jsexn + string"
  object_to_String :: "json \<Rightarrow> jsexn + string"
  base64 :: "string \<Rightarrow> string"
  inherited :: "string \<Rightarrow> string option"
  stack_depth :: nat

text \<open>
  \<open>String(v)\<close>, also applied by a template literal: fixed by the language for \<open>null\<close>,
  booleans, numbers and strings; the runtime's conversion for arrays and objects.
\<close>

definition to_String :: "js_runtime \<Rightarrow> json \<Rightarrow> jsexn + string" where
  "to_String rt v =
     (case v of
        JNull \<Rightarrow> Inr ''null''
      | JBool b \<Rightarrow> Inr (if b then ''true'' else ''false'')
      | JNum n \<Rightarrow> Inr (show_int n)
      | JStr s \<Rightarrow> Inr s
      | _ \<Rightarrow> object_to_String rt v)"

section \<open>The outside world\<close>

text \<open>
  The program reaches its backends through \<open>execFile\<close> (child processes) and \<open>fetch\<close>
  (HTTP). Each invocation is recorded, in order; the answer is given by the world and may
  depend on everything invoked before. A \<open>fetch\<close> is recorded with its URL, its headers
  and its body, the serialised request. \<open>timer_first\<close> says whether the discovery timer
  fires before the remote tool list has arrived.
\<close>

datatype invocation =
    ExecFile string "string list"
  | Fetch string "(string \<times> string) list" string

datatype exec_result =
    ExecThrows jsexn
  | ExecError "string option" string
  | ExecOk string

datatype fetch_result =
    FetchThrows jsexn
  | Response nat string "jsexn + json"

record world =
  on_execFile :: "invocation list \<Rightarrow> string \<Rightarrow> string list \<Rightarrow> exec_result"
  on_fetch :: "invocation list \<Rightarrow> string \<Rightarrow> (string \<times> string) list \<Rightarrow> string \<Rightarrow> fetch_result"
  timer_first :: "invocation list \<Rightarrow> bool"

datatype log_level = Debug | Info | Warn | Err

text \<open>
  The process-wide state: the two caches of the Docker module, the invocations made so
  far and the messages handed to the logger.
\<close>

record state =
  validatedContainers :: "(string \<times> bool) list"
  uidCache :: "(string \<times> string) list"
  invoked :: "invocation list"
  logged :: "(log_level \<times> string) list"

definition log_msg :: "log_level \<Rightarrow> string \<Rightarrow> state \<Rightarrow> state" where
  "log_msg lvl msg st = st\<lparr>logged := logged st @ [(lvl, msg)]\<rparr>"

section \<open>The Docker module\<close>

definition dq :: string where
  "dq = [CHR 0x22]"

definition sq :: string where
  "sq = [CHR 0x27]"

definition nl :: string where
  "nl = [CHR 0x0A]"

text \<open>Characters considered dangerous in static values: \<open>; | & > < $\<close>, backtick, newline, carriage return.\<close>

definition DANGEROUS_CHARS :: "char list" where
  "DANGEROUS_CHARS =
     [CHR 0x3B, CHR 0x7C, CHR 0x26, CHR 0x3E, CHR 0x3C, CHR 0x24, CHR 0x60, CHR 0x0A, CHR 0x0D]"

text \<open>The inner loop of \<open>validateStaticSafety\<close>: the first dangerous character a value contains.\<close>

fun dangerous_in :: "char list \<Rightarrow> string \<Rightarrow> char option" where
  "dangerous_in [] val = None"
| "dangerous_in (c # cs) val = (if c \<in> set val then Some c else dangerous_in cs val)"

fun validateStaticSafety :: "string list \<Rightarrow> jsexn + unit" where
  "validateStaticSafety [] = Inr ()"
| "validateStaticSafety (val # vals) =
     (case dangerous_in DANGEROUS_CHARS val of
        Some c \<Rightarrow>
          Inl (Error (''Dangerous character '' @ dq @ [c] @ dq @ '' in static value: '' @ dq @ val @ dq))
      | None \<Rightarrow> validateStaticSafety vals)"

text \<open>
  \<open>execCommand\<close>: Docker commands are wrapped as \<open>sg docker -c <command line>\<close>, with
  arguments that hold a space or a quote put in single quotes.
\<close>

definition quote_arg :: "string \<Rightarrow> string" where
  "quote_arg arg =
     (if CHR 0x20 \<in> set arg \<or> CHR 0x22 \<in> set arg \<or> CHR 0x27 \<in> set arg
      then sq @ concat (map (\<lambda>c. if c = CHR 0x27 then [CHR 0x27, CHR 0x5C, CHR 0x27, CHR 0x27] else [c]) arg) @ sq
      else arg)"

definition execCommand :: "world \<Rightarrow> string \<Rightarrow> string list \<Rightarrow> state \<Rightarrow> (jsexn + string) \<times> state" where
  "execCommand w cmd args st =
     (let finalCmd = (if cmd = ''docker'' then ''sg'' else cmd);
          finalArgs = (if cmd = ''docker''
                       then [''docker'', ''-c'', join '' '' (map quote_arg (cmd # args))]
                       else args);
          st' = st\<lparr>invoked := invoked st @ [ExecFile finalCmd finalArgs]\<rparr>
      in case on_execFile w (invoked st) finalCmd finalArgs of
           ExecThrows e \<Rightarrow> (Inl e, st')
         | ExecError stderr msg \<Rightarrow>
             (Inl (Error (''Command failed: '' @ cmd @ '' '' @ join '' '' args @ nl @
                          (case stderr of
                             None \<Rightarrow> msg
                           | Some s \<Rightarrow> if trim s \<noteq> [] then trim s else msg))),
              st')
         | ExecOk out \<Rightarrow> (Inr out, st'))"

text \<open>\<open>dockerExec({container, command, user, shell})\<close>; the shell defaults to \<open>/bin/bash\<close>.\<close>

definition dockerExec ::
  "world \<Rightarrow> string \<Rightarrow> string list \<Rightarrow> string option \<Rightarrow> string option \<Rightarrow> state \<Rightarrow> (jsexn + string) \<times> state" where
  "dockerExec w container command user shell st =
     (let sh = (case shell of None \<Rightarrow> ''/bin/bash'' | Some s \<Rightarrow> s);
          dockerArgs = [''exec'']
            @ (case user of None \<Rightarrow> [] | Some u \<Rightarrow> if u \<noteq> [] then [''-u'', u] else [])
            @ [container, sh, ''-c'', join '' '' command]
      in execCommand w ''docker'' dockerArgs st)"

subsection \<open>Container ownership\<close>

definition label_format :: string where
  "label_format = ''{{index .Config.Labels '' @ dq @ ''com.ddev.site-name'' @ dq @ ''}}''"

definition inspect_args :: "string \<Rightarrow> string list" where
  "inspect_args container = [''inspect'', ''--format'', label_format, container]"

definition mismatch_error :: "string \<Rightarrow> string \<Rightarrow> string \<Rightarrow> jsexn" where
  "mismatch_error container labelValue ddevProject =
     Error (''Container '' @ dq @ container @ dq @ '' belongs to '' @ dq @ labelValue @ dq
            @ '', not '' @ dq @ ddevProject @ dq)"

text \<open>The last two statements of \<open>validateContainer\<close>: write the cache entry and log.\<close>

definition mark_validated :: "string \<Rightarrow> string \<Rightarrow> state \<Rightarrow> state" where
  "mark_validated container cacheKey st =
     log_msg Debug (''Container '' @ dq @ container @ dq @ '' validated (cached)'')
       (st\<lparr>validatedContainers := AList.update cacheKey True (validatedContainers st)\<rparr>)"

text \<open>
  \<open>validateContainer\<close>. The \<open>try\<close> block either completes or throws: the error of the
  label query, or the mismatch error. The handler rethrows every error whose message
  includes \<open>belongs to\<close> and turns every other one into a warning.
\<close>

definition validateContainer :: "world \<Rightarrow> string \<Rightarrow> string \<Rightarrow> state \<Rightarrow> (jsexn + unit) \<times> state" where
  "validateContainer w container ddevProject st =
     (let cacheKey = container @ '':'' @ ddevProject in
      if cacheKey \<in> set (map fst (validatedContainers st)) then (Inr (), st)
      else
        let st1 = log_msg Debug (''Validating container '' @ dq @ container @ dq
                                 @ '' for project '' @ dq @ ddevProject @ dq) st;
            (r, st2) = execCommand w ''docker'' (inspect_args container) st1;
            thrown = (case r of
                        Inl e \<Rightarrow> Some e
                      | Inr out \<Rightarrow>
                          (let labelValue = trim out in
                           if ddevProject \<noteq> ''default-project'' \<and> labelValue \<noteq> ddevProject
                           then Some (mismatch_error container labelValue ddevProject)
                           else None))
        in case thrown of
             Some e \<Rightarrow>
               if includes_str (exn_message e) ''belongs to'' then (Inl e, st2)
               else (Inr (), mark_validated container cacheKey
                               (log_msg Warn (''Container validation warning: '' @ exn_message e) st2))
           | None \<Rightarrow> (Inr (), mark_validated container cacheKey st2))"

subsection \<open>Resolution of the container user\<close>

definition uid_target_path :: "string \<Rightarrow> string" where
  "uid_target_path user =
     (let parts = split_on CHR '':'' user
      in if length parts > 2 then parts ! 2 else ''/var/www/html'')"

text \<open>The fallback at the end of \<open>resolveContainerUser\<close>.\<close>

definition fall_back :: "string \<Rightarrow> state \<Rightarrow> (jsexn + string) \<times> state" where
  "fall_back cacheKey st =
     (Inr ''www-data'', st\<lparr>uidCache := AList.update cacheKey ''www-data'' (uidCache st)\<rparr>)"

text \<open>
  The part of \<open>resolveContainerUser\<close> after a cache miss: \<open>stat -c %u\<close> as root through
  \<open>/bin/sh\<close>; a non-empty trimmed output is cached and returned, everything else falls
  back. The arrow of the log message is written as its three UTF-8 bytes.
\<close>

definition resolve_uid :: "world \<Rightarrow> string \<Rightarrow> string \<Rightarrow> string \<Rightarrow> state \<Rightarrow> (jsexn + string) \<times> state" where
  "resolve_uid w container targetPath cacheKey st =
     (let (r, st1) = dockerExec w container [''stat -c %u '' @ targetPath] (Some ''root'') (Some ''/bin/sh'') st
      in case r of
           Inr result \<Rightarrow>
             (let uid = trim result in
              if uid \<noteq> []
              then (Inr uid,
                    (log_msg Info (''Resolved auto:uid-from-path:'' @ targetPath @ '' ''
                                   @ [CHR 0xE2, CHR 0x86, CHR 0x92] @ '' UID '' @ uid @ '' (cached)'') st1)
                      \<lparr>uidCache := AList.update cacheKey uid (uidCache st1)\<rparr>)
              else fall_back cacheKey st1)
         | Inl e \<Rightarrow>
             fall_back cacheKey
               (log_msg Warn (''Error resolving UID: '' @ exn_to_String e @ ''. Falling back to www-data'') st1))"

text \<open>\<open>resolveContainerUser\<close>. A cached entry counts only when it is a non-empty string.\<close>

definition resolveContainerUser :: "world \<Rightarrow> string \<Rightarrow> string \<Rightarrow> state \<Rightarrow> (jsexn + string) \<times> state" where
  "resolveContainerUser w user container st =
     (if \<not> startsWith user ''auto:uid-from-path'' then (Inr user, st)
      else
        let targetPath = uid_target_path user;
            cacheKey = container @ '':'' @ targetPath
        in case map_of (uidCache st) cacheKey of
             Some cached \<Rightarrow>
               if cached \<noteq> [] then (Inr cached, st)
               else resolve_uid w container targetPath cacheKey st
           | None \<Rightarrow> resolve_uid w container targetPath cacheKey st)"

section \<open>The command executor\<close>

record validation_rule =
  pattern :: string
  message :: "string option"

record tool_result =
  content :: string
  isError :: "bool option"

definition error_result :: "string \<Rightarrow> tool_result" where
  "error_result msg = \<lparr>content = msg, isError = Some True\<rparr>"

record command_executor =
  commandTemplate :: string
  container :: string
  ddevProject :: string
  user :: string
  shell :: string
  defaultArgs :: "(string \<times> string) list"
  disallowedCommands :: "string list"
  validationRules :: "validation_rule list"

text \<open>
  The constructor; the options object is passed field by field, \<open>None\<close> for an absent
  field. The static safety check of the shell and the \<open>-c\<close> flag is its last statement.
\<close>

definition new_CommandToolExecutor ::
  "string \<Rightarrow> string \<Rightarrow> string \<Rightarrow> string option \<Rightarrow> string option \<Rightarrow> (string \<times> string) list option
   \<Rightarrow> string list option \<Rightarrow> validation_rule list option \<Rightarrow> jsexn + command_executor" where
  "new_CommandToolExecutor commandTemplate' container' ddevProject' user' shell' defaultArgs'
       disallowedCommands' validationRules' =
     (let this = \<lparr>commandTemplate = commandTemplate',
                  container = container',
                  ddevProject = ddevProject',
                  user = (case user' of None \<Rightarrow> ''www-data'' | Some u \<Rightarrow> u),
                  shell = (case shell' of None \<Rightarrow> ''/bin/bash'' | Some s \<Rightarrow> s),
                  defaultArgs = (case defaultArgs' of None \<Rightarrow> [] | Some d \<Rightarrow> d),
                  disallowedCommands = (case disallowedCommands' of None \<Rightarrow> [] | Some d \<Rightarrow> d),
                  validationRules = (case validationRules' of None \<Rightarrow> [] | Some r \<Rightarrow> r)\<rparr>
      in case validateStaticSafety [shell this, ''-c''] of
           Inl e \<Rightarrow> Inl e
         | Inr u \<Rightarrow> Inr this)"

subsection \<open>Templates\<close>

text \<open>
  The matches of \<open>/\{(\w+)\}/g\<close> in a template, left to right: an opening brace, the
  longest non-empty run of word characters, a closing brace. Everything else is literal.
\<close>

datatype piece = Lit char | Hole string

function pieces :: "string \<Rightarrow> piece list" where
  "pieces [] = []"
| "pieces (c # cs) =
     (case dropWhile is_word_char cs of
        [] \<Rightarrow> Lit c # pieces cs
      | d # r \<Rightarrow>
          if c = CHR 0x7B \<and> takeWhile is_word_char cs \<noteq> [] \<and> d = CHR 0x7D
          then Hole (takeWhile is_word_char cs) # pieces r
          else Lit c # pieces cs)"
  by pat_completeness auto
termination
proof (relation "measure length")
  fix c :: char and cs d r
  assume "dropWhile is_word_char cs = d # r"
  then have "length (d # r) \<le> length cs"
    by (metis length_dropWhile_le)
  then show "(r, c # cs) \<in> measure length" by simp
qed auto

fun holes :: "piece list \<Rightarrow> string list" where
  "holes [] = []"
| "holes (Lit c # ps) = holes ps"
| "holes (Hole k # ps) = k # holes ps"

text \<open>\<open>new Set(xs)\<close> as the list of its elements in insertion order.\<close>

fun set_of_list :: "string list \<Rightarrow> string list \<Rightarrow> string list" where
  "set_of_list seen [] = []"
| "set_of_list seen (x # xs) =
     (if x \<in> set seen then set_of_list seen xs else x # set_of_list (x # seen) xs)"

text \<open>
  \<open>key in mergedArgs ? String(mergedArgs[key]) : throw\<close>: an own property wins, then the
  members a plain object inherits; \<open>None\<close> when the key is not in the object. The
  conversion of an own property can throw.
\<close>

definition render_arg ::
  "js_runtime \<Rightarrow> (string \<times> json) list \<Rightarrow> string \<Rightarrow> (jsexn + string) option" where
  "render_arg rt mergedArgs key =
     (case map_of mergedArgs key of
        Some v \<Rightarrow> Some (to_String rt v)
      | None \<Rightarrow> (case inherited rt key of None \<Rightarrow> None | Some shown \<Rightarrow> Some (Inr shown)))"

text \<open>
  The \<open>replace\<close> with a callback: the first placeholder without a value, or with a value
  whose conversion throws, ends it.
\<close>

fun substitute :: "js_runtime \<Rightarrow> (string \<times> json) list \<Rightarrow> piece list \<Rightarrow> jsexn + string" where
  "substitute rt mergedArgs [] = Inr []"
| "substitute rt mergedArgs (Lit c # ps) =
     (case substitute rt mergedArgs ps of
        Inl e \<Rightarrow> Inl e
      | Inr s \<Rightarrow> Inr (c # s))"
| "substitute rt mergedArgs (Hole key # ps) =
     (case render_arg rt mergedArgs key of
        None \<Rightarrow> Inl (Error (''Missing required argument: '' @ key))
      | Some (Inl e) \<Rightarrow> Inl e
      | Some (Inr v) \<Rightarrow>
          (case substitute rt mergedArgs ps of
             Inl e \<Rightarrow> Inl e
           | Inr s \<Rightarrow> Inr (v @ s)))"

subsection \<open>Rules\<close>

text \<open>
  \<open>checkRules\<close>: the loop over the rules. A rule with an empty pattern is skipped; the
  first rule whose pattern matches returns its message (a default when it has none); a
  pattern that does not compile throws.
\<close>

fun checkRules :: "js_runtime \<Rightarrow> validation_rule list \<Rightarrow> string \<Rightarrow> jsexn + string option" where
  "checkRules rt [] v = Inr None"
| "checkRules rt (rule # rules) v =
     (if pattern rule = [] then checkRules rt rules v
      else (case regexp_test rt (pattern rule) v of
              Inl e \<Rightarrow> Inl e
            | Inr matched \<Rightarrow>
                if matched
                then Inr (Some (case message rule of
                                  Some m \<Rightarrow> m
                                | None \<Rightarrow> ''Validation failed for pattern: '' @ pattern rule))
                else checkRules rt rules v))"

text \<open>
  \<open>validateArguments\<close>, called with the argument object as it was received: the rule
  check on its serialisation, then the placeholders no argument provides.
\<close>

definition missing_arguments :: "command_executor \<Rightarrow> (string \<times> json) list \<Rightarrow> string list" where
  "missing_arguments ex args =
     (let placeholders = set_of_list [] (holes (pieces (commandTemplate ex)));
          provided = set_of_list [] (map fst (defaultArgs ex) @ map fst args)
      in filter (\<lambda>p. p \<notin> set provided) placeholders)"

definition command_validateArguments ::
  "js_runtime \<Rightarrow> command_executor \<Rightarrow> (string \<times> json) list \<Rightarrow> jsexn + unit" where
  "command_validateArguments rt ex args =
     (case json_stringify rt (JObj args) of
        Inl e \<Rightarrow> Inl e
      | Inr serialized \<Rightarrow>
          (case checkRules rt (validationRules ex) serialized of
             Inl e \<Rightarrow> Inl e
           | Inr ruleError \<Rightarrow>
               (case ruleError of
                  Some m \<Rightarrow>
                    if m \<noteq> [] then Inl (Error m)
                    else if missing_arguments ex args \<noteq> []
                    then Inl (Error (''Missing required arguments: '' @ join '', '' (missing_arguments ex args)))
                    else Inr ()
                | None \<Rightarrow>
                    if missing_arguments ex args \<noteq> []
                    then Inl (Error (''Missing required arguments: '' @ join '', '' (missing_arguments ex args)))
                    else Inr ())))"

subsection \<open>Execution\<close>

text \<open>The disallowed-command test: the merged \<open>command\<close> argument, when it is a string of the set.\<close>

definition blocked_command :: "command_executor \<Rightarrow> (string \<times> json) list \<Rightarrow> string option" where
  "blocked_command ex mergedArgs =
     (case map_of mergedArgs ''command'' of
        Some (JStr c) \<Rightarrow> if c \<in> set (disallowedCommands ex) then Some c else None
      | _ \<Rightarrow> None)"

text \<open>
  The last two steps of \<open>execute\<close>: ownership validation, whose failure is only logged,
  and the command itself.
\<close>

definition run_in_container ::
  "world \<Rightarrow> command_executor \<Rightarrow> string \<Rightarrow> string \<Rightarrow> state \<Rightarrow> (jsexn + tool_result) \<times> state" where
  "run_in_container w ex usr cmdStr st =
     (let st2 = (case validateContainer w (container ex) (ddevProject ex) st of
                   (Inl e, s) \<Rightarrow> log_msg Warn (''Container validation: '' @ exn_message e) s
                 | (Inr u, s) \<Rightarrow> s);
          st3 = log_msg Info (''EXEC: '' @ container ex @ '' as '' @ usr @ '': '' @ shell ex @ '' -c ...'') st2
      in case dockerExec w (container ex) [cmdStr] (Some usr) (Some (shell ex)) st3 of
           (Inr output, st4) \<Rightarrow> (Inr \<lparr>content = trim output, isError = None\<rparr>, st4)
         | (Inl e, st4) \<Rightarrow> (Inr (error_result (''Execution failed: '' @ exn_message e)), st4))"

text \<open>
  \<open>execute\<close>: resolve the user, merge the defaults, refuse a disallowed command, render
  the template, check the rules on the rendered command, then run it. The rule check
  stands outside every \<open>try\<close>, so an error of the expression engine leaves \<open>execute\<close>.
  \<open>execute\<close> reads its argument only in the spread that merges it with the defaults,
  which copies own properties: \<open>args\<close> is the list of those.
\<close>

definition command_execute ::
  "world \<Rightarrow> js_runtime \<Rightarrow> command_executor \<Rightarrow> (string \<times> json) list \<Rightarrow> state
   \<Rightarrow> (jsexn + tool_result) \<times> state" where
  "command_execute w rt ex args st =
     (case resolveContainerUser w (user ex) (container ex) st of
        (Inl e, st1) \<Rightarrow> (Inl e, st1)
      | (Inr usr, st1) \<Rightarrow>
          (let mergedArgs = spread (map (\<lambda>kv. (fst kv, JStr (snd kv))) (defaultArgs ex)) args
           in case blocked_command ex mergedArgs of
                Some c \<Rightarrow>
                  (Inr (error_result (''Error: Command '' @ sq @ c @ sq @ '' is not allowed'')),
                   log_msg Warn (''Blocked disallowed command: '' @ c) st1)
              | None \<Rightarrow>
                  (case substitute rt mergedArgs (pieces (commandTemplate ex)) of
                     Inl e \<Rightarrow> (Inr (error_result (''Error: '' @ exn_message e)), st1)
                   | Inr cmdStr \<Rightarrow>
                       (case checkRules rt (validationRules ex) cmdStr of
                          Inl e \<Rightarrow> (Inl e, st1)
                        | Inr ruleError \<Rightarrow>
                            (case ruleError of
                               Some m \<Rightarrow>
                                 if m \<noteq> [] then (Inr (error_result (''Validation error: '' @ m)), st1)
                                 else run_in_container w ex usr cmdStr st1
                             | None \<Rightarrow> run_in_container w ex usr cmdStr st1)))))"

section \<open>The proxy executors\<close>

record proxy_executor =
  serverUrl :: string
  forwardArgs :: bool
  timeout :: int
  headers :: "(string \<times> string) list"

text \<open>
  The constructor of the proxy; the timeout is given in whole seconds and kept in
  milliseconds. A token takes precedence over a user name with a password.
\<close>

definition new_McpProxyExecutor ::
  "js_runtime \<Rightarrow> string \<Rightarrow> bool option \<Rightarrow> int option \<Rightarrow> string option \<Rightarrow> string option
   \<Rightarrow> string option \<Rightarrow> bool option \<Rightarrow> bool option \<Rightarrow> proxy_executor" where
  "new_McpProxyExecutor rt serverUrl' forwardArgs' timeout' authUsername authPassword authToken
       authTokenBasic verifySsl =
     \<lparr>serverUrl = serverUrl',
      forwardArgs = (case forwardArgs' of None \<Rightarrow> True | Some b \<Rightarrow> b),
      timeout = (case timeout' of None \<Rightarrow> 10 | Some t \<Rightarrow> t) * 1000,
      headers = [(''Content-Type'', ''application/json'')] @
        (if authToken \<noteq> None \<and> authToken \<noteq> Some []
         then (if authTokenBasic = Some True
               then [(''Authorization'', ''Basic '' @ base64 rt (the authToken))]
               else [(''Authorization'', ''Bearer '' @ the authToken)])
         else if authUsername \<noteq> None \<and> authUsername \<noteq> Some []
                 \<and> authPassword \<noteq> None \<and> authPassword \<noteq> Some []
         then [(''Authorization'', ''Basic '' @ base64 rt (the authUsername @ '':'' @ the authPassword))]
         else [])\<rparr>"

text \<open>
  \<open>rpc\<close>: the request object \<open>{jsonrpc, method, params, id}\<close>; a member whose value is
  \<open>undefined\<close> is left out by the serialisation. The body is serialised before \<open>fetch\<close>
  is called, so a failure of the serialisation sends nothing. A status outside 200..299
  throws.
\<close>

definition rpc_body :: "json option \<Rightarrow> json option \<Rightarrow> json" where
  "rpc_body method params =
     JObj ([(''jsonrpc'', JStr ''2.0'')]
           @ (case method of None \<Rightarrow> [] | Some m \<Rightarrow> [(''method'', m)])
           @ (case params of None \<Rightarrow> [] | Some q \<Rightarrow> [(''params'', q)])
           @ [(''id'', JNum 1)])"

definition rpc ::
  "world \<Rightarrow> js_runtime \<Rightarrow> proxy_executor \<Rightarrow> json option \<Rightarrow> json option \<Rightarrow> state
   \<Rightarrow> (jsexn + json) \<times> state" where
  "rpc w rt px method params st =
     (case json_stringify rt (rpc_body method params) of
        Inl e \<Rightarrow> (Inl e, st)
      | Inr body \<Rightarrow>
          (let st' = st\<lparr>invoked := invoked st @ [Fetch (serverUrl px) (headers px) body]\<rparr>
           in case on_fetch w (invoked st) (serverUrl px) (headers px) body of
                FetchThrows e \<Rightarrow> (Inl e, st')
              | Response status statusText parsed \<Rightarrow>
                  if \<not> (200 \<le> status \<and> status \<le> 299)
                  then (Inl (Error (''HTTP '' @ show_nat status @ '': '' @ statusText)), st')
                  else (case parsed of
                          Inl e \<Rightarrow> (Inl e, st')
                        | Inr v \<Rightarrow> (Inr v, st'))))"

text \<open>\<open>a ?? b\<close> and \<open>a?.k\<close>, with \<open>None\<close> for \<open>undefined\<close>.\<close>

definition nullish :: "json option \<Rightarrow> bool" where
  "nullish a = (a = None \<or> a = Some JNull)"

definition coalesce :: "json option \<Rightarrow> json option \<Rightarrow> json option" where
  "coalesce a b = (if nullish a then b else a)"

definition opt_get :: "json option \<Rightarrow> string \<Rightarrow> json option" where
  "opt_get a k = (if nullish a then None else js_get (the a) k)"

text \<open>
  \<open>parseResponse\<close>. Reading a property of \<open>null\<close> throws, and so can a conversion or a
  serialisation. The \<open>text\<close> of the first content element is declared a string and
  passed on as it is; the model, whose envelopes hold strings, shows a value of another
  type as \<open>String\<close> shows it.
\<close>

definition text_result :: "jsexn + string \<Rightarrow> bool option \<Rightarrow> jsexn + tool_result" where
  "text_result shown flag =
     (case shown of
        Inl e \<Rightarrow> Inl e
      | Inr s \<Rightarrow> Inr \<lparr>content = s, isError = flag\<rparr>)"

definition parseResponse :: "js_runtime \<Rightarrow> json \<Rightarrow> jsexn + tool_result" where
  "parseResponse rt result =
     (if \<not> is_record result
      then (case result of
              JStr s \<Rightarrow> Inr \<lparr>content = s, isError = None\<rparr>
            | _ \<Rightarrow> text_result (json_stringify rt result) None)
      else (case js_get result ''result'' of
              Some v \<Rightarrow> text_result (to_String rt v) None
            | None \<Rightarrow>
                (case js_get result ''content'' of
                   Some (JArr (c0 # cs)) \<Rightarrow>
                     if c0 = JNull
                     then Inl (TypeError (''Cannot read properties of null (reading '' @ sq @ ''text'' @ sq @ '')''))
                     else if nullish (js_get c0 ''text'')
                     then text_result (json_stringify rt result) None
                     else text_result (to_String rt (the (js_get c0 ''text''))) None
                 | _ \<Rightarrow>
                     (case js_get result ''error'' of
                        Some err \<Rightarrow>
                          if err = JNull
                          then Inl (TypeError (''Cannot read properties of null (reading '' @ sq @ ''message'' @ sq @ '')''))
                          else (case (if nullish (js_get err ''message'')
                                      then to_String rt err
                                      else to_String rt (the (js_get err ''message''))) of
                                  Inl e \<Rightarrow> Inl e
                                | Inr shown \<Rightarrow> Inr \<lparr>content = ''RPC Error: '' @ shown, isError = Some True\<rparr>)
                      | None \<Rightarrow> text_result (json_stringify rt result) None))))"

text \<open>The \<open>catch\<close> of \<open>callTool\<close>.\<close>

definition callTool_failed :: "proxy_executor \<Rightarrow> jsexn \<Rightarrow> state \<Rightarrow> tool_result \<times> state" where
  "callTool_failed px e st =
     (if exn_name e = ''AbortError''
      then (error_result (''Request timeout after '' @ show_int (timeout px div 1000) @ ''s''), st)
      else (error_result (''Error: '' @ exn_message e),
            log_msg Err (''MCP proxy error: '' @ exn_to_String e) st))"

text \<open>
  The payload of \<open>callTool\<close>, as the pair of its \<open>method\<close> and \<open>params\<close>: a bound tool name
  gives \<open>tools/call\<close>; otherwise a \<open>method\<close> string among the arguments is forwarded with
  its \<open>params\<close>; otherwise the arguments themselves are the payload, or nothing. The
  argument object is the one the registry has preprocessed.
\<close>

definition payload_of ::
  "proxy_executor \<Rightarrow> json \<Rightarrow> string option \<Rightarrow> json option \<times> json option" where
  "payload_of px args toolName =
     (if toolName \<noteq> None \<and> toolName \<noteq> Some []
      then (Some (JStr ''tools/call''),
            Some (JObj [(''name'', JStr (the toolName)), (''arguments'', args)]))
      else (case js_get args ''method'' of
              Some (JStr m) \<Rightarrow> (Some (JStr m), coalesce (js_get args ''params'') (Some (JObj [])))
            | _ \<Rightarrow> if forwardArgs px then (js_get args ''method'', js_get args ''params'')
                   else (None, None)))"

definition callTool ::
  "world \<Rightarrow> js_runtime \<Rightarrow> proxy_executor \<Rightarrow> json \<Rightarrow> string option \<Rightarrow> state
   \<Rightarrow> tool_result \<times> state" where
  "callTool w rt px args toolName st =
     (case rpc w rt px (fst (payload_of px args toolName)) (snd (payload_of px args toolName)) st of
        (Inl e, st1) \<Rightarrow> callTool_failed px e st1
      | (Inr result, st1) \<Rightarrow>
          (case parseResponse rt result of
             Inl e \<Rightarrow> callTool_failed px e st1
           | Inr res \<Rightarrow> (res, st1)))"

text \<open>
  \<open>fetchRemoteTools\<close>: a bare array, or the \<open>tools\<close> member of the response or of its
  \<open>result\<close>; every failure gives the empty list.
\<close>

definition tools_listed :: "proxy_executor \<Rightarrow> json list \<Rightarrow> state \<Rightarrow> json list \<times> state" where
  "tools_listed px ts st =
     (ts, log_msg Info (''Fetched '' @ show_nat (length ts) @ '' tools from '' @ serverUrl px) st)"

definition fetchRemoteTools :: "world \<Rightarrow> js_runtime \<Rightarrow> proxy_executor \<Rightarrow> state \<Rightarrow> json list \<times> state" where
  "fetchRemoteTools w rt px st =
     (case rpc w rt px (Some (JStr ''tools/list'')) (Some (JObj []))
             (log_msg Info (''Fetching remote tools from '' @ serverUrl px) st) of
        (Inl e, st1) \<Rightarrow>
          ([], log_msg Err (''Failed to fetch tools from '' @ serverUrl px @ '': '' @ exn_to_String e) st1)
      | (Inr result, st1) \<Rightarrow>
          (case result of
             JArr ts \<Rightarrow> tools_listed px ts st1
           | _ \<Rightarrow>
               if is_record result
               then (case coalesce (coalesce (js_get result ''tools'') (opt_get (js_get result ''result'') ''tools''))
                                   (Some (JArr [])) of
                       Some (JArr ts) \<Rightarrow> tools_listed px ts st1
                     | _ \<Rightarrow> tools_listed px [] st1)
               else ([], log_msg Warn (''Unexpected response format from '' @ serverUrl px) st1)))"

section \<open>The tool registry\<close>

text \<open>
  A tool definition as the configuration files give it: one object with the members of
  both tool types, \<open>None\<close> for an absent member. \<open>name\<close> and \<open>container\<close> are strings, as
  the options of the command executor declare them (the container is not read for other
  tool types).
\<close>

record tool_config =
  name :: string
  enabled :: "bool option"
  description :: "string option"
  tool_type :: "string option"
  input_schema :: "json option"
  command_template :: "string option"
  container :: string
  user :: "string option"
  shell :: "string option"
  default_args :: "(string \<times> string) list option"
  disallowed_commands :: "string list option"
  validation_rules :: "validation_rule list option"
  server_url :: "string option"
  forward_args :: "bool option"
  timeout :: "int option"
  auth_username :: "string option"
  auth_password :: "string option"
  auth_token :: "string option"
  auth_token_basic :: "bool option"
  verify_ssl :: "bool option"
  expose_remote_tools :: "bool option"
  tool_prefix :: "string option"
  init_timeout :: "int option"

record bridge_config =
  toolsConfigPath :: string
  ddevProject :: string
  logLevel :: log_level
  logFile :: "string option"
  hostProjectRoot :: string
  containerProjectRoot :: string
  sshUser :: "string option"

text \<open>The three executors behind the one interface \<open>execute\<close> / \<open>validateArguments\<close>.\<close>

datatype executor =
    CommandTool command_executor
  | McpProxy proxy_executor
  | BoundRemoteTool proxy_executor string

record registered_tool =
  config :: tool_config
  executor :: executor

text \<open>The registry: its configuration and its map of tools, in insertion order.\<close>

record registry =
  toolsConfigDir :: string
  config :: bridge_config
  tools :: "(string \<times> registered_tool) list"

subsection \<open>Path normalization\<close>

text \<open>
  The assignment \<open>result[k] = v\<close> to the object \<open>normalize\<close> builds. It sets an own
  property, except for the key \<open>__proto__\<close>: as long as the object has no own property of
  that name and its prototype chain leads to \<open>Object.prototype\<close>, the key denotes the
  accessor inherited from there, whose setter replaces the prototype of the object when
  \<open>v\<close> is \<open>null\<close>, an array or an object, and does nothing for any other \<open>v\<close>.
\<close>

fun can_be_prototype :: "json \<Rightarrow> bool" where
  "can_be_prototype JNull = True"
| "can_be_prototype (JArr xs) = True"
| "can_be_prototype (JObj kvs) = True"
| "can_be_prototype (JProto p kvs) = True"
| "can_be_prototype v = False"

fun leads_to_Object_prototype :: "json \<Rightarrow> bool" where
  "leads_to_Object_prototype JNull = False"
| "leads_to_Object_prototype (JObj kvs) = (''__proto__'' \<notin> set (map fst kvs))"
| "leads_to_Object_prototype (JProto p kvs) = (''__proto__'' \<notin> set (map fst kvs) \<and> leads_to_Object_prototype p)"
| "leads_to_Object_prototype v = True"

fun assign :: "json \<Rightarrow> string \<Rightarrow> json \<Rightarrow> json" where
  "assign (JObj kvs) k v =
     (if k = ''__proto__'' \<and> k \<notin> set (map fst kvs)
      then (if can_be_prototype v then JProto v kvs else JObj kvs)
      else JObj (AList.update k v kvs))"
| "assign (JProto p kvs) k v =
     (if k = ''__proto__'' \<and> k \<notin> set (map fst kvs) \<and> leads_to_Object_prototype p
      then (if can_be_prototype v then JProto v kvs else JProto p kvs)
      else JProto p (AList.update k v kvs))"
| "assign obj k v = obj"

text \<open>
  \<open>normalize\<close> inside \<open>normalizePaths\<close>: a string that starts with the host root and a
  slash gets the container root in place of the host root; an array is mapped element
  by element; an object is rebuilt from its own properties, by assignment to a new
  object; every other value is returned as it is. The function calls itself for every
  element and member, so its nesting follows that of the value: \<open>room\<close> is the number of
  nested calls the call stack still has room for (the call of \<open>map\<close> in between counts
  with the call it makes), and a call that finds none throws.
\<close>

fun normalize :: "nat \<Rightarrow> string \<Rightarrow> string \<Rightarrow> json \<Rightarrow> jsexn + json"
  and normalize_list :: "nat \<Rightarrow> string \<Rightarrow> string \<Rightarrow> json list \<Rightarrow> jsexn + json list"
  and normalize_entries :: "nat \<Rightarrow> string \<Rightarrow> string \<Rightarrow> (string \<times> json) list \<Rightarrow> json \<Rightarrow> jsexn + json" where
  "normalize 0 hostRoot containerRoot v = Inl stack_overflow"
| "normalize (Suc room) hostRoot containerRoot (JStr v) =
     Inr (JStr (if startsWith v (hostRoot @ ''/'') then containerRoot @ drop (length hostRoot) v else v))"
| "normalize (Suc room) hostRoot containerRoot (JArr xs) =
     (case normalize_list room hostRoot containerRoot xs of
        Inl e \<Rightarrow> Inl e
      | Inr ys \<Rightarrow> Inr (JArr ys))"
| "normalize (Suc room) hostRoot containerRoot (JObj kvs) =
     normalize_entries room hostRoot containerRoot kvs (JObj [])"
| "normalize (Suc room) hostRoot containerRoot (JProto p kvs) =
     normalize_entries room hostRoot containerRoot kvs (JObj [])"
| "normalize (Suc room) hostRoot containerRoot JNull = Inr JNull"
| "normalize (Suc room) hostRoot containerRoot (JBool b) = Inr (JBool b)"
| "normalize (Suc room) hostRoot containerRoot (JNum n) = Inr (JNum n)"
| "normalize_list room hostRoot containerRoot [] = Inr []"
| "normalize_list room hostRoot containerRoot (x # xs) =
     (case normalize room hostRoot containerRoot x of
        Inl e \<Rightarrow> Inl e
      | Inr y \<Rightarrow>
          (case normalize_list room hostRoot containerRoot xs of
             Inl e \<Rightarrow> Inl e
           | Inr ys \<Rightarrow> Inr (y # ys)))"
| "normalize_entries room hostRoot containerRoot [] result = Inr result"
| "normalize_entries room hostRoot containerRoot (kv # kvs) result =
     (case normalize room hostRoot containerRoot (snd kv) of
        Inl e \<Rightarrow> Inl e
      | Inr v \<Rightarrow> normalize_entries room hostRoot containerRoot kvs (assign result (fst kv) v))"

definition normalizePaths :: "js_runtime \<Rightarrow> json \<Rightarrow> string \<Rightarrow> string \<Rightarrow> jsexn + json" where
  "normalizePaths rt v hostRoot containerRoot = normalize (stack_depth rt) hostRoot containerRoot v"

text \<open>The preprocessor of the registry, applied to the argument object as it was received.\<close>

definition argPreprocessor :: "js_runtime \<Rightarrow> registry \<Rightarrow> (string \<times> json) list \<Rightarrow> jsexn + json" where
  "argPreprocessor rt reg args =
     normalizePaths rt (JObj args) (hostProjectRoot (registry.config reg)) (containerProjectRoot (registry.config reg))"

subsection \<open>Dispatch\<close>

definition executor_validateArguments :: "js_runtime \<Rightarrow> executor \<Rightarrow> (string \<times> json) list \<Rightarrow> jsexn + unit" where
  "executor_validateArguments rt e args =
     (case e of
        CommandTool ex \<Rightarrow> command_validateArguments rt ex args
      | McpProxy px \<Rightarrow> Inr ()
      | BoundRemoteTool px remoteToolName \<Rightarrow> Inr ())"

text \<open>
  \<open>execute\<close> of the three executors, on the preprocessed argument object; the command
  executor gets its own properties (see \<open>command_execute\<close>).
\<close>

definition executor_execute ::
  "world \<Rightarrow> js_runtime \<Rightarrow> executor \<Rightarrow> json \<Rightarrow> state \<Rightarrow> (jsexn + tool_result) \<times> state" where
  "executor_execute w rt e args st =
     (case e of
        CommandTool ex \<Rightarrow> command_execute w rt ex (own_properties args) st
      | McpProxy px \<Rightarrow> (Inr (fst (callTool w rt px args None st)), snd (callTool w rt px args None st))
      | BoundRemoteTool px remoteToolName \<Rightarrow>
          (Inr (fst (callTool w rt px args (Some remoteToolName) st)),
           snd (callTool w rt px args (Some remoteToolName) st)))"

text \<open>
  \<open>executeTool\<close>: look the tool up, validate the arguments, normalize the paths, execute.
  The preprocessor stands between the two \<open>try\<close> blocks: what it throws leaves
  \<open>executeTool\<close>.
\<close>

definition executeTool ::
  "world \<Rightarrow> js_runtime \<Rightarrow> registry \<Rightarrow> string \<Rightarrow> (string \<times> json) list \<Rightarrow> state
   \<Rightarrow> (jsexn + tool_result) \<times> state" where
  "executeTool w rt reg nm args st =
     (case map_of (tools reg) nm of
        None \<Rightarrow> (Inr (error_result (''Error: Unknown tool '' @ sq @ nm @ sq)), st)
      | Some registered \<Rightarrow>
          (case executor_validateArguments rt (executor registered) args of
             Inl e \<Rightarrow> (Inr (error_result (''Validation error: '' @ exn_message e)), st)
           | Inr u \<Rightarrow>
               (case argPreprocessor rt reg args of
                  Inl e \<Rightarrow> (Inl e, st)
                | Inr processedArgs \<Rightarrow>
                    (case executor_execute w rt (executor registered) processedArgs st of
                       (Inr res, st1) \<Rightarrow> (Inr res, st1)
                     | (Inl e, st1) \<Rightarrow>
                         (Inr (error_result (''Error: '' @ exn_message e)),
                          log_msg Err (''Error executing '' @ nm @ '': '' @ exn_to_String e) st1)))))"

subsection \<open>Loading\<close>

text \<open>
  The replacement string of \<open>String.replace\<close> for a pattern without groups: \<open>$$\<close> is a
  dollar, \<open>$&\<close> the match, \<open>$\<close> with a backtick the text before it, \<open>$'\<close> the text after
  it; everything else is literal.
\<close>

fun expand_replacement :: "string \<Rightarrow> string \<Rightarrow> string \<Rightarrow> string \<Rightarrow> string" where
  "expand_replacement matched before after [] = []"
| "expand_replacement matched before after [c] = [c]"
| "expand_replacement matched before after (c # d # r) =
     (if c = CHR 0x24 \<and> d = CHR 0x24 then CHR 0x24 # expand_replacement matched before after r
      else if c = CHR 0x24 \<and> d = CHR 0x26 then matched @ expand_replacement matched before after r
      else if c = CHR 0x24 \<and> d = CHR 0x60 then before @ expand_replacement matched before after r
      else if c = CHR 0x24 \<and> d = CHR 0x27 then after @ expand_replacement matched before after r
      else c # expand_replacement matched before after (d # r))"

text \<open>\<open>container.replace(/\{DDEV_PROJECT\}/g, project)\<close>, with the text already passed.\<close>

fun replace_project :: "string \<Rightarrow> string \<Rightarrow> string \<Rightarrow> string" where
  "replace_project project before [] = []"
| "replace_project project before (c # cs) =
     (if prefix ''{DDEV_PROJECT}'' (c # cs)
      then expand_replacement ''{DDEV_PROJECT}'' before (drop 13 cs) project
           @ replace_project project (before @ ''{DDEV_PROJECT}'') (drop 13 cs)
      else c # replace_project project (before @ [c]) cs)"

definition interpolateContainerName :: "registry \<Rightarrow> string \<Rightarrow> string" where
  "interpolateContainerName reg c =
     (if includes_str c ''{DDEV_PROJECT}''
      then replace_project (bridge_config.ddevProject (registry.config reg)) [] c
      else c)"

text \<open>
  \<open>createExecutor\<close>: by tool type, \<open>command\<close> when none is given. A missing template or
  URL, an unknown type and an error of a constructor all give no executor.
\<close>

definition createExecutor :: "js_runtime \<Rightarrow> registry \<Rightarrow> tool_config \<Rightarrow> state \<Rightarrow> executor option \<times> state" where
  "createExecutor rt reg toolConfig st =
     (let type = (case tool_type toolConfig of None \<Rightarrow> ''command'' | Some t \<Rightarrow> t) in
      if type = ''command'' then
        (if command_template toolConfig = None \<or> command_template toolConfig = Some []
         then (None, log_msg Err (''Tool '' @ name toolConfig @ '': missing command_template'') st)
         else (case new_CommandToolExecutor
                      (the (command_template toolConfig))
                      (interpolateContainerName reg (tool_config.container toolConfig))
                      (bridge_config.ddevProject (registry.config reg))
                      (tool_config.user toolConfig)
                      (tool_config.shell toolConfig)
                      (default_args toolConfig)
                      (disallowed_commands toolConfig)
                      (validation_rules toolConfig) of
                 Inl e \<Rightarrow>
                   (None, log_msg Err (''Error creating executor for '' @ name toolConfig @ '': ''
                                       @ exn_to_String e) st)
               | Inr ex \<Rightarrow> (Some (CommandTool ex), st)))
      else if type = ''mcp_server'' then
        (if server_url toolConfig = None \<or> server_url toolConfig = Some []
         then (None, log_msg Err (''Tool '' @ name toolConfig @ '': missing server_url'') st)
         else (Some (McpProxy (new_McpProxyExecutor rt
                        (the (server_url toolConfig))
                        (forward_args toolConfig)
                        (tool_config.timeout toolConfig)
                        (auth_username toolConfig)
                        (auth_password toolConfig)
                        (auth_token toolConfig)
                        (auth_token_basic toolConfig)
                        (verify_ssl toolConfig))), st))
      else (None, log_msg Err (''Unknown tool type: '' @ type) st))"

text \<open>
  The configuration \<open>loadRemoteMcpTools\<close> writes for a discovered tool. The description
  and the name of a remote tool are declared strings.
\<close>

definition wrappedConfig :: "tool_config \<Rightarrow> string \<Rightarrow> json \<Rightarrow> tool_config" where
  "wrappedConfig proxyConfig localName remote =
     \<lparr>name = localName,
      enabled = None,
      description = (case js_get remote ''description'' of Some (JStr d) \<Rightarrow> Some d | _ \<Rightarrow> Some []),
      tool_type = Some ''mcp_server'',
      input_schema = js_get remote ''inputSchema'',
      command_template = None,
      container = [],
      user = None,
      shell = None,
      default_args = None,
      disallowed_commands = None,
      validation_rules = None,
      server_url = server_url proxyConfig,
      forward_args = None,
      timeout = None,
      auth_username = None,
      auth_password = None,
      auth_token = None,
      auth_token_basic = None,
      verify_ssl = None,
      expose_remote_tools = None,
      tool_prefix = None,
      init_timeout = None\<rparr>"

text \<open>
  The loop of \<open>loadRemoteMcpTools\<close> over the remote definitions, with the tools and the
  count so far. An element \<open>null\<close> throws on the read of its name and ends the loop; what
  was registered before stays. An element without a non-empty string as its name is
  passed over (a name of another type lies outside the declared type).
\<close>

fun bind_remote_tools ::
  "tool_config \<Rightarrow> proxy_executor \<Rightarrow> json list \<Rightarrow> (string \<times> registered_tool) list \<Rightarrow> nat \<Rightarrow> state
   \<Rightarrow> jsexn option \<times> (string \<times> registered_tool) list \<times> nat \<times> state" where
  "bind_remote_tools proxyConfig px [] ts n st = (None, ts, n, st)"
| "bind_remote_tools proxyConfig px (remote # rest) ts n st =
     (if remote = JNull
      then (Some (TypeError (''Cannot read properties of null (reading '' @ sq @ ''name'' @ sq @ '')'')),
            ts, n, st)
      else (case js_get remote ''name'' of
              Some (JStr remoteName) \<Rightarrow>
                if remoteName = [] then bind_remote_tools proxyConfig px rest ts n st
                else (let prefix' = (case tool_prefix proxyConfig of None \<Rightarrow> [] | Some q \<Rightarrow> q);
                          localName = prefix' @ remoteName
                      in bind_remote_tools proxyConfig px rest
                           (AList.update localName
                              \<lparr>registered_tool.config = wrappedConfig proxyConfig localName remote,
                               executor = BoundRemoteTool px remoteName\<rparr> ts)
                           (Suc n)
                           (log_msg Info (''Loaded remote tool: '' @ localName @ '' (from '' @ remoteName @ '')'') st))
            | _ \<Rightarrow> bind_remote_tools proxyConfig px rest ts n st))"

text \<open>
  \<open>loadRemoteMcpTools\<close>. The request for the tool list is sent before the timer can
  fire (unless its serialisation fails, which ends \<open>fetchRemoteTools\<close> at once); when the
  timer fires first the function fails with a timeout, and what the request does later
  is not part of this call.
\<close>

definition loadRemoteMcpTools ::
  "world \<Rightarrow> js_runtime \<Rightarrow> registry \<Rightarrow> tool_config \<Rightarrow> proxy_executor \<Rightarrow> state
   \<Rightarrow> nat \<times> registry \<times> state" where
  "loadRemoteMcpTools w rt reg proxyConfig px st =
     (let st0 = log_msg Info (''Fetching remote tools from: '' @ name proxyConfig) st;
          initTimeout = (case init_timeout proxyConfig of None \<Rightarrow> 30 | Some t \<Rightarrow> t);
          failed = (\<lambda>e s. (0, reg, log_msg Err (''Failed to load remote tools from '' @ name proxyConfig
                                                @ '': '' @ exn_to_String e) s));
          sent = json_stringify rt (rpc_body (Some (JStr ''tools/list'')) (Some (JObj [])))
      in if (case sent of Inl e \<Rightarrow> False | Inr body \<Rightarrow> timer_first w (invoked st0))
         then failed (Error (''Timeout after '' @ show_int initTimeout @ ''s''))
                ((log_msg Info (''Fetching remote tools from '' @ serverUrl px) st0)
                   \<lparr>invoked := invoked st0 @ (case sent of
                                                 Inl e \<Rightarrow> []
                                               | Inr body \<Rightarrow> [Fetch (serverUrl px) (headers px) body])\<rparr>)
         else (case fetchRemoteTools w rt px st0 of
                 (remoteTools, st1) \<Rightarrow>
                   if remoteTools = [] then (0, reg, log_msg Warn (''No tools from '' @ name proxyConfig) st1)
                   else (case bind_remote_tools proxyConfig px remoteTools (tools reg) 0 st1 of
                           (Some e, ts, n, st2) \<Rightarrow>
                             (0, reg\<lparr>tools := ts\<rparr>,
                              log_msg Err (''Failed to load remote tools from '' @ name proxyConfig
                                           @ '': '' @ exn_to_String e) st2)
                         | (None, ts, n, st2) \<Rightarrow>
                             (n, reg\<lparr>tools := ts\<rparr>,
                              log_msg Info (''Loaded '' @ show_nat n @ '' tools from '' @ name proxyConfig) st2))))"

text \<open>\<open>loadSingleTool\<close>: the number of tools registered for one definition.\<close>

definition loadSingleTool ::
  "world \<Rightarrow> js_runtime \<Rightarrow> registry \<Rightarrow> tool_config \<Rightarrow> state \<Rightarrow> nat \<times> registry \<times> state" where
  "loadSingleTool w rt reg toolConfig st =
     (if name toolConfig = [] then (0, reg, log_msg Warn (''Tool config missing '' @ sq @ ''name'' @ sq) st)
      else if enabled toolConfig = Some False
      then (0, reg, log_msg Info (''Tool disabled: '' @ name toolConfig) st)
      else (case createExecutor rt reg toolConfig st of
              (None, st1) \<Rightarrow> (0, reg, log_msg Warn (''Failed to create executor: '' @ name toolConfig) st1)
            | (Some ex, st1) \<Rightarrow>
                (case ex of
                   McpProxy px \<Rightarrow>
                     if tool_type toolConfig = Some ''mcp_server'' \<and> expose_remote_tools toolConfig = Some True
                     then loadRemoteMcpTools w rt reg toolConfig px st1
                     else (1, reg\<lparr>tools := AList.update (name toolConfig)
                                              \<lparr>registered_tool.config = toolConfig, executor = ex\<rparr> (tools reg)\<rparr>,
                           log_msg Info (''Loaded tool: '' @ name toolConfig) st1)
                 | _ \<Rightarrow>
                     (1, reg\<lparr>tools := AList.update (name toolConfig)
                                          \<lparr>registered_tool.config = toolConfig, executor = ex\<rparr> (tools reg)\<rparr>,
                      log_msg Info (''Loaded tool: '' @ name toolConfig) st1))))"

text \<open>The loop of \<open>loadTools\<close> over the definitions of the configuration files, in order.\<close>

fun load_all ::
  "world \<Rightarrow> js_runtime \<Rightarrow> registry \<Rightarrow> tool_config list \<Rightarrow> nat \<Rightarrow> state \<Rightarrow> nat \<times> registry \<times> state" where
  "load_all w rt reg [] loadedCount st = (loadedCount, reg, st)"
| "load_all w rt reg (toolConfig # rest) loadedCount st =
     (case loadSingleTool w rt reg toolConfig st of
        (n, reg', st') \<Rightarrow> load_all w rt reg' rest (loadedCount + n) st')"

section \<open>Notions used in the statements\<close>

text \<open>The proxy \<open>createExecutor\<close> builds for a definition of type \<open>mcp_server\<close>.\<close>

definition proxy_of :: "js_runtime \<Rightarrow> tool_config \<Rightarrow> proxy_executor" where
  "proxy_of rt toolConfig =
     new_McpProxyExecutor rt
       (the (server_url toolConfig))
       (forward_args toolConfig)
       (tool_config.timeout toolConfig)
       (auth_username toolConfig)
       (auth_password toolConfig)
       (auth_token toolConfig)
       (auth_token_basic toolConfig)
       (verify_ssl toolConfig)"

text \<open>
  Roots between which normalization cannot feed on its own output: equal roots, or roots
  of which neither, followed by a slash, is a prefix of the other followed by a slash.
\<close>

definition roots_apart :: "string \<Rightarrow> string \<Rightarrow> bool" where
  "roots_apart hostRoot containerRoot =
     (hostRoot = containerRoot
      \<or> (\<not> prefix (hostRoot @ ''/'') (containerRoot @ ''/'') \<and> \<not> prefix (containerRoot @ ''/'') (hostRoot @ ''/'')))"

text \<open>
  A value in which no object has an own property \<open>__proto__\<close> that holds \<open>null\<close>, an array
  or an object: the values on which \<open>normalize\<close> replaces no prototype.
\<close>

fun keeps_prototypes :: "json \<Rightarrow> bool"
  and keeps_prototypes_list :: "json list \<Rightarrow> bool"
  and keeps_prototypes_entries :: "(string \<times> json) list \<Rightarrow> bool" where
  "keeps_prototypes (JArr xs) = keeps_prototypes_list xs"
| "keeps_prototypes (JObj kvs) = keeps_prototypes_entries kvs"
| "keeps_prototypes (JProto p kvs) = keeps_prototypes_entries kvs"
| "keeps_prototypes JNull = True"
| "keeps_prototypes (JBool b) = True"
| "keeps_prototypes (JNum n) = True"
| "keeps_prototypes (JStr s) = True"
| "keeps_prototypes_list [] = True"
| "keeps_prototypes_list (x # xs) = (keeps_prototypes x \<and> keeps_prototypes_list xs)"
| "keeps_prototypes_entries [] = True"
| "keeps_prototypes_entries (kv # kvs) =
     ((fst kv = ''__proto__'' \<longrightarrow> \<not> can_be_prototype (snd kv))
      \<and> keeps_prototypes (snd kv) \<and> keeps_prototypes_entries kvs)"

text \<open>Arrays nested \<open>n\<close> deep around \<open>null\<close>: \<open>[[...[null]...]]\<close>.\<close>

fun nested :: "nat \<Rightarrow> json" where
  "nested 0 = JNull"
| "nested (Suc n) = JArr [nested n]"

text \<open>The invocation \<open>execCommand\<close> makes for a Docker command line.\<close>

definition sg_invocation :: "string list \<Rightarrow> invocation" where
  "sg_invocation args = ExecFile ''sg'' [''docker'', ''-c'', join '' '' (map quote_arg (''docker'' # args))]"

section \<open>A concrete runtime and concrete worlds\<close>

text \<open>
  For the concrete examples below: a runtime whose expression engine handles the
  patterns without metacharacters (such a pattern matches the strings that contain it,
  the empty pattern matches every string) and the pattern \<open>(\<close>, which does not compile;
  with the compact serialisation of \<open>JSON.stringify\<close>, which writes the own properties of
  an object whatever its prototype; base64 over the UTF-8 bytes; the members a plain
  object inherits from \<open>Object.prototype\<close>; and room for a thousand nested calls.
\<close>

definition hex_digit :: "nat \<Rightarrow> char" where
  "hex_digit n = ''0123456789abcdef'' ! (n mod 16)"

definition escape_char :: "char \<Rightarrow> string" where
  "escape_char c =
     (if c = CHR 0x22 then [CHR 0x5C, CHR 0x22]
      else if c = CHR 0x5C then [CHR 0x5C, CHR 0x5C]
      else if c = CHR 0x08 then [CHR 0x5C, CHR ''b'']
      else if c = CHR 0x09 then [CHR 0x5C, CHR ''t'']
      else if c = CHR 0x0A then [CHR 0x5C, CHR ''n'']
      else if c = CHR 0x0C then [CHR 0x5C, CHR ''f'']
      else if c = CHR 0x0D then [CHR 0x5C, CHR ''r'']
      else if (of_char c :: nat) < 32
      then [CHR 0x5C, CHR ''u'', CHR ''0'', CHR ''0'', hex_digit (of_char c div 16), hex_digit (of_char c)]
      else [c])"

definition quote_json :: "string \<Rightarrow> string" where
  "quote_json s = dq @ concat (map escape_char s) @ dq"

fun compact_json :: "json \<Rightarrow> string"
  and compact_elems :: "json list \<Rightarrow> string list"
  and compact_members :: "(string \<times> json) list \<Rightarrow> string list" where
  "compact_json JNull = ''null''"
| "compact_json (JBool b) = (if b then ''true'' else ''false'')"
| "compact_json (JNum n) = show_int n"
| "compact_json (JStr s) = quote_json s"
| "compact_json (JArr xs) = ''['' @ join '','' (compact_elems xs) @ '']''"
| "compact_json (JObj kvs) = ''{'' @ join '','' (compact_members kvs) @ ''}''"
| "compact_json (JProto p kvs) = ''{'' @ join '','' (compact_members kvs) @ ''}''"
| "compact_elems [] = []"
| "compact_elems (x # xs) = compact_json x # compact_elems xs"
| "compact_members [] = []"
| "compact_members (kv # kvs) = (quote_json (fst kv) @ '':'' @ compact_json (snd kv)) # compact_members kvs"

definition utf8 :: "char \<Rightarrow> nat list" where
  "utf8 c = (if (of_char c :: nat) < 128 then [of_char c]
             else [192 + of_char c div 64, 128 + of_char c mod 64])"

definition b64_digit :: "nat \<Rightarrow> char" where
  "b64_digit n = ''ABCDEFGHIJKLMNOPQRSTUVWXYZabcdefghijklmnopqrstuvwxyz0123456789+/'' ! (n mod 64)"

fun b64 :: "nat list \<Rightarrow> string" where
  "b64 [] = []"
| "b64 [a] = [b64_digit (a div 4), b64_digit ((a mod 4) * 16), CHR ''='', CHR ''='']"
| "b64 [a, b] =
     [b64_digit (a div 4), b64_digit ((a mod 4) * 16 + b div 16), b64_digit ((b mod 16) * 4), CHR ''='']"
| "b64 (a # b # c # r) =
     [b64_digit (a div 4), b64_digit ((a mod 4) * 16 + b div 16),
      b64_digit ((b mod 16) * 4 + c div 64), b64_digit (c mod 64)] @ b64 r"

definition object_prototype :: "(string \<times> string) list" where
  "object_prototype =
     [(''constructor'', ''function Object() { [native code] }''),
      (''hasOwnProperty'', ''function hasOwnProperty() { [native code] }''),
      (''isPrototypeOf'', ''function isPrototypeOf() { [native code] }''),
      (''propertyIsEnumerable'', ''function propertyIsEnumerable() { [native code] }''),
      (''toLocaleString'', ''function toLocaleString() { [native code] }''),
      (''toString'', ''function toString() { [native code] }''),
      (''valueOf'', ''function valueOf() { [native code] }''),
      (''__defineGetter__'', ''function __defineGetter__() { [native code] }''),
      (''__defineSetter__'', ''function __defineSetter__() { [native code] }''),
      (''__lookupGetter__'', ''function __lookupGetter__() { [native code] }''),
      (''__lookupSetter__'', ''function __lookupSetter__() { [native code] }''),
      (''__proto__'', ''[object Object]'')]"

text \<open>
  The conversion of arrays and objects to strings. The method \<open>toString\<close> is looked up
  on the prototype chain: an own property of that name is data and cannot be called; an
  array on the chain brings the methods of \<open>Array.prototype\<close>; a chain that ends in
  \<open>Object.prototype\<close> brings those of that object; a chain that ends in \<open>null\<close> brings
  none. \<open>Array.prototype.toString\<close> joins the elements below \<open>length\<close>, both read through
  the chain, with commas, \<open>null\<close> and missing elements empty. A \<open>length\<close> that is not a
  number counts when its string is written in decimal digits, and as zero otherwise.
\<close>

datatype lookup = Data | Array_method | Object_method | Absent

fun method_of :: "json \<Rightarrow> string \<Rightarrow> lookup" where
  "method_of (JObj kvs) k =
     (if k \<in> set (map fst kvs) then Data
      else if k \<in> set [''toString'', ''valueOf''] then Object_method else Absent)"
| "method_of (JProto p kvs) k = (if k \<in> set (map fst kvs) then Data else method_of p k)"
| "method_of (JArr xs) k =
     (if k \<in> set [''toString'', ''join''] then Array_method
      else if k = ''valueOf'' then Object_method else Absent)"
| "method_of v k = Absent"

fun get_through :: "json \<Rightarrow> string \<Rightarrow> json option" where
  "get_through (JObj kvs) k = map_of kvs k"
| "get_through (JProto p kvs) k = (case map_of kvs k of Some v \<Rightarrow> Some v | None \<Rightarrow> get_through p k)"
| "get_through (JArr xs) k =
     (if k = ''length'' then Some (JNum (int (length xs)))
      else map_option (\<lambda>i. xs ! i) (find (\<lambda>i. show_nat i = k) [0..<length xs]))"
| "get_through v k = None"

definition decimal :: "string \<Rightarrow> nat" where
  "decimal s =
     (if s \<noteq> [] \<and> (\<forall>c \<in> set s. 48 \<le> (of_char c :: nat) \<and> (of_char c :: nat) \<le> 57)
      then foldl (\<lambda>n c. 10 * n + (of_char c - 48)) 0 s
      else 0)"

fun first_failure :: "(jsexn + string) list \<Rightarrow> jsexn + string list" where
  "first_failure [] = Inr []"
| "first_failure (Inl e # rs) = Inl e"
| "first_failure (Inr s # rs) = (case first_failure rs of Inl e \<Rightarrow> Inl e | Inr ss \<Rightarrow> Inr (s # ss))"

definition length_of :: "(json \<Rightarrow> jsexn + string) \<Rightarrow> json \<Rightarrow> jsexn + nat" where
  "length_of convert v =
     (case get_through v ''length'' of
        None \<Rightarrow> Inr 0
      | Some JNull \<Rightarrow> Inr 0
      | Some (JBool b) \<Rightarrow> Inr (if b then 1 else 0)
      | Some (JNum n) \<Rightarrow> Inr (nat n)
      | Some l \<Rightarrow>
          (case convert l of
             Inl e \<Rightarrow> Inl e
           | Inr s \<Rightarrow> Inr (decimal s)))"

definition element_String :: "(json \<Rightarrow> jsexn + string) \<Rightarrow> json \<Rightarrow> nat \<Rightarrow> jsexn + string" where
  "element_String convert v i =
     (case get_through v (show_nat i) of
        None \<Rightarrow> Inr []
      | Some JNull \<Rightarrow> Inr []
      | Some x \<Rightarrow> convert x)"

definition joined :: "(json \<Rightarrow> jsexn + string) \<Rightarrow> json \<Rightarrow> jsexn + string" where
  "joined convert v =
     (case length_of convert v of
        Inl e \<Rightarrow> Inl e
      | Inr len \<Rightarrow>
          (case first_failure (map (element_String convert v) [0..<len]) of
             Inl e \<Rightarrow> Inl e
           | Inr parts \<Rightarrow> Inr (join '','' parts)))"

text \<open>One call of the conversion, with \<open>convert\<close> for the calls it makes on parts of the value.\<close>

definition converted :: "(json \<Rightarrow> jsexn + string) \<Rightarrow> json \<Rightarrow> jsexn + string" where
  "converted convert v =
     (case v of
        JNull \<Rightarrow> Inr ''null''
      | JBool b \<Rightarrow> Inr (if b then ''true'' else ''false'')
      | JNum n \<Rightarrow> Inr (show_int n)
      | JStr s \<Rightarrow> Inr s
      | _ \<Rightarrow>
          (case method_of v ''toString'' of
             Object_method \<Rightarrow> Inr ''[object Object]''
           | Array_method \<Rightarrow>
               if method_of v ''join'' = Array_method then joined convert v
               else Inr ''[object Object]''
           | _ \<Rightarrow> Inl (TypeError ''Cannot convert object to primitive value'')))"

primrec ordinary_to_String :: "nat \<Rightarrow> json \<Rightarrow> jsexn + string" where
  "ordinary_to_String 0 = (\<lambda>v. Inl stack_overflow)"
| "ordinary_to_String (Suc room) = converted (ordinary_to_String room)"

definition literal_runtime :: js_runtime where
  "literal_runtime =
     \<lparr>regexp_test =
        (\<lambda>p v. if p = ''(''
               then Inl (JsError ''SyntaxError'' ''Invalid regular expression: /(/: Unterminated group'')
               else Inr (includes_str v p)),
      json_stringify = (\<lambda>v. Inr (compact_json v)),
      object_to_String = ordinary_to_String 1000,
      base64 = (\<lambda>s. b64 (concat (map utf8 s))),
      inherited = map_of object_prototype,
      stack_depth = 1000\<rparr>"

text \<open>
  A world in which every child process ends the same way, and one in which every request
  gets the same answer; in both the discovery timer never fires first.
\<close>

definition exec_world :: "exec_result \<Rightarrow> world" where
  "exec_world r =
     \<lparr>on_execFile = (\<lambda>h f a. r),
      on_fetch = (\<lambda>h u hd b. FetchThrows (TypeError ''fetch failed'')),
      timer_first = (\<lambda>h. False)\<rparr>"

definition fetch_world :: "fetch_result \<Rightarrow> world" where
  "fetch_world r =
     \<lparr>on_execFile = (\<lambda>h f a. ExecError None ''spawn sg ENOENT''),
      on_fetch = (\<lambda>h u hd b. r),
      timer_first = (\<lambda>h. False)\<rparr>"

definition fresh_state :: state where
  "fresh_state = \<lparr>validatedContainers = [], uidCache = [], invoked = [], logged = []\<rparr>"

subsection \<open>Concrete tools\<close>

text \<open>
  A command tool for the examples: the command, its flags and a directory are
  placeholders, the flags have a default, \<open>rm\<close> is disallowed, one rule refuses \<open>sudo\<close>,
  and the user is derived from the owner of the default path.
\<close>

definition shell_tool :: command_executor where
  "shell_tool =
     \<lparr>commandTemplate = ''{command} {flags} {dir}'',
      command_executor.container = ''web'',
      command_executor.ddevProject = ''siteA'',
      command_executor.user = ''auto:uid-from-path'',
      command_executor.shell = ''/bin/bash'',
      defaultArgs = [(''flags'', ''-l'')],
      disallowedCommands = [''rm''],
      validationRules = [\<lparr>pattern = ''sudo'', message = Some ''sudo is not allowed''\<rparr>]\<rparr>"

text \<open>
  A registry with the default configuration of the command line and no tools, and a
  tool definition with nothing but its name.
\<close>

definition default_registry :: registry where
  "default_registry =
     \<lparr>toolsConfigDir = ''/etc/wdrmcp/tools'',
      registry.config =
        \<lparr>toolsConfigPath = ''/etc/wdrmcp/tools'',
         bridge_config.ddevProject = ''default-project'',
         logLevel = Info,
         logFile = Some ''/tmp/wdrmcp.log'',
         hostProjectRoot = ''/workspace'',
         containerProjectRoot = ''/var/www/html'',
         sshUser = None\<rparr>,
      tools = []\<rparr>"

definition bare_config :: "string \<Rightarrow> tool_config" where
  "bare_config nm =
     \<lparr>name = nm,
      enabled = None,
      description = None,
      tool_type = None,
      input_schema = None,
      command_template = None,
      container = [],
      user = None,
      shell = None,
      default_args = None,
      disallowed_commands = None,
      validation_rules = None,
      server_url = None,
      forward_args = None,
      timeout = None,
      auth_username = None,
      auth_password = None,
      auth_token = None,
      auth_token_basic = None,
      verify_ssl = None,
      expose_remote_tools = None,
      tool_prefix = None,
      init_timeout = None\<rparr>"

text \<open>
  The same tool with a fixed user and two other rules: one that matches the word \<open>flags\<close>
  and has an empty message, and one whose pattern does not compile. A registry that
  holds it under the name \<open>run\<close>.
\<close>

definition strict_tool :: command_executor where
  "strict_tool =
     shell_tool
       \<lparr>command_executor.user := ''www-data'',
        validationRules := [\<lparr>pattern = ''flags'', message = Some []\<rparr>,
                            \<lparr>pattern = ''('', message = Some ''unbalanced''\<rparr>]\<rparr>"

definition run_registry :: registry where
  "run_registry =
     default_registry
       \<lparr>tools := [(''run'', \<lparr>registered_tool.config = bare_config ''run'', executor = CommandTool strict_tool\<rparr>)]\<rparr>"


text \<open>A proxy definition with discovery and the prefix \<open>remote_\<close>, and the proxy built for it.\<close>

definition remote_config :: tool_config where
  "remote_config =
     (bare_config ''remote'')
       \<lparr>tool_type := Some ''mcp_server'',
        server_url := Some ''http://mcp.test/rpc'',
        expose_remote_tools := Some True,
        tool_prefix := Some ''remote_''\<rparr>"

definition remote_proxy :: proxy_executor where
  "remote_proxy =
     \<lparr>serverUrl = ''http://mcp.test/rpc'',
      forwardArgs = True,
      proxy_executor.timeout = 10000,
      headers = [(''Content-Type'', ''application/json'')]\<rparr>"

text \<open>The answer \<open>{"tools":[{"name":"ping"}]}\<close> to \<open>tools/list\<close>.\<close>

definition ping_listing :: json where
  "ping_listing = JObj [(''tools'', JArr [JObj [(''name'', JStr ''ping'')]])]"

text \<open>The registry with the default configuration that holds the one tool \<open>remote_ping\<close>.\<close>

definition ping_registry :: registry where
  "ping_registry =
     default_registry
       \<lparr>tools := [(''remote_ping'',
                    \<lparr>registered_tool.config = bare_config ''remote_ping'',
                     executor = BoundRemoteTool remote_proxy ''ping''\<rparr>)]\<rparr>"

section \<open>Properties of the Docker module\<close>

subsection \<open>The container user\<close>

lemma execCommand_state:
  "validatedContainers (snd (execCommand w cmd args st)) = validatedContainers st"
  "uidCache (snd (execCommand w cmd args st)) = uidCache st"
  "logged (snd (execCommand w cmd args st)) = logged st"
  by (simp_all add: execCommand_def Let_def split: exec_result.splits)

lemma dockerExec_state:
  "validatedContainers (snd (dockerExec w c cmd u sh st)) = validatedContainers st"
  "uidCache (snd (dockerExec w c cmd u sh st)) = uidCache st"
  "logged (snd (dockerExec w c cmd u sh st)) = logged st"
  by (simp_all add: dockerExec_def Let_def execCommand_state)

lemma resolve_uid_returns: "\<exists>v st'. resolve_uid w c p k st = (Inr v, st')"
  by (auto simp: resolve_uid_def fall_back_def Let_def split: prod.splits sum.splits)

lemma resolve_uid_failed:
  assumes "dockerExec w c [''stat -c %u '' @ p] (Some ''root'') (Some ''/bin/sh'') st = (Inl e, st1)"
  shows "fst (resolve_uid w c p k st) = Inr ''www-data''"
    and "uidCache (snd (resolve_uid w c p k st)) = AList.update k ''www-data'' (uidCache st)"
  using assms dockerExec_state(2)[of w c "[''stat -c %u '' @ p]" "Some ''root''" "Some ''/bin/sh''" st]
  by (simp_all add: resolve_uid_def fall_back_def log_msg_def)

lemma resolve_uid_empty:
  assumes "dockerExec w c [''stat -c %u '' @ p] (Some ''root'') (Some ''/bin/sh'') st = (Inr out, st1)"
    and "trim out = []"
  shows "fst (resolve_uid w c p k st) = Inr ''www-data''"
    and "uidCache (snd (resolve_uid w c p k st)) = AList.update k ''www-data'' (uidCache st)"
  using assms dockerExec_state(2)[of w c "[''stat -c %u '' @ p]" "Some ''root''" "Some ''/bin/sh''" st]
  by (simp_all add: resolve_uid_def fall_back_def log_msg_def)

lemma resolve_uid_found:
  assumes "dockerExec w c [''stat -c %u '' @ p] (Some ''root'') (Some ''/bin/sh'') st = (Inr out, st1)"
    and "trim out \<noteq> []"
  shows "fst (resolve_uid w c p k st) = Inr (trim out)"
    and "uidCache (snd (resolve_uid w c p k st)) = AList.update k (trim out) (uidCache st)"
  using assms dockerExec_state(2)[of w c "[''stat -c %u '' @ p]" "Some ''root''" "Some ''/bin/sh''" st]
  by (simp_all add: resolve_uid_def fall_back_def log_msg_def Let_def)

lemma resolveContainerUser_miss:
  assumes "startsWith usr ''auto:uid-from-path''"
    and "map_of (uidCache st) (c @ '':'' @ uid_target_path usr) = None
         \<or> map_of (uidCache st) (c @ '':'' @ uid_target_path usr) = Some []"
  shows "resolveContainerUser w usr c st
         = resolve_uid w c (uid_target_path usr) (c @ '':'' @ uid_target_path usr) st"
  using assms by (auto simp: resolveContainerUser_def Let_def)

text \<open>
  Claim C7. \<open>resolveContainerUser\<close> never throws. A user string that does not begin with
  \<open>auto:uid-from-path\<close> is returned unchanged, with the state untouched. For a user
  string that begins with it: a non-empty cached entry is returned; otherwise the lookup
  (\<open>stat\<close> as root) is made, and when it fails or its trimmed output is empty,
  \<open>www-data\<close> is cached and returned, and when it succeeds the trimmed output is cached
  and returned.
\<close>

theorem resolveContainerUser_never_fails:
  "(\<exists>v st'. resolveContainerUser w usr c st = (Inr v, st'))
   \<and> (\<not> startsWith usr ''auto:uid-from-path'' \<longrightarrow> resolveContainerUser w usr c st = (Inr usr, st))
   \<and> (startsWith usr ''auto:uid-from-path'' \<longrightarrow>
        (\<forall>cached. map_of (uidCache st) (c @ '':'' @ uid_target_path usr) = Some cached \<and> cached \<noteq> []
            \<longrightarrow> resolveContainerUser w usr c st = (Inr cached, st)))
   \<and> (startsWith usr ''auto:uid-from-path''
        \<and> (map_of (uidCache st) (c @ '':'' @ uid_target_path usr) = None
           \<or> map_of (uidCache st) (c @ '':'' @ uid_target_path usr) = Some []) \<longrightarrow>
        (case fst (dockerExec w c [''stat -c %u '' @ uid_target_path usr] (Some ''root'') (Some ''/bin/sh'') st) of
           Inl e \<Rightarrow>
             fst (resolveContainerUser w usr c st) = Inr ''www-data''
             \<and> uidCache (snd (resolveContainerUser w usr c st))
               = AList.update (c @ '':'' @ uid_target_path usr) ''www-data'' (uidCache st)
         | Inr result \<Rightarrow>
             if trim result = []
             then fst (resolveContainerUser w usr c st) = Inr ''www-data''
                  \<and> uidCache (snd (resolveContainerUser w usr c st))
                    = AList.update (c @ '':'' @ uid_target_path usr) ''www-data'' (uidCache st)
             else fst (resolveContainerUser w usr c st) = Inr (trim result)
                  \<and> uidCache (snd (resolveContainerUser w usr c st))
                    = AList.update (c @ '':'' @ uid_target_path usr) (trim result) (uidCache st)))"
  (is "?total \<and> ?plain \<and> ?hit \<and> ?miss")
proof -
  have total: ?total
    using resolve_uid_returns[of w c "uid_target_path usr" "c @ '':'' @ uid_target_path usr" st]
    by (auto simp: resolveContainerUser_def Let_def split: option.splits)
  have plain: ?plain
    by (simp add: resolveContainerUser_def)
  have hit: ?hit
    by (simp add: resolveContainerUser_def Let_def)
  have miss: ?miss
  proof (intro impI)
    assume a: "startsWith usr ''auto:uid-from-path''
        \<and> (map_of (uidCache st) (c @ '':'' @ uid_target_path usr) = None
           \<or> map_of (uidCache st) (c @ '':'' @ uid_target_path usr) = Some [])"
    have eq: "resolveContainerUser w usr c st
         = resolve_uid w c (uid_target_path usr) (c @ '':'' @ uid_target_path usr) st"
      using a by (intro resolveContainerUser_miss) auto
    obtain out st1 where look:
      "dockerExec w c [''stat -c %u '' @ uid_target_path usr] (Some ''root'') (Some ''/bin/sh'') st = (out, st1)"
      by (cases "dockerExec w c [''stat -c %u '' @ uid_target_path usr] (Some ''root'') (Some ''/bin/sh'') st")
    show "case fst (dockerExec w c [''stat -c %u '' @ uid_target_path usr] (Some ''root'') (Some ''/bin/sh'') st) of
           Inl e \<Rightarrow>
             fst (resolveContainerUser w usr c st) = Inr ''www-data''
             \<and> uidCache (snd (resolveContainerUser w usr c st))
               = AList.update (c @ '':'' @ uid_target_path usr) ''www-data'' (uidCache st)
         | Inr result \<Rightarrow>
             if trim result = []
             then fst (resolveContainerUser w usr c st) = Inr ''www-data''
                  \<and> uidCache (snd (resolveContainerUser w usr c st))
                    = AList.update (c @ '':'' @ uid_target_path usr) ''www-data'' (uidCache st)
             else fst (resolveContainerUser w usr c st) = Inr (trim result)
                  \<and> uidCache (snd (resolveContainerUser w usr c st))
                    = AList.update (c @ '':'' @ uid_target_path usr) (trim result) (uidCache st)"
    proof (cases out)
      case (Inl e)
      with look resolve_uid_failed[of w c "uid_target_path usr" st e st1] show ?thesis
        by (simp add: eq)
    next
      case (Inr result)
      with look resolve_uid_empty[of w c "uid_target_path usr" st result st1]
        resolve_uid_found[of w c "uid_target_path usr" st result st1] show ?thesis
        by (simp add: eq)
    qed
  qed
  from total plain hit miss show ?thesis by blast
qed

lemma sentinel_path: "uid_target_path ''auto:uid-from-path'' = ''/var/www/html''"
  by (simp add: uid_target_path_def)

theorem resolveContainerUser_never_fails_witness:
  "fst (resolveContainerUser (exec_world (ExecOk (''33'' @ nl))) ''auto:uid-from-path'' ''web'' fresh_state)
     = Inr ''33''
   \<and> uidCache (snd (resolveContainerUser (exec_world (ExecOk (''33'' @ nl))) ''auto:uid-from-path'' ''web''
                      fresh_state))
     = [(''web:/var/www/html'', ''33'')]
   \<and> fst (resolveContainerUser (exec_world (ExecError None ''exit 1'')) ''auto:uid-from-path'' ''web'' fresh_state)
     = Inr ''www-data''
   \<and> resolveContainerUser (exec_world (ExecOk (''33'' @ nl))) ''www-data'' ''web'' fresh_state
     = (Inr ''www-data'', fresh_state)"
proof -
  let ?ok = "exec_world (ExecOk (''33'' @ nl))"
  let ?bad = "exec_world (ExecError None ''exit 1'')"
  let ?u = "''auto:uid-from-path''"
  have s: "startsWith ?u ''auto:uid-from-path''"
    by (simp add: startsWith_def)
  have m: "map_of (uidCache fresh_state) (''web'' @ '':'' @ uid_target_path ?u) = None"
    by (simp add: fresh_state_def)
  have ok: "fst (dockerExec ?ok ''web'' [''stat -c %u '' @ uid_target_path ?u] (Some ''root'') (Some ''/bin/sh'')
                 fresh_state) = Inr (''33'' @ nl)"
    by (simp add: dockerExec_def execCommand_def exec_world_def Let_def)
  have bad: "\<exists>e. fst (dockerExec ?bad ''web'' [''stat -c %u '' @ uid_target_path ?u] (Some ''root'')
                  (Some ''/bin/sh'') fresh_state) = Inl e"
    by (simp add: dockerExec_def execCommand_def exec_world_def Let_def)
  have free: "\<not> startsWith ''www-data'' ''auto:uid-from-path''"
    by (simp add: startsWith_def)
  from resolveContainerUser_never_fails[of ?ok ?u "''web''" fresh_state] s m
  have "case fst (dockerExec ?ok ''web'' [''stat -c %u '' @ uid_target_path ?u] (Some ''root'') (Some ''/bin/sh'')
                 fresh_state) of
           Inl e \<Rightarrow>
             fst (resolveContainerUser ?ok ?u ''web'' fresh_state) = Inr ''www-data''
             \<and> uidCache (snd (resolveContainerUser ?ok ?u ''web'' fresh_state))
               = AList.update (''web'' @ '':'' @ uid_target_path ?u) ''www-data'' (uidCache fresh_state)
         | Inr result \<Rightarrow>
             if trim result = []
             then fst (resolveContainerUser ?ok ?u ''web'' fresh_state) = Inr ''www-data''
                  \<and> uidCache (snd (resolveContainerUser ?ok ?u ''web'' fresh_state))
                    = AList.update (''web'' @ '':'' @ uid_target_path ?u) ''www-data'' (uidCache fresh_state)
             else fst (resolveContainerUser ?ok ?u ''web'' fresh_state) = Inr (trim result)
                  \<and> uidCache (snd (resolveContainerUser ?ok ?u ''web'' fresh_state))
                    = AList.update (''web'' @ '':'' @ uid_target_path ?u) (trim result) (uidCache fresh_state)"
    by blast
  then have 1: "fst (resolveContainerUser ?ok ?u ''web'' fresh_state) = Inr ''33''
      \<and> uidCache (snd (resolveContainerUser ?ok ?u ''web'' fresh_state)) = [(''web:/var/www/html'', ''33'')]"
    unfolding ok by (simp add: trim_def is_js_space_def nl_def sentinel_path fresh_state_def)
  from resolveContainerUser_never_fails[of ?bad ?u "''web''" fresh_state] s m
  have "case fst (dockerExec ?bad ''web'' [''stat -c %u '' @ uid_target_path ?u] (Some ''root'') (Some ''/bin/sh'')
                 fresh_state) of
           Inl e \<Rightarrow> fst (resolveContainerUser ?bad ?u ''web'' fresh_state) = Inr ''www-data''
         | Inr result \<Rightarrow> True"
    by (auto split: sum.splits)
  with bad have 2: "fst (resolveContainerUser ?bad ?u ''web'' fresh_state) = Inr ''www-data''"
    by auto
  from resolveContainerUser_never_fails[of ?ok "''www-data''" "''web''" fresh_state] free
  have 3: "resolveContainerUser ?ok ''www-data'' ''web'' fresh_state = (Inr ''www-data'', fresh_state)"
    by blast
  from 1 2 3 show ?thesis by blast
qed

subsection \<open>Container ownership\<close>

lemma execCommand_invoked:
  "invoked (snd (execCommand w ''docker'' args st)) = invoked st @ [sg_invocation args]"
  by (simp add: execCommand_def sg_invocation_def Let_def split: exec_result.splits)

lemma log_msg_state [simp]:
  "validatedContainers (log_msg l m st) = validatedContainers st"
  "uidCache (log_msg l m st) = uidCache st"
  "invoked (log_msg l m st) = invoked st"
  "logged (log_msg l m st) = logged st @ [(l, m)]"
  by (simp_all add: log_msg_def)

lemma execCommand_after_log:
  "fst (execCommand w cmd args (log_msg l m st)) = fst (execCommand w cmd args st)"
  by (simp add: execCommand_def Let_def split: exec_result.splits)

lemma includes_str_iff: "includes_str s sub \<longleftrightarrow> (\<exists>a b. s = a @ sub @ b)"
proof (induction s)
  case Nil
  then show ?case by auto
next
  case (Cons c cs)
  show ?case
  proof
    assume "includes_str (c # cs) sub"
    then consider "prefix sub (c # cs)" | "includes_str cs sub" by auto
    then show "\<exists>a b. c # cs = a @ sub @ b"
    proof cases
      case 1
      then obtain b where "c # cs = sub @ b" by (auto simp: prefix_def)
      then have "c # cs = [] @ sub @ b" by simp
      then show ?thesis by blast
    next
      case 2
      with Cons.IH obtain a b where "cs = a @ sub @ b" by blast
      then have "c # cs = (c # a) @ sub @ b" by simp
      then show ?thesis by blast
    qed
  next
    assume "\<exists>a b. c # cs = a @ sub @ b"
    then obtain a b where ab: "c # cs = a @ sub @ b" by blast
    show "includes_str (c # cs) sub"
    proof (cases a)
      case Nil
      with ab have "prefix sub (c # cs)" by (simp add: prefix_def)
      then show ?thesis by simp
    next
      case (Cons x a')
      with ab have "cs = a' @ sub @ b" by simp
      with Cons.IH have "includes_str cs sub" by blast
      then show ?thesis by simp
    qed
  qed
qed

lemma mismatch_error_belongs: "includes_str (exn_message (mismatch_error c l p)) ''belongs to''"
proof -
  have "exn_message (mismatch_error c l p)
        = (''Container '' @ dq @ c @ dq @ '' '') @ ''belongs to'' @ ('' '' @ dq @ l @ dq @ '', not '' @ dq @ p @ dq)"
    by (simp add: mismatch_error_def Error_def)
  then show ?thesis
    unfolding includes_str_iff by blast
qed

text \<open>What \<open>validateContainer\<close> does after a cache miss, by the outcome of the label query.\<close>

lemma validateContainer_miss:
  assumes miss: "c @ '':'' @ p \<notin> set (map fst (validatedContainers st))"
    and q: "execCommand w ''docker'' (inspect_args c)
              (log_msg Debug (''Validating container '' @ dq @ c @ dq @ '' for project '' @ dq @ p @ dq) st)
            = (r, st2)"
  shows "validateContainer w c p st =
     (case r of
        Inl e \<Rightarrow>
          if includes_str (exn_message e) ''belongs to'' then (Inl e, st2)
          else (Inr (), mark_validated c (c @ '':'' @ p)
                          (log_msg Warn (''Container validation warning: '' @ exn_message e) st2))
      | Inr out \<Rightarrow>
          if p \<noteq> ''default-project'' \<and> trim out \<noteq> p
          then (Inl (mismatch_error c (trim out) p), st2)
          else (Inr (), mark_validated c (c @ '':'' @ p) st2))"
  using miss q mismatch_error_belongs[of c _ p]
  by (simp add: validateContainer_def Let_def split: sum.splits)

lemma validateContainer_hit:
  "c @ '':'' @ p \<in> set (map fst (validatedContainers st)) \<Longrightarrow> validateContainer w c p st = (Inr (), st)"
  by (simp add: validateContainer_def)

lemma mark_validated_state [simp]:
  "validatedContainers (mark_validated c k st) = AList.update k True (validatedContainers st)"
  "uidCache (mark_validated c k st) = uidCache st"
  "invoked (mark_validated c k st) = invoked st"
  by (simp_all add: mark_validated_def)

lemma validateContainer_failed:
  assumes "fst (validateContainer w c p st) = Inl e"
  shows "c @ '':'' @ p \<notin> set (map fst (validatedContainers st))"
    and "validatedContainers (snd (validateContainer w c p st)) = validatedContainers st"
proof -
  show miss: "c @ '':'' @ p \<notin> set (map fst (validatedContainers st))"
  proof
    assume "c @ '':'' @ p \<in> set (map fst (validatedContainers st))"
    then have "validateContainer w c p st = (Inr (), st)" by (rule validateContainer_hit)
    with assms show False by simp
  qed
  obtain r st2 where q: "execCommand w ''docker'' (inspect_args c)
              (log_msg Debug (''Validating container '' @ dq @ c @ dq @ '' for project '' @ dq @ p @ dq) st)
            = (r, st2)"
    by (cases "execCommand w ''docker'' (inspect_args c)
              (log_msg Debug (''Validating container '' @ dq @ c @ dq @ '' for project '' @ dq @ p @ dq) st)")
  have st2: "validatedContainers st2 = validatedContainers st"
    using execCommand_state(1)[of w "''docker''" "inspect_args c"
              "log_msg Debug (''Validating container '' @ dq @ c @ dq @ '' for project '' @ dq @ p @ dq) st"]
    unfolding q by simp
  show "validatedContainers (snd (validateContainer w c p st)) = validatedContainers st"
    using assms st2 unfolding validateContainer_miss[OF miss q]
    by (auto split: sum.splits if_splits)
qed

lemma validateContainer_miss_invoked:
  assumes miss: "c @ '':'' @ p \<notin> set (map fst (validatedContainers st))"
  shows "invoked (snd (validateContainer w c p st)) = invoked st @ [sg_invocation (inspect_args c)]"
proof -
  obtain r st2 where q: "execCommand w ''docker'' (inspect_args c)
              (log_msg Debug (''Validating container '' @ dq @ c @ dq @ '' for project '' @ dq @ p @ dq) st)
            = (r, st2)"
    by (cases "execCommand w ''docker'' (inspect_args c)
              (log_msg Debug (''Validating container '' @ dq @ c @ dq @ '' for project '' @ dq @ p @ dq) st)")
  have st2: "invoked st2 = invoked st @ [sg_invocation (inspect_args c)]"
    using execCommand_invoked[of w "inspect_args c"
              "log_msg Debug (''Validating container '' @ dq @ c @ dq @ '' for project '' @ dq @ p @ dq) st"]
    unfolding q by simp
  show ?thesis
    using st2 unfolding validateContainer_miss[OF miss q]
    by (auto split: sum.splits if_splits)
qed

lemma validateContainer_passed:
  assumes "fst (validateContainer w c p st) = Inr ()"
  shows "c @ '':'' @ p \<in> set (map fst (validatedContainers (snd (validateContainer w c p st))))"
proof (cases "c @ '':'' @ p \<in> set (map fst (validatedContainers st))")
  case True
  then show ?thesis by (simp add: validateContainer_hit)
next
  case miss: False
  obtain r st2 where q: "execCommand w ''docker'' (inspect_args c)
              (log_msg Debug (''Validating container '' @ dq @ c @ dq @ '' for project '' @ dq @ p @ dq) st)
            = (r, st2)"
    by (cases "execCommand w ''docker'' (inspect_args c)
              (log_msg Debug (''Validating container '' @ dq @ c @ dq @ '' for project '' @ dq @ p @ dq) st)")
  show ?thesis
    using assms unfolding validateContainer_miss[OF miss q]
    by (auto simp: AList.dom_update split: sum.splits if_splits)
qed


text \<open>
  Claim C10. When \<open>validateContainer\<close> fails (with the ownership mismatch or any other
  error it rethrows) the validation cache is as it was before, and the next call for
  the same container and project, in any world, queries the label again. When it
  returns normally (the check passed or the query failure was only a warning) the key is
  in the cache, and the next call returns at once and leaves the state as it is.
\<close>

theorem validation_cache_written_on_pass_only:
  "(\<forall>e. fst (validateContainer w c p st) = Inl e \<longrightarrow>
        validatedContainers (snd (validateContainer w c p st)) = validatedContainers st
        \<and> (\<forall>w'. invoked (snd (validateContainer w' c p (snd (validateContainer w c p st))))
                  = invoked (snd (validateContainer w c p st)) @ [sg_invocation (inspect_args c)]))
   \<and> (fst (validateContainer w c p st) = Inr () \<longrightarrow>
        c @ '':'' @ p \<in> set (map fst (validatedContainers (snd (validateContainer w c p st))))
        \<and> (\<forall>w'. validateContainer w' c p (snd (validateContainer w c p st))
                  = (Inr (), snd (validateContainer w c p st))))"
proof (intro conjI allI impI)
  fix e
  assume f: "fst (validateContainer w c p st) = Inl e"
  show same: "validatedContainers (snd (validateContainer w c p st)) = validatedContainers st"
    using f by (rule validateContainer_failed(2))
  fix w'
  have "c @ '':'' @ p \<notin> set (map fst (validatedContainers (snd (validateContainer w c p st))))"
    using validateContainer_failed(1)[OF f] same by simp
  then show "invoked (snd (validateContainer w' c p (snd (validateContainer w c p st))))
             = invoked (snd (validateContainer w c p st)) @ [sg_invocation (inspect_args c)]"
    by (rule validateContainer_miss_invoked)
next
  assume ok: "fst (validateContainer w c p st) = Inr ()"
  show cached: "c @ '':'' @ p \<in> set (map fst (validatedContainers (snd (validateContainer w c p st))))"
    using ok by (rule validateContainer_passed)
  fix w'
  show "validateContainer w' c p (snd (validateContainer w c p st)) = (Inr (), snd (validateContainer w c p st))"
    using cached by (rule validateContainer_hit)
qed

lemma label_siteA_for_siteB:
  "fst (validateContainer (exec_world (ExecOk (''siteA'' @ nl)))
          ''web'' ''siteB'' fresh_state)
   = Inl (mismatch_error ''web'' ''siteA'' ''siteB'')"
  by (simp add: validateContainer_def execCommand_def exec_world_def fresh_state_def log_msg_def Let_def
        trim_def is_js_space_def mismatch_error_def Error_def dq_def nl_def)

lemma label_siteA_for_siteA:
  "fst (validateContainer (exec_world (ExecOk (''siteA'' @ nl)))
          ''web'' ''siteA'' fresh_state)
   = Inr ()"
  by (simp add: validateContainer_def execCommand_def exec_world_def fresh_state_def log_msg_def Let_def
        trim_def is_js_space_def nl_def)

theorem validation_cache_written_on_pass_only_witness:
  "fst (validateContainer (exec_world (ExecOk (''siteA'' @ nl)))
          ''web'' ''siteB'' fresh_state)
     = Inl (mismatch_error ''web'' ''siteA'' ''siteB'')
   \<and> validatedContainers
        (snd (validateContainer (exec_world (ExecOk (''siteA'' @ nl)))
                ''web'' ''siteB'' fresh_state))
     = []
   \<and> invoked
        (snd (validateContainer (exec_world (ExecOk ''siteB'')) ''web'' ''siteB''
           (snd (validateContainer (exec_world (ExecOk (''siteA'' @ nl)))
                   ''web'' ''siteB'' fresh_state))))
     = invoked
        (snd (validateContainer (exec_world (ExecOk (''siteA'' @ nl)))
                ''web'' ''siteB'' fresh_state))
       @ [sg_invocation (inspect_args ''web'')]
   \<and> fst (validateContainer (exec_world (ExecOk (''siteA'' @ nl)))
          ''web'' ''siteA'' fresh_state)
     = Inr ()
   \<and> validateContainer (exec_world (ExecOk ''siteB'')) ''web'' ''siteA''
        (snd (validateContainer (exec_world (ExecOk (''siteA'' @ nl)))
                ''web'' ''siteA'' fresh_state))
     = (Inr (),
        snd (validateContainer (exec_world (ExecOk (''siteA'' @ nl)))
               ''web'' ''siteA'' fresh_state))"
  using validation_cache_written_on_pass_only
          [of "exec_world (ExecOk (''siteA'' @ nl))"
              "''web''" "''siteB''" fresh_state]
        validation_cache_written_on_pass_only
          [of "exec_world (ExecOk (''siteA'' @ nl))"
              "''web''" "''siteA''" fresh_state]
        label_siteA_for_siteB label_siteA_for_siteA
  by (simp add: fresh_state_def)


lemma validateContainer_query:
  assumes miss: "c @ '':'' @ p \<notin> set (map fst (validatedContainers st))"
  shows "fst (validateContainer w c p st) =
     (case fst (execCommand w ''docker'' (inspect_args c) st) of
        Inl e \<Rightarrow> if includes_str (exn_message e) ''belongs to'' then Inl e else Inr ()
      | Inr out \<Rightarrow>
          if p \<noteq> ''default-project'' \<and> trim out \<noteq> p
          then Inl (mismatch_error c (trim out) p)
          else Inr ())"
proof -
  obtain r st2 where q: "execCommand w ''docker'' (inspect_args c)
              (log_msg Debug (''Validating container '' @ dq @ c @ dq @ '' for project '' @ dq @ p @ dq) st)
            = (r, st2)"
    by (cases "execCommand w ''docker'' (inspect_args c)
              (log_msg Debug (''Validating container '' @ dq @ c @ dq @ '' for project '' @ dq @ p @ dq) st)")
  have r: "fst (execCommand w ''docker'' (inspect_args c) st) = r"
    using execCommand_after_log[of w "''docker''" "inspect_args c" Debug
              "''Validating container '' @ dq @ c @ dq @ '' for project '' @ dq @ p @ dq" st]
    unfolding q by simp
  show ?thesis
    unfolding validateContainer_miss[OF miss q] r
    by (simp split: sum.splits)
qed

lemma validateContainer_soft_skip:
  assumes miss: "c @ '':'' @ p \<notin> set (map fst (validatedContainers st))"
    and fails: "fst (execCommand w ''docker'' (inspect_args c) st) = Inl e"
    and other: "\<not> includes_str (exn_message e) ''belongs to''"
  shows "(Warn, ''Container validation warning: '' @ exn_message e)
           \<in> set (logged (snd (validateContainer w c p st)))"
proof -
  obtain r st2 where q: "execCommand w ''docker'' (inspect_args c)
              (log_msg Debug (''Validating container '' @ dq @ c @ dq @ '' for project '' @ dq @ p @ dq) st)
            = (r, st2)"
    by (cases "execCommand w ''docker'' (inspect_args c)
              (log_msg Debug (''Validating container '' @ dq @ c @ dq @ '' for project '' @ dq @ p @ dq) st)")
  have r: "fst (execCommand w ''docker'' (inspect_args c) st) = r"
    using execCommand_after_log[of w "''docker''" "inspect_args c" Debug
              "''Validating container '' @ dq @ c @ dq @ '' for project '' @ dq @ p @ dq" st]
    unfolding q by simp
  show ?thesis
    using fails other unfolding validateContainer_miss[OF miss q] r[symmetric]
    by (simp add: mark_validated_def)
qed

text \<open>
  Claim C6, as the code has it. With the expected project \<open>default-project\<close> the label is
  never compared: whatever label the query returns, the validation passes, and when the
  validation fails the error is the one of the label query. With any other expected
  project, on a cache miss, a label that differs from it (after trimming) fails with the
  mismatch error. On a cache miss, a failed label query whose message does not contain
  \<open>belongs to\<close> is logged as a warning, the key is cached and the call returns normally.
\<close>

theorem validateContainer_ownership:
  "(\<forall>out. fst (execCommand w ''docker'' (inspect_args c) st) = Inr out \<longrightarrow>
        fst (validateContainer w c ''default-project'' st) = Inr ())
   \<and> (\<forall>e. fst (validateContainer w c ''default-project'' st) = Inl e \<longrightarrow>
        fst (execCommand w ''docker'' (inspect_args c) st) = Inl e)
   \<and> (c @ '':'' @ p \<notin> set (map fst (validatedContainers st)) \<and> p \<noteq> ''default-project'' \<longrightarrow>
        (\<forall>out. fst (execCommand w ''docker'' (inspect_args c) st) = Inr out \<and> trim out \<noteq> p \<longrightarrow>
           fst (validateContainer w c p st) = Inl (mismatch_error c (trim out) p)))
   \<and> (c @ '':'' @ p \<notin> set (map fst (validatedContainers st)) \<longrightarrow>
        (\<forall>e. fst (execCommand w ''docker'' (inspect_args c) st) = Inl e
             \<and> \<not> includes_str (exn_message e) ''belongs to'' \<longrightarrow>
           fst (validateContainer w c p st) = Inr ()
           \<and> (Warn, ''Container validation warning: '' @ exn_message e)
               \<in> set (logged (snd (validateContainer w c p st)))
           \<and> c @ '':'' @ p \<in> set (map fst (validatedContainers (snd (validateContainer w c p st))))))"
  (is "?wild \<and> ?wild_fail \<and> ?mismatch \<and> ?soft")
proof -
  have wild: ?wild
  proof (intro allI impI)
    fix out
    assume q: "fst (execCommand w ''docker'' (inspect_args c) st) = Inr out"
    show "fst (validateContainer w c ''default-project'' st) = Inr ()"
    proof (cases "c @ '':'' @ ''default-project'' \<in> set (map fst (validatedContainers st))")
      case True
      then show ?thesis by (simp add: validateContainer_hit)
    next
      case False
      then show ?thesis
        unfolding validateContainer_query[OF False] q by simp
    qed
  qed
  have wild_fail: ?wild_fail
  proof (intro allI impI)
    fix e
    assume f: "fst (validateContainer w c ''default-project'' st) = Inl e"
    have miss: "c @ '':'' @ ''default-project'' \<notin> set (map fst (validatedContainers st))"
      using f by (rule validateContainer_failed(1))
    show "fst (execCommand w ''docker'' (inspect_args c) st) = Inl e"
      using f unfolding validateContainer_query[OF miss]
      by (simp split: sum.splits if_splits)
  qed
  have mismatch: ?mismatch
  proof (intro allI impI, elim conjE)
    fix out
    assume miss: "c @ '':'' @ p \<notin> set (map fst (validatedContainers st))"
      and "p \<noteq> ''default-project''"
      and "fst (execCommand w ''docker'' (inspect_args c) st) = Inr out"
      and "trim out \<noteq> p"
    then show "fst (validateContainer w c p st) = Inl (mismatch_error c (trim out) p)"
      unfolding validateContainer_query[OF miss] by simp
  qed
  have soft: ?soft
  proof (intro allI impI, elim conjE)
    fix e
    assume miss: "c @ '':'' @ p \<notin> set (map fst (validatedContainers st))"
      and fails: "fst (execCommand w ''docker'' (inspect_args c) st) = Inl e"
      and other: "\<not> includes_str (exn_message e) ''belongs to''"
    have ok: "fst (validateContainer w c p st) = Inr ()"
      using fails other unfolding validateContainer_query[OF miss] by simp
    show "fst (validateContainer w c p st) = Inr ()
           \<and> (Warn, ''Container validation warning: '' @ exn_message e)
               \<in> set (logged (snd (validateContainer w c p st)))
           \<and> c @ '':'' @ p \<in> set (map fst (validatedContainers (snd (validateContainer w c p st))))"
      using ok validateContainer_soft_skip[OF miss fails other] validateContainer_passed[OF ok]
      by blast
  qed
  from wild wild_fail mismatch soft show ?thesis by blast
qed

lemma query_siteA:
  "fst (execCommand (exec_world (ExecOk (''siteA'' @ nl))) ''docker'' (inspect_args ''web'') fresh_state)
   = Inr (''siteA'' @ nl)"
  by (simp add: execCommand_def exec_world_def Let_def)

lemma query_no_such_container:
  "fst (execCommand (exec_world (ExecError (Some ''Error: No such object: web'') ''exit 1''))
          ''docker'' (inspect_args ''web'') fresh_state)
   = Inl (Error (''Command failed: docker '' @ join '' '' (inspect_args ''web'') @ nl
                 @ ''Error: No such object: web''))"
  by (simp add: execCommand_def exec_world_def Let_def trim_def is_js_space_def)

theorem validateContainer_ownership_witness:
  "fst (validateContainer (exec_world (ExecOk (''siteA'' @ nl))) ''web'' ''default-project'' fresh_state) = Inr ()
   \<and> fst (validateContainer (exec_world (ExecOk (''siteA'' @ nl))) ''web'' ''siteB'' fresh_state)
       = Inl (mismatch_error ''web'' ''siteA'' ''siteB'')
   \<and> fst (validateContainer (exec_world (ExecError (Some ''Error: No such object: web'') ''exit 1''))
            ''web'' ''siteB'' fresh_state) = Inr ()
   \<and> ''web:siteB'' \<in> set (map fst (validatedContainers
        (snd (validateContainer (exec_world (ExecError (Some ''Error: No such object: web'') ''exit 1''))
            ''web'' ''siteB'' fresh_state))))"
proof -
  have miss: "''web'' @ '':'' @ ''siteB'' \<notin> set (map fst (validatedContainers fresh_state))"
    by (simp add: fresh_state_def)
  have differs: "trim (''siteA'' @ nl) = ''siteA''" "''siteA'' \<noteq> ''siteB''" "''siteB'' \<noteq> ''default-project''"
    by (simp_all add: trim_def is_js_space_def nl_def)
  have other: "\<not> includes_str (exn_message (Error (''Command failed: docker '' @ join '' '' (inspect_args ''web'')
                 @ nl @ ''Error: No such object: web''))) ''belongs to''"
    by (simp add: Error_def inspect_args_def label_format_def dq_def nl_def)
  from validateContainer_ownership[of "exec_world (ExecOk (''siteA'' @ nl))" "''web''" fresh_state "''siteB''"]
    query_siteA miss differs
  have 1: "fst (validateContainer (exec_world (ExecOk (''siteA'' @ nl))) ''web'' ''default-project'' fresh_state)
             = Inr ()"
    and 2: "fst (validateContainer (exec_world (ExecOk (''siteA'' @ nl))) ''web'' ''siteB'' fresh_state)
       = Inl (mismatch_error ''web'' ''siteA'' ''siteB'')"
    by metis+
  from validateContainer_ownership
         [of "exec_world (ExecError (Some ''Error: No such object: web'') ''exit 1'')" "''web''" fresh_state
             "''siteB''"]
    query_no_such_container miss other
  have 3: "fst (validateContainer (exec_world (ExecError (Some ''Error: No such object: web'') ''exit 1''))
            ''web'' ''siteB'' fresh_state) = Inr ()
     \<and> ''web'' @ '':'' @ ''siteB'' \<in> set (map fst (validatedContainers
        (snd (validateContainer (exec_world (ExecError (Some ''Error: No such object: web'') ''exit 1''))
            ''web'' ''siteB'' fresh_state))))"
    by blast
  from 1 2 3 show ?thesis by simp
qed

text \<open>
  The claim as stated fails in two places. A label query that fails with a message
  containing \<open>belongs to\<close> is rethrown, so the validation fails instead of warning; and
  for a key that is already cached nothing is compared, so a container whose label
  differs from the expected project passes.
\<close>

theorem validateContainer_ownership_counterexample:
  "fst (validateContainer
          (exec_world (ExecError (Some ''volume belongs to another project'') ''exit 1''))
          ''web'' ''siteB'' fresh_state)
     = Inl (Error (''Command failed: docker '' @ join '' '' (inspect_args ''web'') @ nl
                   @ ''volume belongs to another project''))
   \<and> validateContainer (exec_world (ExecOk (''siteA'' @ nl))) ''web'' ''siteB''
        (fresh_state\<lparr>validatedContainers := [(''web:siteB'', True)]\<rparr>)
     = (Inr (), fresh_state\<lparr>validatedContainers := [(''web:siteB'', True)]\<rparr>)"
  by (simp add: validateContainer_def execCommand_def exec_world_def fresh_state_def log_msg_def Let_def
        trim_def is_js_space_def Error_def inspect_args_def label_format_def dq_def nl_def)

section \<open>Properties of the registry\<close>

subsection \<open>Path normalization\<close>

lemma normalize_room:
  "0 < d \<Longrightarrow> normalize d h c (JStr v)
     = Inr (JStr (if startsWith v (h @ ''/'') then c @ drop (length h) v else v))"
  "0 < d \<Longrightarrow> normalize d h c (JArr xs)
     = (case normalize_list (d - 1) h c xs of Inl e \<Rightarrow> Inl e | Inr ys \<Rightarrow> Inr (JArr ys))"
  "0 < d \<Longrightarrow> normalize d h c (JObj kvs) = normalize_entries (d - 1) h c kvs (JObj [])"
  "0 < d \<Longrightarrow> normalize d h c (JProto p kvs) = normalize_entries (d - 1) h c kvs (JObj [])"
  "0 < d \<Longrightarrow> normalize d h c JNull = Inr JNull"
  "0 < d \<Longrightarrow> normalize d h c (JBool b) = Inr (JBool b)"
  "0 < d \<Longrightarrow> normalize d h c (JNum n) = Inr (JNum n)"
  by (cases d; simp)+

lemma literal_depth: "stack_depth literal_runtime = 1000"
  by (simp add: literal_runtime_def)

lemma rewrite_once:
  "normalize (Suc d) h c (JStr (h @ ''/'' @ rest)) = Inr (JStr (c @ ''/'' @ rest))"
  by (simp add: startsWith_def)

lemma normalize_str_settles:
  assumes "roots_apart h c"
  shows "normalize (Suc d) h c (JStr (if startsWith v (h @ ''/'') then c @ drop (length h) v else v))
         = Inr (JStr (if startsWith v (h @ ''/'') then c @ drop (length h) v else v))"
proof (cases "prefix (h @ ''/'') v")
  case False
  then show ?thesis by (simp add: startsWith_def)
next
  case True
  then obtain rest where v: "v = h @ ''/'' @ rest" by (auto simp: prefix_def)
  have once: "(if startsWith v (h @ ''/'') then c @ drop (length h) v else v) = c @ ''/'' @ rest"
    by (simp add: startsWith_def v)
  show ?thesis
  proof (cases "h = c")
    case True
    then show ?thesis unfolding once by (simp add: startsWith_def)
  next
    case False
    with assms have apart: "\<not> prefix (h @ ''/'') (c @ ''/'')" "\<not> prefix (c @ ''/'') (h @ ''/'')"
      by (auto simp: roots_apart_def)
    have "\<not> prefix (h @ ''/'') (c @ ''/'' @ rest)"
    proof
      assume "prefix (h @ ''/'') (c @ ''/'' @ rest)"
      moreover have "prefix (c @ ''/'') (c @ ''/'' @ rest)" by simp
      ultimately have "prefix (h @ ''/'') (c @ ''/'') \<or> prefix (c @ ''/'') (h @ ''/'')"
        by (metis prefix_same_cases append.assoc)
      with apart show False by blast
    qed
    then show ?thesis unfolding once by (simp add: startsWith_def)
  qed
qed

lemma update_absent: "k \<notin> set (map fst acc) \<Longrightarrow> AList.update k v acc = acc @ [(k, v)]"
  by (induction acc) auto

lemma update_members:
  "kv \<in> set (AList.update k v es) \<Longrightarrow> kv = (k, v) \<or> kv \<in> set es"
  by (induction es) (auto split: if_splits)

text \<open>An object whose members are all settled is rebuilt member by member as it is.\<close>

lemma rebuild_settled:
  "distinct (map fst es) \<Longrightarrow> ''__proto__'' \<notin> set (map fst es)
   \<Longrightarrow> \<forall>kv \<in> set es. normalize d h c (snd kv) = Inr (snd kv)
   \<Longrightarrow> set (map fst es) \<inter> set (map fst acc) = {}
   \<Longrightarrow> normalize_entries d h c es (JObj acc) = Inr (JObj (acc @ es))"
proof (induction es arbitrary: acc)
  case Nil
  then show ?case by simp
next
  case (Cons kv es)
  obtain k x where kv: "kv = (k, x)" by (cases kv)
  from Cons.prems have k: "k \<noteq> ''__proto__''" "k \<notin> set (map fst acc)" "k \<notin> set (map fst es)"
    and x: "normalize d h c x = Inr x"
    by (auto simp: kv)
  have step: "assign (JObj acc) k x = JObj (acc @ [(k, x)])"
    using k by (simp add: update_absent)
  have "normalize_entries d h c es (JObj (acc @ [(k, x)])) = Inr (JObj ((acc @ [(k, x)]) @ es))"
  proof (rule Cons.IH)
    show "distinct (map fst es)" using Cons.prems by simp
    show "''__proto__'' \<notin> set (map fst es)" using Cons.prems by simp
    show "\<forall>kv \<in> set es. normalize d h c (snd kv) = Inr (snd kv)" using Cons.prems by simp
    show "set (map fst es) \<inter> set (map fst (acc @ [(k, x)])) = {}"
      using Cons.prems k by (auto simp: kv)
  qed
  then show ?case by (simp add: kv x step del: assign.simps)
qed

lemma normalize_settles:
  "roots_apart h c \<Longrightarrow> keeps_prototypes v \<Longrightarrow> normalize d h c v = Inr y
   \<Longrightarrow> normalize d h c y = Inr y"
  "roots_apart h c \<Longrightarrow> keeps_prototypes_list xs \<Longrightarrow> normalize_list d h c xs = Inr ys
   \<Longrightarrow> normalize_list d h c ys = Inr ys"
  "roots_apart h c \<Longrightarrow> keeps_prototypes_entries kvs \<Longrightarrow> normalize_entries d h c kvs result = Inr r
   \<Longrightarrow> result = JObj es \<Longrightarrow> distinct (map fst es) \<Longrightarrow> ''__proto__'' \<notin> set (map fst es)
   \<Longrightarrow> \<forall>kv \<in> set es. normalize d h c (snd kv) = Inr (snd kv)
   \<Longrightarrow> \<exists>es'. r = JObj es' \<and> distinct (map fst es') \<and> ''__proto__'' \<notin> set (map fst es')
            \<and> (\<forall>kv \<in> set es'. normalize d h c (snd kv) = Inr (snd kv))"
proof (induction d h c v and d h c xs and d h c kvs result arbitrary: y and ys and r es
       rule: normalize_normalize_list_normalize_entries.induct)
  case (1 hostRoot containerRoot v)
  then show ?case by simp
next
  case (2 room hostRoot containerRoot v)
  then show ?case using normalize_str_settles[of hostRoot containerRoot room v] by auto
next
  case (3 room hostRoot containerRoot xs)
  then show ?case by (auto split: sum.splits)
next
  case (4 room hostRoot containerRoot kvs)
  from "4.prems" have run: "normalize_entries room hostRoot containerRoot kvs (JObj []) = Inr y"
    and keeps: "keeps_prototypes_entries kvs"
    by simp_all
  from "4.IH"[OF "4.prems"(1) keeps run, of "[]"]
  obtain es' where y: "y = JObj es'" and d: "distinct (map fst es')" and p: "''__proto__'' \<notin> set (map fst es')"
    and s: "\<forall>kv \<in> set es'. normalize room hostRoot containerRoot (snd kv) = Inr (snd kv)"
    by auto
  show ?case
    unfolding y using rebuild_settled[OF d p s, of "[]"] by simp
next
  case (5 room hostRoot containerRoot p kvs)
  from "5.prems" have run: "normalize_entries room hostRoot containerRoot kvs (JObj []) = Inr y"
    and keeps: "keeps_prototypes_entries kvs"
    by simp_all
  from "5.IH"[OF "5.prems"(1) keeps run, of "[]"]
  obtain es' where y: "y = JObj es'" and d: "distinct (map fst es')" and p: "''__proto__'' \<notin> set (map fst es')"
    and s: "\<forall>kv \<in> set es'. normalize room hostRoot containerRoot (snd kv) = Inr (snd kv)"
    by auto
  show ?case
    unfolding y using rebuild_settled[OF d p s, of "[]"] by simp
next
  case (6 room hostRoot containerRoot)
  then show ?case by auto
next
  case (7 room hostRoot containerRoot b)
  then show ?case by auto
next
  case (8 room hostRoot containerRoot n)
  then show ?case by auto
next
  case (9 room hostRoot containerRoot)
  then show ?case by auto
next
  case (10 room hostRoot containerRoot x xs)
  from "10.prems" obtain y' ys' where x: "normalize room hostRoot containerRoot x = Inr y'"
    and xs: "normalize_list room hostRoot containerRoot xs = Inr ys'" and ys: "ys = y' # ys'"
    by (auto split: sum.splits)
  have "normalize room hostRoot containerRoot y' = Inr y'"
    using "10.IH"(1) "10.prems" x by simp
  moreover have "normalize_list room hostRoot containerRoot ys' = Inr ys'"
    using "10.IH"(2)[OF x] "10.prems" xs by simp
  ultimately show ?case by (simp add: ys)
next
  case (11 room hostRoot containerRoot result)
  then show ?case by auto
next
  case (12 room hostRoot containerRoot kv kvs result)
  obtain k x where kv: "kv = (k, x)" by (cases kv)
  from "12.prems" obtain v where x: "normalize room hostRoot containerRoot (snd kv) = Inr v"
    and rest: "normalize_entries room hostRoot containerRoot kvs (assign result (fst kv) v) = Inr r"
    by (auto split: sum.splits)
  have v: "normalize room hostRoot containerRoot v = Inr v"
    using "12.IH"(1) "12.prems" x by simp
  have keeps: "keeps_prototypes_entries kvs" and proto: "k = ''__proto__'' \<longrightarrow> \<not> can_be_prototype x"
    using "12.prems" by (simp_all add: kv)
  have same_kind: "\<not> can_be_prototype x \<Longrightarrow> \<not> can_be_prototype v"
    using x by (cases room; cases x) (auto simp: kv split: sum.splits)
  show ?case
  proof (cases "k = ''__proto__''")
    case True
    then have a: "assign result (fst kv) v = JObj es"
      using "12.prems" proto same_kind by (simp add: kv)
    show ?thesis
      using "12.IH"(2)[OF x "12.prems"(1) keeps rest a "12.prems"(5,6,7)] .
  next
    case False
    then have a: "assign result (fst kv) v = JObj (AList.update k v es)"
      using "12.prems" by (simp add: kv)
    have d: "distinct (map fst (AList.update k v es))"
      using "12.prems" by (simp add: AList.distinct_update)
    have p: "''__proto__'' \<notin> set (map fst (AList.update k v es))"
      using "12.prems" False by (simp add: AList.dom_update)
    have s: "\<forall>kv \<in> set (AList.update k v es). normalize room hostRoot containerRoot (snd kv) = Inr (snd kv)"
      using "12.prems"(7) v update_members[of _ k v es] by fastforce
    show ?thesis
      using "12.IH"(2)[OF x "12.prems"(1) keeps rest a d p s] .
  qed
qed

lemma not_settled_nested:
  assumes "h \<noteq> c" and "prefix (h @ ''/'') (c @ ''/'')"
  shows "normalize (Suc 0) h c (JStr (h @ ''/'')) = Inr (JStr (c @ ''/''))"
    and "normalize (Suc 0) h c (JStr (c @ ''/'')) \<noteq> Inr (JStr (c @ ''/''))"
proof -
  from assms(2) obtain t where t: "c @ ''/'' = h @ ''/'' @ t" by (auto simp: prefix_def)
  have "t \<noteq> []" using t assms(1) by auto
  show "normalize (Suc 0) h c (JStr (h @ ''/'')) = Inr (JStr (c @ ''/''))"
    by (simp add: startsWith_def)
  have "drop (length h) (c @ ''/'') = ''/'' @ t"
    using t by (metis append_eq_conv_conj)
  then have "normalize (Suc 0) h c (JStr (c @ ''/'')) = Inr (JStr (c @ ''/'' @ t))"
    using assms(2) by (simp add: startsWith_def)
  then show "normalize (Suc 0) h c (JStr (c @ ''/'')) \<noteq> Inr (JStr (c @ ''/''))"
    using \<open>t \<noteq> []\<close> by simp
qed

lemma not_settled_above:
  assumes "h \<noteq> c" and "prefix (c @ ''/'') (h @ ''/'')"
  shows "\<exists>v y. keeps_prototypes v \<and> normalize (Suc 0) h c v = Inr y \<and> normalize (Suc 0) h c y \<noteq> Inr y"
proof -
  from assms(2) obtain t where t: "h @ ''/'' = c @ ''/'' @ t" by (auto simp: prefix_def)
  have once: "normalize (Suc 0) h c (JStr (h @ ''/'' @ t)) = Inr (JStr (c @ ''/'' @ t))"
    by (simp add: startsWith_def)
  have twice: "normalize (Suc 0) h c (JStr (c @ ''/'' @ t)) = Inr (JStr (c @ ''/''))"
    using t[symmetric] by (simp add: startsWith_def)
  have "c @ ''/'' \<noteq> c @ ''/'' @ t" using t assms(1) by auto
  then have "normalize (Suc 0) h c (JStr (c @ ''/'' @ t)) \<noteq> Inr (JStr (c @ ''/'' @ t))"
    unfolding twice by simp
  with once show ?thesis
    by (intro exI[of _ "JStr (h @ ''/'' @ t)"] exI[of _ "JStr (c @ ''/'' @ t)"]) simp
qed

lemma normalizePaths_settles_iff:
  "(\<forall>rt v y. keeps_prototypes v \<longrightarrow> normalizePaths rt v h c = Inr y \<longrightarrow> normalizePaths rt y h c = Inr y)
   \<longleftrightarrow> roots_apart h c"
proof
  assume "roots_apart h c"
  then show "\<forall>rt v y. keeps_prototypes v \<longrightarrow> normalizePaths rt v h c = Inr y \<longrightarrow> normalizePaths rt y h c = Inr y"
    unfolding normalizePaths_def using normalize_settles(1) by blast
next
  assume idem: "\<forall>rt v y. keeps_prototypes v \<longrightarrow> normalizePaths rt v h c = Inr y \<longrightarrow> normalizePaths rt y h c = Inr y"
  have one: "keeps_prototypes v \<Longrightarrow> normalize (Suc 0) h c v = Inr y \<Longrightarrow> normalize (Suc 0) h c y = Inr y" for v y
    using idem[rule_format, of v "literal_runtime\<lparr>stack_depth := Suc 0\<rparr>" y]
    by (simp add: normalizePaths_def)
  show "roots_apart h c"
  proof (rule ccontr)
    assume "\<not> roots_apart h c"
    then have ne: "h \<noteq> c"
      and either: "prefix (h @ ''/'') (c @ ''/'') \<or> prefix (c @ ''/'') (h @ ''/'')"
      by (auto simp: roots_apart_def)
    from either show False
    proof
      assume p: "prefix (h @ ''/'') (c @ ''/'')"
      show False
        using one[of "JStr (h @ ''/'')" "JStr (c @ ''/'')"] not_settled_nested[OF ne p] by simp
    next
      assume p: "prefix (c @ ''/'') (h @ ''/'')"
      show False
        using one not_settled_above[OF ne p] by blast
    qed
  qed
qed

text \<open>
  Claim C5, as the code has it. Whenever \<open>normalizePaths\<close> returns for a value, it
  returns its own result unchanged for that result: this holds for every runtime and
  every nested value in which no object has an own member \<open>__proto__\<close> that holds \<open>null\<close>,
  an array or an object, exactly when the two roots are equal or neither root followed
  by a slash is a prefix of the other followed by a slash; the default roots
  \<open>/workspace\<close> and \<open>/var/www/html\<close> are such a pair. A string that does not start with
  the host root and a slash is left unchanged (\<open>/workspace-other/x\<close> is one), and the
  \<open>path\<close> example is mapped as the specification says, wherever the call stack has room
  for the one or two nested calls these values need.
\<close>

theorem normalizePaths_idempotent_for_separate_roots:
  "((\<forall>rt v y. keeps_prototypes v \<longrightarrow> normalizePaths rt v h c = Inr y \<longrightarrow> normalizePaths rt y h c = Inr y)
      \<longleftrightarrow> roots_apart h c)
   \<and> (0 < stack_depth rt \<and> \<not> startsWith s (h @ ''/'') \<longrightarrow> normalizePaths rt (JStr s) h c = Inr (JStr s))
   \<and> roots_apart ''/workspace'' ''/var/www/html''
   \<and> (0 < stack_depth rt \<longrightarrow>
        normalizePaths rt (JStr ''/workspace-other/x'') ''/workspace'' ''/var/www/html''
        = Inr (JStr ''/workspace-other/x''))
   \<and> (1 < stack_depth rt \<longrightarrow>
        normalizePaths rt (JObj [(''path'', JStr ''/workspace/app/file.php'')]) ''/workspace'' ''/var/www/html''
        = Inr (JObj [(''path'', JStr ''/var/www/html/app/file.php'')]))"
proof (intro conjI)
  show "(\<forall>rt v y. keeps_prototypes v \<longrightarrow> normalizePaths rt v h c = Inr y \<longrightarrow> normalizePaths rt y h c = Inr y)
        \<longleftrightarrow> roots_apart h c"
    by (rule normalizePaths_settles_iff)
  show "0 < stack_depth rt \<and> \<not> startsWith s (h @ ''/'') \<longrightarrow> normalizePaths rt (JStr s) h c = Inr (JStr s)"
    by (simp add: normalizePaths_def normalize_room)
  show "roots_apart ''/workspace'' ''/var/www/html''"
    by (simp add: roots_apart_def)
  show "0 < stack_depth rt \<longrightarrow>
        normalizePaths rt (JStr ''/workspace-other/x'') ''/workspace'' ''/var/www/html''
        = Inr (JStr ''/workspace-other/x'')"
    by (simp add: normalizePaths_def normalize_room startsWith_def)
  show "1 < stack_depth rt \<longrightarrow>
        normalizePaths rt (JObj [(''path'', JStr ''/workspace/app/file.php'')]) ''/workspace'' ''/var/www/html''
        = Inr (JObj [(''path'', JStr ''/var/www/html/app/file.php'')])"
    by (simp add: normalizePaths_def normalize_room startsWith_def)
qed

theorem normalizePaths_idempotent_for_separate_roots_witness:
  "roots_apart ''/workspace'' ''/var/www/html''
   \<and> keeps_prototypes (JObj [(''files'', JArr [JStr ''/workspace/a.php'', JObj [(''dir'', JStr ''/workspace/web'')], JNum 3])])
   \<and> normalizePaths literal_runtime
        (JObj [(''files'', JArr [JStr ''/workspace/a.php'', JObj [(''dir'', JStr ''/workspace/web'')], JNum 3])])
        ''/workspace'' ''/var/www/html''
       = Inr (JObj [(''files'', JArr [JStr ''/var/www/html/a.php'', JObj [(''dir'', JStr ''/var/www/html/web'')], JNum 3])])
   \<and> normalizePaths literal_runtime
        (JObj [(''files'', JArr [JStr ''/var/www/html/a.php'', JObj [(''dir'', JStr ''/var/www/html/web'')], JNum 3])])
        ''/workspace'' ''/var/www/html''
       = Inr (JObj [(''files'', JArr [JStr ''/var/www/html/a.php'', JObj [(''dir'', JStr ''/var/www/html/web'')], JNum 3])])
   \<and> 1 < stack_depth literal_runtime
   \<and> \<not> startsWith ''/workspace-other/x'' (''/workspace'' @ ''/'')
   \<and> normalizePaths literal_runtime (JStr ''/workspace-other/x'') ''/workspace'' ''/var/www/html''
       = Inr (JStr ''/workspace-other/x'')
   \<and> normalizePaths literal_runtime (JObj [(''path'', JStr ''/workspace/app/file.php'')]) ''/workspace'' ''/var/www/html''
       = Inr (JObj [(''path'', JStr ''/var/www/html/app/file.php'')])"
proof -
  let ?v = "JObj [(''files'', JArr [JStr ''/workspace/a.php'', JObj [(''dir'', JStr ''/workspace/web'')], JNum 3])]"
  let ?y = "JObj [(''files'', JArr [JStr ''/var/www/html/a.php'', JObj [(''dir'', JStr ''/var/www/html/web'')], JNum 3])]"
  note all = normalizePaths_idempotent_for_separate_roots
               [of "''/workspace''" "''/var/www/html''" literal_runtime "''/workspace-other/x''"]
  have apart: "roots_apart ''/workspace'' ''/var/www/html''"
    using all by blast
  have keeps: "keeps_prototypes ?v"
    by simp
  have once: "normalizePaths literal_runtime ?v ''/workspace'' ''/var/www/html'' = Inr ?y"
    unfolding normalizePaths_def literal_depth by (simp add: normalize_room startsWith_def)
  have room: "1 < stack_depth literal_runtime"
    by (simp add: literal_depth)
  have other: "\<not> startsWith ''/workspace-other/x'' (''/workspace'' @ ''/'')"
    by (simp add: startsWith_def)
  from all apart have "\<forall>rt v y. keeps_prototypes v \<longrightarrow> normalizePaths rt v ''/workspace'' ''/var/www/html'' = Inr y
                         \<longrightarrow> normalizePaths rt y ''/workspace'' ''/var/www/html'' = Inr y"
    by blast
  with keeps once have twice: "normalizePaths literal_runtime ?y ''/workspace'' ''/var/www/html'' = Inr ?y"
    by blast
  from all room have 1: "normalizePaths literal_runtime (JStr ''/workspace-other/x'') ''/workspace'' ''/var/www/html''
       = Inr (JStr ''/workspace-other/x'')"
    by simp
  from all room have 2: "normalizePaths literal_runtime (JObj [(''path'', JStr ''/workspace/app/file.php'')])
         ''/workspace'' ''/var/www/html''
       = Inr (JObj [(''path'', JStr ''/var/www/html/app/file.php'')])"
    by blast
  from apart keeps once twice room other 1 2 show ?thesis by blast
qed

text \<open>
  With the container root below the host root the second normalization rewrites the
  result of the first. With the default roots, a member \<open>__proto__\<close> that holds an object
  becomes the prototype of the result, which the second normalization does not keep.
\<close>

theorem normalizePaths_idempotent_counterexample:
  "normalizePaths literal_runtime (JObj [(''path'', JStr ''/a/x'')]) ''/a'' ''/a/b''
     = Inr (JObj [(''path'', JStr ''/a/b/x'')])
   \<and> normalizePaths literal_runtime (JObj [(''path'', JStr ''/a/b/x'')]) ''/a'' ''/a/b''
     = Inr (JObj [(''path'', JStr ''/a/b/b/x'')])
   \<and> normalizePaths literal_runtime (JObj [(''__proto__'', JObj [(''a'', JNum 1)])]) ''/workspace'' ''/var/www/html''
     = Inr (JProto (JObj [(''a'', JNum 1)]) [])
   \<and> normalizePaths literal_runtime (JProto (JObj [(''a'', JNum 1)]) []) ''/workspace'' ''/var/www/html''
     = Inr (JObj [])"
  unfolding normalizePaths_def literal_depth by (simp add: normalize_room startsWith_def)

section \<open>Properties of the command executor\<close>

subsection \<open>Rules and placeholders\<close>


text \<open>
  Claim C9, as the code has it. A first rule with a non-empty pattern that matches the
  value decides: its message is returned whatever rules follow (so none of them is
  evaluated, not even one whose pattern would throw). A rule with an empty pattern is
  skipped without being tested.
\<close>

theorem checkRules_first_match_wins:
  "(pattern ruleA \<noteq> [] \<and> regexp_test rt (pattern ruleA) v = Inr True \<and> message ruleA = Some msg1
      \<longrightarrow> checkRules rt (ruleA # rules) v = Inr (Some msg1))
   \<and> (pattern ruleA = [] \<longrightarrow> checkRules rt (ruleA # rules) v = checkRules rt rules v)"
  by simp

theorem checkRules_first_match_wins_witness:
  "regexp_test literal_runtime ''rm'' ''rm -rf /'' = Inr True
   \<and> regexp_test literal_runtime ''-rf'' ''rm -rf /'' = Inr True
   \<and> checkRules literal_runtime
        [\<lparr>pattern = ''rm'', message = Some ''no rm''\<rparr>, \<lparr>pattern = ''-rf'', message = Some ''no force''\<rparr>]
        ''rm -rf /''
      = Inr (Some ''no rm'')"
proof -
  have a: "regexp_test literal_runtime ''rm'' ''rm -rf /'' = Inr True"
    and b: "regexp_test literal_runtime ''-rf'' ''rm -rf /'' = Inr True"
    by (simp_all add: literal_runtime_def)
  from checkRules_first_match_wins
         [of "\<lparr>pattern = ''rm'', message = Some ''no rm''\<rparr>" literal_runtime "''rm -rf /''" "''no rm''"
             "[\<lparr>pattern = ''-rf'', message = Some ''no force''\<rparr>]"] a
  have "checkRules literal_runtime
        [\<lparr>pattern = ''rm'', message = Some ''no rm''\<rparr>, \<lparr>pattern = ''-rf'', message = Some ''no force''\<rparr>]
        ''rm -rf /''
      = Inr (Some ''no rm'')"
    by simp
  with a b show ?thesis by blast
qed

text \<open>
  The empty pattern matches every value, yet its rule is passed over: the second rule's
  message is returned for a value both patterns match.
\<close>

theorem checkRules_first_match_wins_counterexample:
  "regexp_test literal_runtime [] ''a'' = Inr True
   \<and> regexp_test literal_runtime ''a'' ''a'' = Inr True
   \<and> checkRules literal_runtime
        [\<lparr>pattern = [], message = Some ''msg1''\<rparr>, \<lparr>pattern = ''a'', message = Some ''msg2''\<rparr>] ''a''
      = Inr (Some ''msg2'')"
  by (simp add: literal_runtime_def)







lemma literal_stringify: "json_stringify literal_runtime v = Inr (compact_json v)"
  by (simp add: literal_runtime_def)



lemma suffix_includes: "includes_str r sub \<Longrightarrow> includes_str (xs @ r) sub"
  unfolding includes_str_iff by (metis append.assoc)

lemma holes_are_placeholders:
  "k \<in> set (holes (pieces t))
   \<Longrightarrow> k \<noteq> [] \<and> (\<forall>ch \<in> set k. is_word_char ch) \<and> includes_str t (CHR 0x7B # k @ [CHR 0x7D])"
proof (induction t rule: pieces.induct)
  case 1
  then show ?case by simp
next
  case (2 c cs)
  show ?case
  proof (cases "dropWhile is_word_char cs")
    case Nil
    with 2 have "includes_str cs (CHR 0x7B # k @ [CHR 0x7D])" and "k \<noteq> []" and "\<forall>ch \<in> set k. is_word_char ch"
      by auto
    then show ?thesis by simp
  next
    case (Cons d r)
    show ?thesis
    proof (cases "c = CHR 0x7B \<and> takeWhile is_word_char cs \<noteq> [] \<and> d = CHR 0x7D")
      case False
      with 2 Cons have "includes_str cs (CHR 0x7B # k @ [CHR 0x7D])" and "k \<noteq> []"
        and "\<forall>ch \<in> set k. is_word_char ch"
        by auto
      then show ?thesis by simp
    next
      case True
      have cs: "cs = takeWhile is_word_char cs @ d # r"
        using Cons by (metis takeWhile_dropWhile_id)
      from 2(4) Cons True consider "k = takeWhile is_word_char cs" | "k \<in> set (holes (pieces r))"
        by auto
      then show ?thesis
      proof cases
        case 1
        have "c # cs = (CHR 0x7B # k @ [CHR 0x7D]) @ r"
          using cs True 1 by simp
        then have "prefix (CHR 0x7B # k @ [CHR 0x7D]) (c # cs)"
          by (metis prefixI)
        moreover have "\<forall>ch \<in> set k. is_word_char ch"
          unfolding 1 by (meson set_takeWhileD)
        ultimately show ?thesis using True 1 by simp
      next
        case 2
        with "2.IH"(2)[OF Cons] True have "k \<noteq> []" and "\<forall>ch \<in> set k. is_word_char ch"
          and "includes_str r (CHR 0x7B # k @ [CHR 0x7D])"
          by auto
        moreover have "c # cs = (c # takeWhile is_word_char cs @ [d]) @ r"
          using cs by simp
        ultimately show ?thesis
          using suffix_includes[of r "CHR 0x7B # k @ [CHR 0x7D]" "c # takeWhile is_word_char cs @ [d]"]
          by simp
      qed
    qed
  qed
qed

subsection \<open>Disallowed commands\<close>

lemma spread_lookup:
  "distinct (map fst b) \<Longrightarrow> map_of (spread a b) = map_of a ++ map_of b"
  unfolding spread_def
proof (induction b arbitrary: a)
  case Nil
  then show ?case by simp
next
  case (Cons kv b)
  obtain k v where kv: "kv = (k, v)" by (cases kv)
  from Cons.prems have k: "k \<notin> fst ` set b" and d: "distinct (map fst b)"
    by (auto simp: kv)
  have "map_of (foldl (\<lambda>acc kv. AList.update (fst kv) (snd kv) acc) a (kv # b))
        = map_of (AList.update k v a) ++ map_of b"
    using Cons.IH[OF d, of "AList.update k v a"] by (simp add: kv)
  also have "\<dots> = (map_of a)(k \<mapsto> v) ++ map_of b"
    by (simp add: AList.update_conv')
  also have "\<dots> = map_of a ++ map_of (kv # b)"
  proof -
    have "map_of b k = None"
      using k by (simp add: map_of_eq_None_iff)
    then show ?thesis
      by (auto simp: kv map_add_def fun_eq_iff split: option.splits)
  qed
  finally show ?case .
qed

lemma dockerExec_invoked:
  "invoked (snd (dockerExec w c cmd (Some ''root'') (Some sh) st))
   = invoked st @ [sg_invocation [''exec'', ''-u'', ''root'', c, sh, ''-c'', join '' '' cmd]]"
  by (simp add: dockerExec_def execCommand_invoked)

lemma resolve_uid_invoked:
  "invoked (snd (resolve_uid w c p k st))
   = invoked st @ [sg_invocation [''exec'', ''-u'', ''root'', c, ''/bin/sh'', ''-c'', ''stat -c %u '' @ p]]"
proof -
  obtain r st1 where q: "dockerExec w c [''stat -c %u '' @ p] (Some ''root'') (Some ''/bin/sh'') st = (r, st1)"
    by (cases "dockerExec w c [''stat -c %u '' @ p] (Some ''root'') (Some ''/bin/sh'') st")
  have "invoked st1 = invoked st @ [sg_invocation [''exec'', ''-u'', ''root'', c, ''/bin/sh'', ''-c'', ''stat -c %u '' @ p]]"
    using dockerExec_invoked[of w c "[''stat -c %u '' @ p]" "''/bin/sh''" st] unfolding q by simp
  then show ?thesis
    unfolding resolve_uid_def q by (simp add: fall_back_def Let_def split: sum.splits)
qed

lemma resolveContainerUser_returns: "\<exists>v st'. resolveContainerUser w u c st = (Inr v, st')"
  using resolve_uid_returns[of w c "uid_target_path u" "c @ '':'' @ uid_target_path u" st]
  by (auto simp: resolveContainerUser_def Let_def split: option.splits)

lemma resolveContainerUser_invoked:
  "invoked (snd (resolveContainerUser w u c st)) = invoked st
   \<or> invoked (snd (resolveContainerUser w u c st))
     = invoked st @ [sg_invocation [''exec'', ''-u'', ''root'', c, ''/bin/sh'', ''-c'',
                                    ''stat -c %u '' @ uid_target_path u]]"
  using resolve_uid_invoked[of w c "uid_target_path u" "c @ '':'' @ uid_target_path u" st]
  by (auto simp: resolveContainerUser_def Let_def split: option.splits)

lemma resolveContainerUser_silent:
  assumes "\<not> startsWith u ''auto:uid-from-path''
           \<or> (\<exists>cached. map_of (uidCache st) (c @ '':'' @ uid_target_path u) = Some cached \<and> cached \<noteq> [])"
  shows "invoked (snd (resolveContainerUser w u c st)) = invoked st"
  using assms by (auto simp: resolveContainerUser_def Let_def)

lemma command_execute_blocked:
  assumes "blocked_command ex (spread (map (\<lambda>kv. (fst kv, JStr (snd kv))) (defaultArgs ex)) args) = Some cmd"
  shows "fst (command_execute w rt ex args st)
         = Inr (error_result (''Error: Command '' @ sq @ cmd @ sq @ '' is not allowed''))"
    and "invoked (snd (command_execute w rt ex args st))
         = invoked (snd (resolveContainerUser w (command_executor.user ex) (command_executor.container ex) st))"
proof -
  obtain usr st1 where r: "resolveContainerUser w (command_executor.user ex) (command_executor.container ex) st
                           = (Inr usr, st1)"
    using resolveContainerUser_returns by blast
  show "fst (command_execute w rt ex args st)
         = Inr (error_result (''Error: Command '' @ sq @ cmd @ sq @ '' is not allowed''))"
    using assms by (simp add: command_execute_def r Let_def)
  show "invoked (snd (command_execute w rt ex args st))
         = invoked (snd (resolveContainerUser w (command_executor.user ex) (command_executor.container ex) st))"
    using assms by (simp add: command_execute_def r Let_def)
qed

text \<open>
  Claim C3, as the code has it. With \<open>rm\<close> among the disallowed commands and an argument
  object whose \<open>command\<close> is the string \<open>rm\<close>, \<open>execute\<close> returns the error envelope, and the
  only invocations of the call are those of the user resolution that precedes the
  check: none when the user does not begin with \<open>auto:uid-from-path\<close> or a UID is cached,
  otherwise the one \<open>stat\<close> of the UID lookup. The command itself is never run and the
  container label is never queried.
\<close>

theorem disallowed_command_blocked:
  "''rm'' \<in> set (disallowedCommands ex) \<and> map_of args ''command'' = Some (JStr ''rm'')
     \<and> distinct (map fst args) \<longrightarrow>
   fst (command_execute w rt ex args st)
     = Inr \<lparr>content = ''Error: Command '' @ sq @ ''rm'' @ sq @ '' is not allowed'', isError = Some True\<rparr>
   \<and> invoked (snd (command_execute w rt ex args st))
     = invoked (snd (resolveContainerUser w (command_executor.user ex) (command_executor.container ex) st))
   \<and> (invoked (snd (command_execute w rt ex args st)) = invoked st
      \<or> invoked (snd (command_execute w rt ex args st))
        = invoked st @ [sg_invocation [''exec'', ''-u'', ''root'', command_executor.container ex, ''/bin/sh'', ''-c'',
                                       ''stat -c %u '' @ uid_target_path (command_executor.user ex)]])
   \<and> (\<not> startsWith (command_executor.user ex) ''auto:uid-from-path''
        \<or> (\<exists>cached. map_of (uidCache st)
                        (command_executor.container ex @ '':'' @ uid_target_path (command_executor.user ex))
                      = Some cached \<and> cached \<noteq> [])
      \<longrightarrow> invoked (snd (command_execute w rt ex args st)) = invoked st)"
proof (intro impI, elim conjE)
  assume rm: "''rm'' \<in> set (disallowedCommands ex)"
    and cmd: "map_of args ''command'' = Some (JStr ''rm'')"
    and obj: "distinct (map fst args)"
  have "map_of (spread (map (\<lambda>kv. (fst kv, JStr (snd kv))) (defaultArgs ex)) args) ''command'' = Some (JStr ''rm'')"
    using cmd by (simp add: spread_lookup[OF obj] map_add_def)
  then have b: "blocked_command ex (spread (map (\<lambda>kv. (fst kv, JStr (snd kv))) (defaultArgs ex)) args) = Some ''rm''"
    using rm by (simp add: blocked_command_def)
  note ce = command_execute_blocked[OF b, of w rt st]
  show "fst (command_execute w rt ex args st)
     = Inr \<lparr>content = ''Error: Command '' @ sq @ ''rm'' @ sq @ '' is not allowed'', isError = Some True\<rparr>
   \<and> invoked (snd (command_execute w rt ex args st))
     = invoked (snd (resolveContainerUser w (command_executor.user ex) (command_executor.container ex) st))
   \<and> (invoked (snd (command_execute w rt ex args st)) = invoked st
      \<or> invoked (snd (command_execute w rt ex args st))
        = invoked st @ [sg_invocation [''exec'', ''-u'', ''root'', command_executor.container ex, ''/bin/sh'', ''-c'',
                                       ''stat -c %u '' @ uid_target_path (command_executor.user ex)]])
   \<and> (\<not> startsWith (command_executor.user ex) ''auto:uid-from-path''
        \<or> (\<exists>cached. map_of (uidCache st)
                        (command_executor.container ex @ '':'' @ uid_target_path (command_executor.user ex))
                      = Some cached \<and> cached \<noteq> [])
      \<longrightarrow> invoked (snd (command_execute w rt ex args st)) = invoked st)"
    unfolding ce
    using resolveContainerUser_invoked[of w "command_executor.user ex" "command_executor.container ex" st]
      resolveContainerUser_silent[of "command_executor.user ex" st "command_executor.container ex" w]
    by (auto simp: error_result_def)
qed

theorem disallowed_command_blocked_witness:
  "''rm'' \<in> set (disallowedCommands (shell_tool\<lparr>command_executor.user := ''www-data''\<rparr>))
   \<and> map_of [(''command'', JStr ''rm'')] ''command'' = Some (JStr ''rm'')
   \<and> fst (command_execute (exec_world (ExecOk (''33'' @ nl))) literal_runtime
            (shell_tool\<lparr>command_executor.user := ''www-data''\<rparr>) [(''command'', JStr ''rm'')] fresh_state)
     = Inr \<lparr>content = ''Error: Command '' @ sq @ ''rm'' @ sq @ '' is not allowed'', isError = Some True\<rparr>
   \<and> invoked (snd (command_execute (exec_world (ExecOk (''33'' @ nl))) literal_runtime
            (shell_tool\<lparr>command_executor.user := ''www-data''\<rparr>) [(''command'', JStr ''rm'')] fresh_state))
     = invoked fresh_state"
proof -
  have rm: "''rm'' \<in> set (disallowedCommands (shell_tool\<lparr>command_executor.user := ''www-data''\<rparr>))"
    by (simp add: shell_tool_def)
  have cmd: "map_of [(''command'', JStr ''rm'')] ''command'' = Some (JStr ''rm'')"
    by simp
  have obj: "distinct (map fst [(''command'', JStr ''rm'')])"
    by simp
  have plain: "\<not> startsWith (command_executor.user (shell_tool\<lparr>command_executor.user := ''www-data''\<rparr>))
                 ''auto:uid-from-path''"
    by (simp add: startsWith_def)
  from disallowed_command_blocked
         [of "shell_tool\<lparr>command_executor.user := ''www-data''\<rparr>" "[(''command'', JStr ''rm'')]"
             "exec_world (ExecOk (''33'' @ nl))" literal_runtime fresh_state] rm cmd obj plain
  show ?thesis
    by blast
qed

text \<open>
  With the user derived from a path and no UID cached, the call for the disallowed
  command runs \<open>stat\<close> in the container before the command is refused.
\<close>

theorem disallowed_command_blocked_counterexample:
  "''rm'' \<in> set (disallowedCommands shell_tool)
   \<and> fst (command_execute (exec_world (ExecOk (''33'' @ nl))) literal_runtime shell_tool
            [(''command'', JStr ''rm'')] fresh_state)
     = Inr \<lparr>content = ''Error: Command '' @ sq @ ''rm'' @ sq @ '' is not allowed'', isError = Some True\<rparr>
   \<and> invoked (snd (command_execute (exec_world (ExecOk (''33'' @ nl))) literal_runtime shell_tool
            [(''command'', JStr ''rm'')] fresh_state))
     = [ExecFile ''sg'' [''docker'', ''-c'',
          ''docker exec -u root web /bin/sh -c '' @ sq @ ''stat -c %u /var/www/html'' @ sq]]"
  by (simp add: command_execute_def resolveContainerUser_def resolve_uid_def dockerExec_def execCommand_def
        uid_target_path_def startsWith_def exec_world_def fresh_state_def shell_tool_def spread_def
        blocked_command_def error_result_def quote_arg_def trim_def is_js_space_def log_msg_def Let_def
        sq_def nl_def)

section \<open>Properties of loading and dispatch\<close>

subsection \<open>Static safety\<close>

lemma dangerous_in_None: "dangerous_in cs v = None \<longleftrightarrow> (\<forall>ch \<in> set cs. ch \<notin> set v)"
  by (induction cs) auto

lemma validateStaticSafety_fails_iff:
  "(\<exists>e. validateStaticSafety vals = Inl e)
   \<longleftrightarrow> (\<exists>v \<in> set vals. \<exists>ch \<in> set DANGEROUS_CHARS. ch \<in> set v)"
proof (induction vals)
  case Nil
  then show ?case by simp
next
  case (Cons v vals)
  show ?case
  proof (cases "dangerous_in DANGEROUS_CHARS v")
    case None
    then have "\<forall>ch \<in> set DANGEROUS_CHARS. ch \<notin> set v" by (simp add: dangerous_in_None)
    with None Cons show ?thesis by auto
  next
    case (Some ch)
    then have "\<not> (\<forall>ch \<in> set DANGEROUS_CHARS. ch \<notin> set v)"
      using dangerous_in_None[of DANGEROUS_CHARS v] by simp
    with Some show ?thesis by auto
  qed
qed

lemma flag_is_safe: "\<forall>ch \<in> set DANGEROUS_CHARS. ch \<notin> set ''-c''"
  by (simp add: DANGEROUS_CHARS_def)

lemma default_shell_is_safe: "\<forall>ch \<in> set DANGEROUS_CHARS. ch \<notin> set ''/bin/bash''"
  by (simp add: DANGEROUS_CHARS_def)

lemma new_CommandToolExecutor_fails_iff:
  "(\<exists>e. new_CommandToolExecutor t c p u sh d dis vr = Inl e)
   \<longleftrightarrow> (\<exists>s ch. sh = Some s \<and> ch \<in> set DANGEROUS_CHARS \<and> ch \<in> set s)"
proof -
  have "(\<exists>e. new_CommandToolExecutor t c p u sh d dis vr = Inl e)
        \<longleftrightarrow> (\<exists>e. validateStaticSafety [(case sh of None \<Rightarrow> ''/bin/bash'' | Some s \<Rightarrow> s), ''-c''] = Inl e)"
    by (cases "validateStaticSafety [(case sh of None \<Rightarrow> ''/bin/bash'' | Some s \<Rightarrow> s), ''-c'']")
       (simp_all add: new_CommandToolExecutor_def Let_def del: validateStaticSafety.simps)
  also have "\<dots> \<longleftrightarrow> (\<exists>ch \<in> set DANGEROUS_CHARS. ch \<in> set (case sh of None \<Rightarrow> ''/bin/bash'' | Some s \<Rightarrow> s))"
    unfolding validateStaticSafety_fails_iff using flag_is_safe by auto
  also have "\<dots> \<longleftrightarrow> (\<exists>s ch. sh = Some s \<and> ch \<in> set DANGEROUS_CHARS \<and> ch \<in> set s)"
    using default_shell_is_safe by (cases sh) auto
  finally show ?thesis .
qed

lemma createExecutor_unsafe_shell:
  assumes "tool_type cfg = None \<or> tool_type cfg = Some ''command''"
    and "tool_config.shell cfg = Some s" and "ch \<in> set DANGEROUS_CHARS" and "ch \<in> set s"
  shows "fst (createExecutor rt reg cfg st) = None"
proof (cases "command_template cfg = None \<or> command_template cfg = Some []")
  case True
  with assms(1) show ?thesis by (auto simp: createExecutor_def)
next
  case False
  obtain e where "new_CommandToolExecutor
                      (the (command_template cfg))
                      (interpolateContainerName reg (tool_config.container cfg))
                      (bridge_config.ddevProject (registry.config reg))
                      (tool_config.user cfg)
                      (tool_config.shell cfg)
                      (default_args cfg)
                      (disallowed_commands cfg)
                      (validation_rules cfg) = Inl e"
    using new_CommandToolExecutor_fails_iff assms(2-4) by blast
  with False assms(1) show ?thesis by (auto simp: createExecutor_def)
qed

lemma loadSingleTool_no_executor:
  assumes "fst (createExecutor rt reg cfg st) = None"
  shows "fst (loadSingleTool w rt reg cfg st) = 0" and "fst (snd (loadSingleTool w rt reg cfg st)) = reg"
  using assms by (auto simp: loadSingleTool_def split: prod.splits option.splits)

text \<open>
  Claim C2. The static safety check fails exactly when one of its values contains one of
  the nine dangerous characters; the constructor of the command executor, which checks
  its shell and the fixed flag \<open>-c\<close>, fails exactly when a shell is given that contains
  one; and for a definition of command type (given or by default) with such a shell no
  executor is created, \<open>loadSingleTool\<close> returns 0 and the registry is as before.
\<close>

theorem unsafe_shell_never_registered:
  "set DANGEROUS_CHARS = set '';|&><$'' \<union> {CHR 0x60, CHR 0x0A, CHR 0x0D}
   \<and> ((\<exists>e. validateStaticSafety vals = Inl e)
       \<longleftrightarrow> (\<exists>v \<in> set vals. \<exists>ch \<in> set DANGEROUS_CHARS. ch \<in> set v))
   \<and> ((\<exists>e. new_CommandToolExecutor t c p u sh d dis vr = Inl e)
       \<longleftrightarrow> (\<exists>s ch. sh = Some s \<and> ch \<in> set DANGEROUS_CHARS \<and> ch \<in> set s))
   \<and> ((tool_type cfg = None \<or> tool_type cfg = Some ''command'')
        \<and> tool_config.shell cfg = Some s \<and> (\<exists>ch \<in> set DANGEROUS_CHARS. ch \<in> set s)
       \<longrightarrow> fst (createExecutor rt reg cfg st) = None
           \<and> fst (loadSingleTool w rt reg cfg st) = 0
           \<and> fst (snd (loadSingleTool w rt reg cfg st)) = reg)"
proof -
  have chars: "set DANGEROUS_CHARS = set '';|&><$'' \<union> {CHR 0x60, CHR 0x0A, CHR 0x0D}"
    by (auto simp: DANGEROUS_CHARS_def)
  have reg: "(tool_type cfg = None \<or> tool_type cfg = Some ''command'')
        \<and> tool_config.shell cfg = Some s \<and> (\<exists>ch \<in> set DANGEROUS_CHARS. ch \<in> set s)
       \<longrightarrow> fst (createExecutor rt reg cfg st) = None
           \<and> fst (loadSingleTool w rt reg cfg st) = 0
           \<and> fst (snd (loadSingleTool w rt reg cfg st)) = reg"
  proof (intro impI, elim conjE bexE)
    fix ch
    assume "tool_type cfg = None \<or> tool_type cfg = Some ''command''"
      and "tool_config.shell cfg = Some s" and "ch \<in> set DANGEROUS_CHARS" and "ch \<in> set s"
    then have n: "fst (createExecutor rt reg cfg st) = None"
      by (rule createExecutor_unsafe_shell)
    then show "fst (createExecutor rt reg cfg st) = None
           \<and> fst (loadSingleTool w rt reg cfg st) = 0
           \<and> fst (snd (loadSingleTool w rt reg cfg st)) = reg"
      using loadSingleTool_no_executor[OF n, of w] by simp
  qed
  from chars validateStaticSafety_fails_iff[of vals] new_CommandToolExecutor_fails_iff[of t c p u sh d dis vr] reg
  show ?thesis by blast
qed

theorem unsafe_shell_never_registered_witness:
  "tool_type ((bare_config ''ls'')\<lparr>command_template := Some ''ls {dir}'', tool_config.shell := Some ''/bin/sh; id''\<rparr>) = None
   \<and> CHR 0x3B \<in> set DANGEROUS_CHARS \<and> CHR 0x3B \<in> set ''/bin/sh; id''
   \<and> fst (loadSingleTool (exec_world (ExecOk [])) literal_runtime default_registry
            ((bare_config ''ls'')\<lparr>command_template := Some ''ls {dir}'', tool_config.shell := Some ''/bin/sh; id''\<rparr>)
            fresh_state) = 0
   \<and> fst (snd (loadSingleTool (exec_world (ExecOk [])) literal_runtime default_registry
            ((bare_config ''ls'')\<lparr>command_template := Some ''ls {dir}'', tool_config.shell := Some ''/bin/sh; id''\<rparr>)
            fresh_state)) = default_registry
   \<and> (\<exists>e. validateStaticSafety [''/bin/sh; id'', ''-c''] = Inl e)
   \<and> \<not> (\<exists>e. validateStaticSafety [''/bin/sh'', ''-c''] = Inl e)"
proof -
  let ?cfg = "(bare_config ''ls'')\<lparr>command_template := Some ''ls {dir}'', tool_config.shell := Some ''/bin/sh; id''\<rparr>"
  have ty: "tool_type ?cfg = None" and sh: "tool_config.shell ?cfg = Some ''/bin/sh; id''"
    by (simp_all add: bare_config_def)
  have semi: "CHR 0x3B \<in> set DANGEROUS_CHARS" "CHR 0x3B \<in> set ''/bin/sh; id''"
    by (simp_all add: DANGEROUS_CHARS_def)
  have bad: "\<exists>v \<in> set [''/bin/sh; id'', ''-c'']. \<exists>ch \<in> set DANGEROUS_CHARS. ch \<in> set v"
    using semi by auto
  have good: "\<not> (\<exists>v \<in> set [''/bin/sh'', ''-c'']. \<exists>ch \<in> set DANGEROUS_CHARS. ch \<in> set v)"
    by (simp add: DANGEROUS_CHARS_def)
  from unsafe_shell_never_registered
         [of "[''/bin/sh; id'', ''-c'']" _ _ _ _ _ _ _ _ ?cfg "''/bin/sh; id''" literal_runtime default_registry
             fresh_state "exec_world (ExecOk [])"]
       ty sh semi bad
  have 1: "fst (loadSingleTool (exec_world (ExecOk [])) literal_runtime default_registry ?cfg fresh_state) = 0
       \<and> fst (snd (loadSingleTool (exec_world (ExecOk [])) literal_runtime default_registry ?cfg fresh_state))
          = default_registry
       \<and> (\<exists>e. validateStaticSafety [''/bin/sh; id'', ''-c''] = Inl e)"
    by blast
  from unsafe_shell_never_registered[of "[''/bin/sh'', ''-c'']"] good
  have 2: "\<not> (\<exists>e. validateStaticSafety [''/bin/sh'', ''-c''] = Inl e)"
    by blast
  from ty semi 1 2 show ?thesis by blast
qed

subsection \<open>The dispatch boundary\<close>

lemma normalize_nested_overflow: "d \<le> n \<Longrightarrow> normalize d h c (nested n) = Inl stack_overflow"
proof (induction d arbitrary: n)
  case 0
  then show ?case by simp
next
  case (Suc d)
  then obtain m where n: "n = Suc m" and "d \<le> m"
    by (cases n) auto
  then show ?case using Suc.IH[of m] by simp
qed

lemma argPreprocessor_overflow:
  "argPreprocessor rt reg [(''a'', nested (stack_depth rt))] = Inl stack_overflow"
proof (cases "stack_depth rt")
  case 0
  then show ?thesis by (simp add: argPreprocessor_def normalizePaths_def)
next
  case (Suc d)
  have "normalize d h c (nested (Suc d)) = Inl stack_overflow" for h c
    by (rule normalize_nested_overflow) simp
  then show ?thesis by (simp add: argPreprocessor_def normalizePaths_def Suc)
qed

lemma executeTool_returns:
  assumes "map_of (tools reg) nm = None
           \<or> (\<exists>registered e. map_of (tools reg) nm = Some registered
                 \<and> executor_validateArguments rt (executor registered) args = Inl e)
           \<or> (\<exists>processed. argPreprocessor rt reg args = Inr processed)"
  shows "\<exists>res st'. executeTool w rt reg nm args st = (Inr res, st')"
proof (cases "map_of (tools reg) nm")
  case None
  then show ?thesis by (simp add: executeTool_def)
next
  case (Some registered)
  show ?thesis
  proof (cases "executor_validateArguments rt (executor registered) args")
    case (Inl e)
    with Some show ?thesis by (simp add: executeTool_def)
  next
    case (Inr u)
    with Some assms obtain processed where p: "argPreprocessor rt reg args = Inr processed"
      by auto
    obtain r st1 where x: "executor_execute w rt (executor registered) processed st = (r, st1)"
      by (cases "executor_execute w rt (executor registered) processed st")
    with Some Inr p show ?thesis by (cases r) (simp_all add: executeTool_def)
  qed
qed

text \<open>
  Claim C1, which the code breaks. \<open>executeTool\<close> returns the unknown-tool envelope for a
  name the registry does not know (for \<open>nope\<close> its content is
  \<open>Error: Unknown tool 'nope'\<close>, and the state is untouched), and it returns an envelope
  whenever the tool is unknown, the validation fails or the preprocessor returns. But
  the preprocessor stands outside both \<open>try\<close> blocks: for a registered tool whose
  validation accepts them, arguments \<open>{"a": [[...[null]...]]}\<close> nested as deep as the call
  stack has room for make \<open>normalize\<close> throw, and \<open>executeTool\<close> throws with it, before
  anything is executed.
\<close>

theorem executeTool_throws_on_deep_arguments:
  "(map_of (tools reg) ''nope'' = None \<longrightarrow>
      executeTool w rt reg ''nope'' [] st
      = (Inr \<lparr>content = ''Error: Unknown tool '' @ sq @ ''nope'' @ sq, isError = Some True\<rparr>, st))
   \<and> (map_of (tools reg) nm = None
        \<or> (\<exists>registered e. map_of (tools reg) nm = Some registered
              \<and> executor_validateArguments rt (executor registered) args = Inl e)
        \<or> (\<exists>processed. argPreprocessor rt reg args = Inr processed)
      \<longrightarrow> (\<exists>res st'. executeTool w rt reg nm args st = (Inr res, st')))
   \<and> (map_of (tools reg) nm = Some registered
        \<and> executor_validateArguments rt (executor registered) [(''a'', nested (stack_depth rt))] = Inr ()
      \<longrightarrow> executeTool w rt reg nm [(''a'', nested (stack_depth rt))] st = (Inl stack_overflow, st))"
proof (intro conjI)
  show "map_of (tools reg) ''nope'' = None \<longrightarrow>
      executeTool w rt reg ''nope'' [] st
      = (Inr \<lparr>content = ''Error: Unknown tool '' @ sq @ ''nope'' @ sq, isError = Some True\<rparr>, st)"
    by (simp add: executeTool_def error_result_def)
  show "map_of (tools reg) nm = None
        \<or> (\<exists>registered e. map_of (tools reg) nm = Some registered
              \<and> executor_validateArguments rt (executor registered) args = Inl e)
        \<or> (\<exists>processed. argPreprocessor rt reg args = Inr processed)
      \<longrightarrow> (\<exists>res st'. executeTool w rt reg nm args st = (Inr res, st'))"
    using executeTool_returns[of reg nm rt args w st] by blast
  show "map_of (tools reg) nm = Some registered
        \<and> executor_validateArguments rt (executor registered) [(''a'', nested (stack_depth rt))] = Inr ()
      \<longrightarrow> executeTool w rt reg nm [(''a'', nested (stack_depth rt))] st = (Inl stack_overflow, st)"
    by (simp add: executeTool_def argPreprocessor_overflow)
qed

lemma strict_tool_throws:
  "fst (command_execute (exec_world (ExecOk [])) literal_runtime strict_tool
          [(''command'', JStr ''ls''), (''flags'', JStr ''-a''), (''dir'', JStr ''/tmp'')] fresh_state)
   = Inl (JsError ''SyntaxError'' ''Invalid regular expression: /(/: Unterminated group'')"
  by (simp add: command_execute_def resolveContainerUser_def startsWith_def strict_tool_def shell_tool_def
        spread_def blocked_command_def is_word_char_def render_arg_def to_String_def literal_runtime_def Let_def)

lemma strict_tool_validates:
  "command_validateArguments literal_runtime strict_tool
          [(''command'', JStr ''ls''), (''flags'', JStr ''-a''), (''dir'', JStr ''/tmp'')] = Inr ()"
  by (simp add: command_validateArguments_def strict_tool_def shell_tool_def literal_runtime_def
        quote_json_def escape_char_def dq_def missing_arguments_def is_word_char_def Let_def)

lemma run_registry_wraps:
  "fst (executeTool (exec_world (ExecOk [])) literal_runtime run_registry ''run''
          [(''command'', JStr ''ls''), (''flags'', JStr ''-a''), (''dir'', JStr ''/tmp'')] fresh_state)
   = Inr \<lparr>content = ''Error: Invalid regular expression: /(/: Unterminated group'', isError = Some True\<rparr>"
proof -
  have n: "argPreprocessor literal_runtime run_registry
             [(''command'', JStr ''ls''), (''flags'', JStr ''-a''), (''dir'', JStr ''/tmp'')]
           = Inr (JObj [(''command'', JStr ''ls''), (''flags'', JStr ''-a''), (''dir'', JStr ''/tmp'')])"
    unfolding argPreprocessor_def normalizePaths_def literal_depth
    by (simp add: normalize_room run_registry_def default_registry_def startsWith_def)
  obtain r st1 where x: "command_execute (exec_world (ExecOk [])) literal_runtime strict_tool
          [(''command'', JStr ''ls''), (''flags'', JStr ''-a''), (''dir'', JStr ''/tmp'')] fresh_state = (r, st1)"
    by (cases "command_execute (exec_world (ExecOk [])) literal_runtime strict_tool
          [(''command'', JStr ''ls''), (''flags'', JStr ''-a''), (''dir'', JStr ''/tmp'')] fresh_state")
  have r: "r = Inl (JsError ''SyntaxError'' ''Invalid regular expression: /(/: Unterminated group'')"
    using strict_tool_throws unfolding x by simp
  have t: "map_of (tools run_registry) ''run''
           = Some \<lparr>registered_tool.config = bare_config ''run'', executor = CommandTool strict_tool\<rparr>"
    by (simp add: run_registry_def)
  show ?thesis
    unfolding executeTool_def t
    by (simp add: n executor_validateArguments_def executor_execute_def strict_tool_validates x r error_result_def)
qed

text \<open>
  At the second example \<open>execute\<close> itself throws (the rule check on the rendered command
  reaches the pattern that does not compile) and \<open>executeTool\<close> returns the envelope. At
  the third the arguments of the proxied tool are nested a thousand arrays deep, which
  is the room the concrete runtime has: \<open>executeTool\<close> throws, and no request is made.
\<close>

theorem executeTool_throws_on_deep_arguments_witness:
  "map_of (tools default_registry) ''nope'' = None
   \<and> executeTool (exec_world (ExecOk [])) literal_runtime default_registry ''nope'' [] fresh_state
     = (Inr \<lparr>content = ''Error: Unknown tool '' @ [CHR 0x27] @ ''nope'' @ [CHR 0x27], isError = Some True\<rparr>,
        fresh_state)
   \<and> fst (command_execute (exec_world (ExecOk [])) literal_runtime strict_tool
            [(''command'', JStr ''ls''), (''flags'', JStr ''-a''), (''dir'', JStr ''/tmp'')] fresh_state)
     = Inl (JsError ''SyntaxError'' ''Invalid regular expression: /(/: Unterminated group'')
   \<and> fst (executeTool (exec_world (ExecOk [])) literal_runtime run_registry ''run''
            [(''command'', JStr ''ls''), (''flags'', JStr ''-a''), (''dir'', JStr ''/tmp'')] fresh_state)
     = Inr \<lparr>content = ''Error: Invalid regular expression: /(/: Unterminated group'', isError = Some True\<rparr>
   \<and> map_of (tools ping_registry) ''remote_ping''
     = Some \<lparr>registered_tool.config = bare_config ''remote_ping'', executor = BoundRemoteTool remote_proxy ''ping''\<rparr>
   \<and> executor_validateArguments literal_runtime (BoundRemoteTool remote_proxy ''ping'') [(''a'', nested 1000)] = Inr ()
   \<and> executeTool (fetch_world (Response 200 ''OK'' (Inr (JObj [(''result'', JStr ''pong'')])))) literal_runtime
        ping_registry ''remote_ping'' [(''a'', nested 1000)] fresh_state
     = (Inl (JsError ''RangeError'' ''Maximum call stack size exceeded''), fresh_state)"
proof -
  let ?entry = "\<lparr>registered_tool.config = bare_config ''remote_ping'', executor = BoundRemoteTool remote_proxy ''ping''\<rparr>"
  have none: "map_of (tools default_registry) ''nope'' = None"
    by (simp add: default_registry_def)
  note unknown = executeTool_throws_on_deep_arguments
                   [of default_registry "exec_world (ExecOk [])" literal_runtime fresh_state]
  from unknown none
  have 1: "executeTool (exec_world (ExecOk [])) literal_runtime default_registry ''nope'' [] fresh_state
     = (Inr \<lparr>content = ''Error: Unknown tool '' @ sq @ ''nope'' @ sq, isError = Some True\<rparr>, fresh_state)"
    by blast
  have entry: "map_of (tools ping_registry) ''remote_ping'' = Some ?entry"
    by (simp add: ping_registry_def)
  have valid: "executor_validateArguments literal_runtime (BoundRemoteTool remote_proxy ''ping'') [(''a'', nested 1000)]
               = Inr ()"
    by (simp add: executor_validateArguments_def)
  have valid': "executor_validateArguments literal_runtime (executor ?entry)
                  [(''a'', nested (stack_depth literal_runtime))] = Inr ()"
    by (simp add: executor_validateArguments_def)
  note deep = executeTool_throws_on_deep_arguments
                [of ping_registry "fetch_world (Response 200 ''OK'' (Inr (JObj [(''result'', JStr ''pong'')])))"
                    literal_runtime fresh_state "''remote_ping''" _ ?entry]
  from deep entry valid'
  have "executeTool (fetch_world (Response 200 ''OK'' (Inr (JObj [(''result'', JStr ''pong'')])))) literal_runtime
        ping_registry ''remote_ping'' [(''a'', nested (stack_depth literal_runtime))] fresh_state
     = (Inl stack_overflow, fresh_state)"
    by blast
  then have 2: "executeTool (fetch_world (Response 200 ''OK'' (Inr (JObj [(''result'', JStr ''pong'')])))) literal_runtime
        ping_registry ''remote_ping'' [(''a'', nested 1000)] fresh_state
     = (Inl (JsError ''RangeError'' ''Maximum call stack size exceeded''), fresh_state)"
    unfolding literal_depth stack_overflow_def .
  from none 1 strict_tool_throws run_registry_wraps entry valid 2 show ?thesis by (simp add: sq_def)
qed

subsection \<open>Discovery\<close>

lemma createExecutor_proxy:
  assumes "tool_type cfg = Some ''mcp_server''" and "server_url cfg = Some url" and "url \<noteq> []"
  shows "createExecutor rt reg cfg st = (Some (McpProxy (proxy_of rt cfg)), st)"
  using assms by (simp add: createExecutor_def proxy_of_def)

lemma proxy_of_url:
  "server_url cfg = Some url \<Longrightarrow> serverUrl (proxy_of rt cfg) = url"
  by (simp add: proxy_of_def new_McpProxyExecutor_def)

lemma rpc_invoked:
  assumes "json_stringify rt (rpc_body m q) = Inr body"
  shows "invoked (snd (rpc w rt px m q st)) = invoked st @ [Fetch (serverUrl px) (headers px) body]"
  using assms by (simp add: rpc_def Let_def split: fetch_result.splits sum.splits)

lemma rpc_answered:
  assumes "json_stringify rt (rpc_body m q) = Inr body"
    and "on_fetch w (invoked st) (serverUrl px) (headers px) body = Response status phrase (Inr v)"
    and "200 \<le> status" and "status \<le> 299"
  shows "fst (rpc w rt px m q st) = Inr v"
  using assms by (simp add: rpc_def Let_def)

lemma fetchRemoteTools_ping:
  assumes "json_stringify rt (rpc_body (Some (JStr ''tools/list'')) (Some (JObj []))) = Inr body"
    and "on_fetch w (invoked st) (serverUrl px) (headers px) body = Response status phrase (Inr ping_listing)"
    and "200 \<le> status" and "status \<le> 299"
  shows "fst (fetchRemoteTools w rt px st) = [JObj [(''name'', JStr ''ping'')]]"
proof -
  let ?st0 = "log_msg Info (''Fetching remote tools from '' @ serverUrl px) st"
  obtain r st1 where q: "rpc w rt px (Some (JStr ''tools/list'')) (Some (JObj [])) ?st0 = (r, st1)"
    by (cases "rpc w rt px (Some (JStr ''tools/list'')) (Some (JObj [])) ?st0")
  have "fst (rpc w rt px (Some (JStr ''tools/list'')) (Some (JObj [])) ?st0) = Inr ping_listing"
    using assms by (intro rpc_answered[where status = status and phrase = phrase and body = body]) simp_all
  then have r: "r = Inr ping_listing" unfolding q by simp
  show ?thesis
    unfolding fetchRemoteTools_def q r
    by (simp add: ping_listing_def coalesce_def nullish_def opt_get_def tools_listed_def)
qed

lemma bind_ping:
  assumes "tool_prefix cfg = Some pre"
  shows "bind_remote_tools cfg px [JObj [(''name'', JStr ''ping'')]] ts 0 st
         = (None,
            AList.update (pre @ ''ping'')
              \<lparr>registered_tool.config = wrappedConfig cfg (pre @ ''ping'') (JObj [(''name'', JStr ''ping'')]),
               executor = BoundRemoteTool px ''ping''\<rparr> ts,
            1,
            log_msg Info (''Loaded remote tool: '' @ pre @ ''ping'' @ '' (from ping)'') st)"
  using assms by (simp add: Let_def)

lemma loadRemoteMcpTools_ping:
  assumes pre: "tool_prefix cfg = Some pre"
    and timer: "\<not> timer_first w (invoked st)"
    and sent: "json_stringify rt (rpc_body (Some (JStr ''tools/list'')) (Some (JObj []))) = Inr body"
    and answer: "on_fetch w (invoked st) (serverUrl px) (headers px) body = Response status phrase (Inr ping_listing)"
    and ok: "200 \<le> status" "status \<le> 299"
  shows "fst (loadRemoteMcpTools w rt reg cfg px st) = 1"
    and "fst (snd (loadRemoteMcpTools w rt reg cfg px st))
         = reg\<lparr>tools := AList.update (pre @ ''ping'')
              \<lparr>registered_tool.config = wrappedConfig cfg (pre @ ''ping'') (JObj [(''name'', JStr ''ping'')]),
               executor = BoundRemoteTool px ''ping''\<rparr> (tools reg)\<rparr>"
proof -
  let ?st0 = "log_msg Info (''Fetching remote tools from: '' @ name cfg) st"
  obtain ts st1 where f: "fetchRemoteTools w rt px ?st0 = (ts, st1)"
    by (cases "fetchRemoteTools w rt px ?st0")
  have "fst (fetchRemoteTools w rt px ?st0) = [JObj [(''name'', JStr ''ping'')]]"
    using sent answer ok
    by (intro fetchRemoteTools_ping[where status = status and phrase = phrase and body = body]) simp_all
  then have ts: "ts = [JObj [(''name'', JStr ''ping'')]]" unfolding f by simp
  show "fst (loadRemoteMcpTools w rt reg cfg px st) = 1"
    using timer unfolding loadRemoteMcpTools_def Let_def f ts sent
    by (simp add: Let_def pre)
  show "fst (snd (loadRemoteMcpTools w rt reg cfg px st))
         = reg\<lparr>tools := AList.update (pre @ ''ping'')
              \<lparr>registered_tool.config = wrappedConfig cfg (pre @ ''ping'') (JObj [(''name'', JStr ''ping'')]),
               executor = BoundRemoteTool px ''ping''\<rparr> (tools reg)\<rparr>"
    using timer unfolding loadRemoteMcpTools_def Let_def f ts sent
    by (simp add: Let_def pre)
qed

lemma loadSingleTool_discovery:
  assumes "name cfg \<noteq> []" and "enabled cfg \<noteq> Some False"
    and "tool_type cfg = Some ''mcp_server''" and "server_url cfg = Some url" and "url \<noteq> []"
    and "expose_remote_tools cfg = Some True"
  shows "loadSingleTool w rt reg cfg st = loadRemoteMcpTools w rt reg cfg (proxy_of rt cfg) st"
  using assms by (simp add: loadSingleTool_def createExecutor_proxy[where url = url])

text \<open>The request object of a call of the remote tool \<open>n\<close> with the arguments \<open>a\<close>.\<close>

lemma tools_call_body:
  "rpc_body (Some (JStr ''tools/call'')) (Some (JObj [(''name'', JStr n), (''arguments'', a)]))
   = JObj [(''jsonrpc'', JStr ''2.0''),
           (''method'', JStr ''tools/call''),
           (''params'', JObj [(''name'', JStr n), (''arguments'', a)]),
           (''id'', JNum 1)]"
  by (simp add: rpc_body_def)

lemma callTool_bound_invoked:
  assumes "n \<noteq> []"
    and "json_stringify rt (JObj [(''jsonrpc'', JStr ''2.0''),
                                  (''method'', JStr ''tools/call''),
                                  (''params'', JObj [(''name'', JStr n), (''arguments'', args)]),
                                  (''id'', JNum 1)]) = Inr body"
  shows "invoked (snd (callTool w rt px args (Some n) st))
         = invoked st @ [Fetch (serverUrl px) (headers px) body]"
proof -
  have p: "payload_of px args (Some n)
           = (Some (JStr ''tools/call''), Some (JObj [(''name'', JStr n), (''arguments'', args)]))"
    using assms(1) by (simp add: payload_of_def)
  have sent: "json_stringify rt (rpc_body (Some (JStr ''tools/call''))
                                   (Some (JObj [(''name'', JStr n), (''arguments'', args)]))) = Inr body"
    using assms(2) by (simp add: tools_call_body)
  obtain r st1 where q: "rpc w rt px (Some (JStr ''tools/call''))
                            (Some (JObj [(''name'', JStr n), (''arguments'', args)])) st = (r, st1)"
    by (cases "rpc w rt px (Some (JStr ''tools/call''))
                            (Some (JObj [(''name'', JStr n), (''arguments'', args)])) st")
  have st1: "invoked st1 = invoked st @ [Fetch (serverUrl px) (headers px) body]"
    using rpc_invoked[OF sent, of w px st] unfolding q by simp
  show ?thesis
    unfolding callTool_def p fst_conv snd_conv q
    using st1
    by (simp add: callTool_failed_def log_msg_def split: sum.splits)
qed

lemma executeTool_bound_invoked:
  assumes "map_of (tools reg) nm = Some registered" and "executor registered = BoundRemoteTool px n" and "n \<noteq> []"
    and "argPreprocessor rt reg args = Inr processed"
    and "json_stringify rt (JObj [(''jsonrpc'', JStr ''2.0''),
                                  (''method'', JStr ''tools/call''),
                                  (''params'', JObj [(''name'', JStr n), (''arguments'', processed)]),
                                  (''id'', JNum 1)]) = Inr body"
  shows "invoked (snd (executeTool w rt reg nm args st))
         = invoked st @ [Fetch (serverUrl px) (headers px) body]"
  using assms(1,2,4) callTool_bound_invoked[OF assms(3,5), of w px st]
  by (simp add: executeTool_def executor_validateArguments_def executor_execute_def)

text \<open>
  Claim C4, as the code has it. For a proxy definition with a name, not disabled, of
  type \<open>mcp_server\<close> with a URL, with discovery enabled and the prefix \<open>remote_\<close>, whose
  \<open>tools/list\<close> request is answered in time with \<open>{"tools":[{"name":"ping"}]}\<close>, loading
  returns 1 and sets exactly the entry \<open>remote_ping\<close> of the tool map, bound to the
  remote name \<open>ping\<close>. Dispatching \<open>remote_ping\<close> through \<open>executeTool\<close> with arguments
  that \<open>normalizePaths\<close> accepts sends one request, the serialisation of a \<open>tools/call\<close>
  whose \<open>arguments\<close> are the result of \<open>normalizePaths\<close>, when that serialisation
  returns; the bound executor itself sends the arguments it is given.
\<close>

theorem discovered_tool_bound_and_forwarded:
  "name cfg \<noteq> [] \<and> enabled cfg \<noteq> Some False \<and> tool_type cfg = Some ''mcp_server''
     \<and> server_url cfg = Some url \<and> url \<noteq> []
     \<and> expose_remote_tools cfg = Some True \<and> tool_prefix cfg = Some ''remote_''
     \<and> \<not> timer_first w (invoked st)
     \<and> json_stringify rt (JObj [(''jsonrpc'', JStr ''2.0''), (''method'', JStr ''tools/list''),
                                  (''params'', JObj []), (''id'', JNum 1)]) = Inr listing
     \<and> on_fetch w (invoked st) url (headers (proxy_of rt cfg)) listing
        = Response status phrase (Inr ping_listing)
     \<and> 200 \<le> status \<and> status \<le> 299
   \<longrightarrow>
   fst (loadSingleTool w rt reg cfg st) = 1
   \<and> tools (fst (snd (loadSingleTool w rt reg cfg st)))
       = AList.update ''remote_ping''
           \<lparr>registered_tool.config = wrappedConfig cfg ''remote_ping'' (JObj [(''name'', JStr ''ping'')]),
            executor = BoundRemoteTool (proxy_of rt cfg) ''ping''\<rparr>
           (tools reg)
   \<and> (\<forall>w' args st' processed body.
         normalizePaths rt (JObj args) (hostProjectRoot (registry.config reg))
           (containerProjectRoot (registry.config reg)) = Inr processed
         \<and> json_stringify rt (JObj [(''jsonrpc'', JStr ''2.0''),
                                      (''method'', JStr ''tools/call''),
                                      (''params'', JObj [(''name'', JStr ''ping''), (''arguments'', processed)]),
                                      (''id'', JNum 1)]) = Inr body
         \<longrightarrow>
         invoked (snd (executeTool w' rt (fst (snd (loadSingleTool w rt reg cfg st))) ''remote_ping'' args st'))
         = invoked st' @ [Fetch url (headers (proxy_of rt cfg)) body])
   \<and> (\<forall>w' args st' body.
         json_stringify rt (JObj [(''jsonrpc'', JStr ''2.0''),
                                  (''method'', JStr ''tools/call''),
                                  (''params'', JObj [(''name'', JStr ''ping''), (''arguments'', args)]),
                                  (''id'', JNum 1)]) = Inr body
         \<longrightarrow>
         invoked (snd (executor_execute w' rt (BoundRemoteTool (proxy_of rt cfg) ''ping'') args st'))
         = invoked st' @ [Fetch url (headers (proxy_of rt cfg)) body])"
proof (intro impI, elim conjE)
  assume nm: "name cfg \<noteq> []" and en: "enabled cfg \<noteq> Some False"
    and ty: "tool_type cfg = Some ''mcp_server''"
    and url: "server_url cfg = Some url" "url \<noteq> []"
    and ex: "expose_remote_tools cfg = Some True" and pre: "tool_prefix cfg = Some ''remote_''"
    and timer: "\<not> timer_first w (invoked st)"
    and sent: "json_stringify rt (JObj [(''jsonrpc'', JStr ''2.0''), (''method'', JStr ''tools/list''),
                                  (''params'', JObj []), (''id'', JNum 1)]) = Inr listing"
    and answer: "on_fetch w (invoked st) url (headers (proxy_of rt cfg)) listing
        = Response status phrase (Inr ping_listing)"
    and ok: "200 \<le> status" "status \<le> 299"
  let ?px = "proxy_of rt cfg"
  let ?entry = "\<lparr>registered_tool.config = wrappedConfig cfg ''remote_ping'' (JObj [(''name'', JStr ''ping'')]),
                 executor = BoundRemoteTool ?px ''ping''\<rparr>"
  have u: "serverUrl ?px = url"
    using url(1) by (rule proxy_of_url)
  have sent': "json_stringify rt (rpc_body (Some (JStr ''tools/list'')) (Some (JObj []))) = Inr listing"
    using sent by (simp add: rpc_body_def)
  have answer': "on_fetch w (invoked st) (serverUrl ?px) (headers ?px) listing
           = Response status phrase (Inr ping_listing)"
    using answer by (simp add: u)
  have load: "loadSingleTool w rt reg cfg st = loadRemoteMcpTools w rt reg cfg ?px st"
    using nm en ty url ex by (rule loadSingleTool_discovery)
  have count: "fst (loadSingleTool w rt reg cfg st) = 1"
    unfolding load using loadRemoteMcpTools_ping(1)[OF pre timer sent' answer' ok] .
  have reg': "fst (snd (loadSingleTool w rt reg cfg st)) = reg\<lparr>tools := AList.update ''remote_ping'' ?entry (tools reg)\<rparr>"
    unfolding load using loadRemoteMcpTools_ping(2)[OF pre timer sent' answer' ok, of reg] by simp
  have entry: "map_of (tools (reg\<lparr>tools := AList.update ''remote_ping'' ?entry (tools reg)\<rparr>)) ''remote_ping''
               = Some ?entry"
    by (simp add: AList.update_conv')
  have dispatch: "invoked (snd (executeTool w' rt (fst (snd (loadSingleTool w rt reg cfg st))) ''remote_ping'' args st'))
         = invoked st' @ [Fetch url (headers ?px) body]"
    if n: "normalizePaths rt (JObj args) (hostProjectRoot (registry.config reg))
             (containerProjectRoot (registry.config reg)) = Inr processed"
      and b: "json_stringify rt (JObj [(''jsonrpc'', JStr ''2.0''),
                                      (''method'', JStr ''tools/call''),
                                      (''params'', JObj [(''name'', JStr ''ping''), (''arguments'', processed)]),
                                      (''id'', JNum 1)]) = Inr body"
    for w' args st' processed body
  proof -
    have a: "argPreprocessor rt (reg\<lparr>tools := AList.update ''remote_ping'' ?entry (tools reg)\<rparr>) args
             = Inr processed"
      using n by (simp add: argPreprocessor_def)
    show ?thesis
      unfolding reg'
      using executeTool_bound_invoked[OF entry _ _ a b, of ?px w' st'] by (simp add: u)
  qed
  have direct: "invoked (snd (executor_execute w' rt (BoundRemoteTool ?px ''ping'') args st'))
         = invoked st' @ [Fetch url (headers ?px) body]"
    if b: "json_stringify rt (JObj [(''jsonrpc'', JStr ''2.0''),
                                  (''method'', JStr ''tools/call''),
                                  (''params'', JObj [(''name'', JStr ''ping''), (''arguments'', args)]),
                                  (''id'', JNum 1)]) = Inr body"
    for w' args st' body
    using callTool_bound_invoked[OF _ b, of w' ?px st']
    by (simp add: executor_execute_def u)
  have tools': "tools (fst (snd (loadSingleTool w rt reg cfg st)))
       = AList.update ''remote_ping'' ?entry (tools reg)"
    unfolding reg' by simp
  from count tools' dispatch direct
  show "fst (loadSingleTool w rt reg cfg st) = 1
   \<and> tools (fst (snd (loadSingleTool w rt reg cfg st)))
       = AList.update ''remote_ping'' ?entry (tools reg)
   \<and> (\<forall>w' args st' processed body.
         normalizePaths rt (JObj args) (hostProjectRoot (registry.config reg))
           (containerProjectRoot (registry.config reg)) = Inr processed
         \<and> json_stringify rt (JObj [(''jsonrpc'', JStr ''2.0''),
                                      (''method'', JStr ''tools/call''),
                                      (''params'', JObj [(''name'', JStr ''ping''), (''arguments'', processed)]),
                                      (''id'', JNum 1)]) = Inr body
         \<longrightarrow>
         invoked (snd (executeTool w' rt (fst (snd (loadSingleTool w rt reg cfg st))) ''remote_ping'' args st'))
         = invoked st' @ [Fetch url (headers ?px) body])
   \<and> (\<forall>w' args st' body.
         json_stringify rt (JObj [(''jsonrpc'', JStr ''2.0''),
                                  (''method'', JStr ''tools/call''),
                                  (''params'', JObj [(''name'', JStr ''ping''), (''arguments'', args)]),
                                  (''id'', JNum 1)]) = Inr body
         \<longrightarrow>
         invoked (snd (executor_execute w' rt (BoundRemoteTool ?px ''ping'') args st'))
         = invoked st' @ [Fetch url (headers ?px) body])"
    by blast
qed

lemma proxy_of_remote_config: "proxy_of literal_runtime remote_config = remote_proxy"
  by (simp add: proxy_of_def remote_config_def bare_config_def new_McpProxyExecutor_def remote_proxy_def)

theorem discovered_tool_bound_and_forwarded_witness:
  "fst (loadSingleTool (fetch_world (Response 200 ''OK'' (Inr ping_listing))) literal_runtime default_registry
          remote_config fresh_state) = 1
   \<and> map fst (tools (fst (snd (loadSingleTool (fetch_world (Response 200 ''OK'' (Inr ping_listing)))
                                  literal_runtime default_registry remote_config fresh_state))))
       = [''remote_ping'']
   \<and> normalizePaths literal_runtime (JObj [(''host'', JStr ''example.org'')]) ''/workspace'' ''/var/www/html''
       = Inr (JObj [(''host'', JStr ''example.org'')])
   \<and> invoked (snd (executeTool (fetch_world (Response 200 ''OK'' (Inr (JObj [(''result'', JStr ''pong'')]))))
                      literal_runtime
                      (fst (snd (loadSingleTool (fetch_world (Response 200 ''OK'' (Inr ping_listing)))
                                   literal_runtime default_registry remote_config fresh_state)))
                      ''remote_ping'' [(''host'', JStr ''example.org'')] fresh_state))
       = [Fetch ''http://mcp.test/rpc'' [(''Content-Type'', ''application/json'')]
            (compact_json
               (JObj [(''jsonrpc'', JStr ''2.0''),
                      (''method'', JStr ''tools/call''),
                      (''params'', JObj [(''name'', JStr ''ping''),
                                         (''arguments'', JObj [(''host'', JStr ''example.org'')])]),
                      (''id'', JNum 1)]))]"
proof -
  let ?w = "fetch_world (Response 200 ''OK'' (Inr ping_listing))"
  let ?listing = "compact_json (JObj [(''jsonrpc'', JStr ''2.0''), (''method'', JStr ''tools/list''),
                                      (''params'', JObj []), (''id'', JNum 1)])"
  let ?body = "compact_json
               (JObj [(''jsonrpc'', JStr ''2.0''),
                      (''method'', JStr ''tools/call''),
                      (''params'', JObj [(''name'', JStr ''ping''),
                                         (''arguments'', JObj [(''host'', JStr ''example.org'')])]),
                      (''id'', JNum 1)])"
  have cfg: "name remote_config \<noteq> []" "enabled remote_config \<noteq> Some False"
    "tool_type remote_config = Some ''mcp_server''" "server_url remote_config = Some ''http://mcp.test/rpc''"
    "''http://mcp.test/rpc'' \<noteq> []"
    "expose_remote_tools remote_config = Some True" "tool_prefix remote_config = Some ''remote_''"
    by (simp_all add: remote_config_def bare_config_def)
  have timer: "\<not> timer_first ?w (invoked fresh_state)"
    by (simp add: fetch_world_def)
  have sent: "json_stringify literal_runtime (JObj [(''jsonrpc'', JStr ''2.0''), (''method'', JStr ''tools/list''),
                                  (''params'', JObj []), (''id'', JNum 1)]) = Inr ?listing"
    by (rule literal_stringify)
  have answer: "on_fetch ?w (invoked fresh_state) ''http://mcp.test/rpc'' (headers (proxy_of literal_runtime remote_config))
          ?listing = Response 200 ''OK'' (Inr ping_listing)"
    by (simp add: fetch_world_def)
  have ok: "(200::nat) \<le> 200" "(200::nat) \<le> 299"
    by simp_all
  note inst = discovered_tool_bound_and_forwarded
         [of remote_config "''http://mcp.test/rpc''" ?w fresh_state literal_runtime ?listing 200 "''OK''"
             default_registry]
  from inst cfg timer sent answer ok
  have all: "fst (loadSingleTool ?w literal_runtime default_registry remote_config fresh_state) = 1
   \<and> tools (fst (snd (loadSingleTool ?w literal_runtime default_registry remote_config fresh_state)))
       = AList.update ''remote_ping''
           \<lparr>registered_tool.config = wrappedConfig remote_config ''remote_ping'' (JObj [(''name'', JStr ''ping'')]),
            executor = BoundRemoteTool (proxy_of literal_runtime remote_config) ''ping''\<rparr>
           (tools default_registry)
   \<and> (\<forall>w' args st' processed body.
         normalizePaths literal_runtime (JObj args) (hostProjectRoot (registry.config default_registry))
           (containerProjectRoot (registry.config default_registry)) = Inr processed
         \<and> json_stringify literal_runtime
               (JObj [(''jsonrpc'', JStr ''2.0''),
                      (''method'', JStr ''tools/call''),
                      (''params'', JObj [(''name'', JStr ''ping''), (''arguments'', processed)]),
                      (''id'', JNum 1)]) = Inr body
         \<longrightarrow>
         invoked (snd (executeTool w' literal_runtime
                         (fst (snd (loadSingleTool ?w literal_runtime default_registry remote_config fresh_state)))
                         ''remote_ping'' args st'))
         = invoked st' @ [Fetch ''http://mcp.test/rpc'' (headers (proxy_of literal_runtime remote_config)) body])"
    by blast
  have n: "normalizePaths literal_runtime (JObj [(''host'', JStr ''example.org'')]) ''/workspace'' ''/var/www/html''
           = Inr (JObj [(''host'', JStr ''example.org'')])"
    unfolding normalizePaths_def literal_depth by (simp add: normalize_room startsWith_def)
  have n': "normalizePaths literal_runtime (JObj [(''host'', JStr ''example.org'')])
              (hostProjectRoot (registry.config default_registry))
              (containerProjectRoot (registry.config default_registry))
           = Inr (JObj [(''host'', JStr ''example.org'')])"
    using n by (simp add: default_registry_def)
  have b: "json_stringify literal_runtime
               (JObj [(''jsonrpc'', JStr ''2.0''),
                      (''method'', JStr ''tools/call''),
                      (''params'', JObj [(''name'', JStr ''ping''),
                                         (''arguments'', JObj [(''host'', JStr ''example.org'')])]),
                      (''id'', JNum 1)]) = Inr ?body"
    by (rule literal_stringify)
  from all have 1: "fst (loadSingleTool ?w literal_runtime default_registry remote_config fresh_state) = 1"
    by blast
  from all have 2: "map fst (tools (fst (snd (loadSingleTool ?w literal_runtime default_registry remote_config
                                               fresh_state)))) = [''remote_ping'']"
    by (simp add: default_registry_def)
  from all n' b
  have "invoked (snd (executeTool (fetch_world (Response 200 ''OK'' (Inr (JObj [(''result'', JStr ''pong'')]))))
                      literal_runtime
                      (fst (snd (loadSingleTool ?w literal_runtime default_registry remote_config fresh_state)))
                      ''remote_ping'' [(''host'', JStr ''example.org'')] fresh_state))
         = invoked fresh_state @ [Fetch ''http://mcp.test/rpc'' (headers (proxy_of literal_runtime remote_config)) ?body]"
    by blast
  then have 3: "invoked (snd (executeTool (fetch_world (Response 200 ''OK'' (Inr (JObj [(''result'', JStr ''pong'')]))))
                      literal_runtime
                      (fst (snd (loadSingleTool ?w literal_runtime default_registry remote_config fresh_state)))
                      ''remote_ping'' [(''host'', JStr ''example.org'')] fresh_state))
       = [Fetch ''http://mcp.test/rpc'' [(''Content-Type'', ''application/json'')] ?body]"
    unfolding proxy_of_remote_config by (simp add: fresh_state_def remote_proxy_def del: compact_json.simps)
  from 1 2 n 3 show ?thesis by blast
qed

text \<open>
  A path below the host root among the arguments: the request carries the container
  path, not the argument as it was given, and the two requests differ.
\<close>

theorem discovered_tool_bound_and_forwarded_counterexample:
  "fst (loadSingleTool (fetch_world (Response 200 ''OK'' (Inr ping_listing))) literal_runtime default_registry
          remote_config fresh_state) = 1
   \<and> invoked (snd (executeTool (fetch_world (Response 200 ''OK'' (Inr (JObj [(''result'', JStr ''pong'')]))))
                      literal_runtime
                      (fst (snd (loadSingleTool (fetch_world (Response 200 ''OK'' (Inr ping_listing)))
                                   literal_runtime default_registry remote_config fresh_state)))
                      ''remote_ping'' [(''path'', JStr ''/workspace/a'')] fresh_state))
       = [Fetch ''http://mcp.test/rpc'' [(''Content-Type'', ''application/json'')]
            (compact_json
               (JObj [(''jsonrpc'', JStr ''2.0''),
                      (''method'', JStr ''tools/call''),
                      (''params'', JObj [(''name'', JStr ''ping''),
                                         (''arguments'', JObj [(''path'', JStr ''/var/www/html/a'')])]),
                      (''id'', JNum 1)]))]
   \<and> compact_json
         (JObj [(''jsonrpc'', JStr ''2.0''),
                (''method'', JStr ''tools/call''),
                (''params'', JObj [(''name'', JStr ''ping''),
                                   (''arguments'', JObj [(''path'', JStr ''/var/www/html/a'')])]),
                (''id'', JNum 1)])
       \<noteq> compact_json
           (JObj [(''jsonrpc'', JStr ''2.0''),
                  (''method'', JStr ''tools/call''),
                  (''params'', JObj [(''name'', JStr ''ping''),
                                     (''arguments'', JObj [(''path'', JStr ''/workspace/a'')])]),
                  (''id'', JNum 1)])"
proof -
  let ?w = "fetch_world (Response 200 ''OK'' (Inr ping_listing))"
  let ?entry = "\<lparr>registered_tool.config = wrappedConfig remote_config ''remote_ping'' (JObj [(''name'', JStr ''ping'')]),
                 executor = BoundRemoteTool remote_proxy ''ping''\<rparr>"
  let ?listing = "compact_json (rpc_body (Some (JStr ''tools/list'')) (Some (JObj [])))"
  let ?body = "compact_json
               (JObj [(''jsonrpc'', JStr ''2.0''),
                      (''method'', JStr ''tools/call''),
                      (''params'', JObj [(''name'', JStr ''ping''),
                                         (''arguments'', JObj [(''path'', JStr ''/var/www/html/a'')])]),
                      (''id'', JNum 1)])"
  have cfg: "name remote_config \<noteq> []" "enabled remote_config \<noteq> Some False"
    "tool_type remote_config = Some ''mcp_server''" "server_url remote_config = Some ''http://mcp.test/rpc''"
    "''http://mcp.test/rpc'' \<noteq> []"
    "expose_remote_tools remote_config = Some True"
    and pre: "tool_prefix remote_config = Some ''remote_''"
    by (simp_all add: remote_config_def bare_config_def)
  have load: "loadSingleTool ?w literal_runtime default_registry remote_config fresh_state
              = loadRemoteMcpTools ?w literal_runtime default_registry remote_config remote_proxy fresh_state"
    using loadSingleTool_discovery[OF cfg, of ?w literal_runtime default_registry fresh_state]
    by (simp add: proxy_of_remote_config)
  have timer: "\<not> timer_first ?w (invoked fresh_state)"
    by (simp add: fetch_world_def)
  have sent: "json_stringify literal_runtime (rpc_body (Some (JStr ''tools/list'')) (Some (JObj []))) = Inr ?listing"
    by (rule literal_stringify)
  have answer: "on_fetch ?w (invoked fresh_state) (serverUrl remote_proxy) (headers remote_proxy) ?listing
           = Response 200 ''OK'' (Inr ping_listing)"
    by (simp add: fetch_world_def)
  have 1: "fst (loadSingleTool ?w literal_runtime default_registry remote_config fresh_state) = 1"
    unfolding load by (rule loadRemoteMcpTools_ping(1)[OF pre timer sent answer]) simp_all
  have reg': "fst (snd (loadSingleTool ?w literal_runtime default_registry remote_config fresh_state))
              = default_registry\<lparr>tools := AList.update ''remote_ping'' ?entry (tools default_registry)\<rparr>"
    unfolding load using loadRemoteMcpTools_ping(2)[OF pre timer sent answer, of default_registry] by simp
  have entry: "map_of (tools (default_registry\<lparr>tools := AList.update ''remote_ping'' ?entry
                                                         (tools default_registry)\<rparr>)) ''remote_ping''
               = Some ?entry"
    by (simp add: AList.update_conv')
  have n: "argPreprocessor literal_runtime
             (default_registry\<lparr>tools := AList.update ''remote_ping'' ?entry (tools default_registry)\<rparr>)
             [(''path'', JStr ''/workspace/a'')]
           = Inr (JObj [(''path'', JStr ''/var/www/html/a'')])"
    unfolding argPreprocessor_def normalizePaths_def literal_depth
    by (simp add: normalize_room default_registry_def startsWith_def)
  have b: "json_stringify literal_runtime
               (JObj [(''jsonrpc'', JStr ''2.0''),
                      (''method'', JStr ''tools/call''),
                      (''params'', JObj [(''name'', JStr ''ping''),
                                         (''arguments'', JObj [(''path'', JStr ''/var/www/html/a'')])]),
                      (''id'', JNum 1)]) = Inr ?body"
    by (rule literal_stringify)
  have "invoked (snd (executeTool (fetch_world (Response 200 ''OK'' (Inr (JObj [(''result'', JStr ''pong'')]))))
                      literal_runtime
                      (fst (snd (loadSingleTool ?w literal_runtime default_registry remote_config fresh_state)))
                      ''remote_ping'' [(''path'', JStr ''/workspace/a'')] fresh_state))
       = invoked fresh_state @ [Fetch (serverUrl remote_proxy) (headers remote_proxy) ?body]"
    unfolding reg'
    by (rule executeTool_bound_invoked[OF entry _ _ n b]) simp_all
  then have 2: "invoked (snd (executeTool (fetch_world (Response 200 ''OK'' (Inr (JObj [(''result'', JStr ''pong'')]))))
                      literal_runtime
                      (fst (snd (loadSingleTool ?w literal_runtime default_registry remote_config fresh_state)))
                      ''remote_ping'' [(''path'', JStr ''/workspace/a'')] fresh_state))
       = [Fetch ''http://mcp.test/rpc'' [(''Content-Type'', ''application/json'')] ?body]"
    by (simp add: remote_proxy_def fresh_state_def del: compact_json.simps)
  have 3: "?body \<noteq> compact_json
           (JObj [(''jsonrpc'', JStr ''2.0''),
                  (''method'', JStr ''tools/call''),
                  (''params'', JObj [(''name'', JStr ''ping''),
                                     (''arguments'', JObj [(''path'', JStr ''/workspace/a'')])]),
                  (''id'', JNum 1)])"
    by (simp add: quote_json_def escape_char_def dq_def)
  from 1 2 3 show ?thesis by blast
qed

end
